theory Spec2Isabelle
  imports Main
begin

section \<open>The store\<close>

text \<open>
  Both server files (\<^verbatim>\<open>src/backend/server.js\<close> and \<^verbatim>\<open>src/unnamed/part_000\<close>) talk to a
  MySQL database through \<^verbatim>\<open>db.query\<close>. The database is modelled as far as the statements
  of the two files need it: two tables, each with the primary key \<^verbatim>\<open>id INT AUTO_INCREMENT\<close>,
  text columns \<^verbatim>\<open>VARCHAR(255)\<close> (with or without \<^verbatim>\<open>NOT NULL\<close>) and
  \<^verbatim>\<open>created_at TIMESTAMP DEFAULT CURRENT_TIMESTAMP\<close>. A table keeps its rows in primary-key
  order; every insert of the two files carries a key above all keys of the table, so a new
  row goes to the end of the list. Identifiers are integers without the bound of \<^verbatim>\<open>INT\<close>, and
  a text longer than its column is refused (the strict mode of MySQL). A text is the
  sequence of its bytes and its length counts them, where MySQL counts characters: the two
  agree on texts of one-byte characters, and a text of at most 255 bytes has at most 255
  characters, so it fits its column.
\<close>

datatype tbl = Student | Teacher

datatype err =
    Fault nat
  | FileNotFound
  | NoSuchTable tbl
  | UnknownColumn string
  | NoDefaultValue string
  | ColumnCannotBeNull string
  | DataTooLong string
  | DuplicateEntry int
  | UndefinedPool

record row =
  row_id :: int
  row_cells :: "(string \<times> string option) list"
  row_created_at :: nat

record table =
  text_columns :: "(string \<times> bool) list"
  rows :: "row list"
  auto_increment :: int

text \<open>
  The statements the two files send. \<open>CreateTableIfNotExists t cols\<close> lists the text columns
  with their \<^verbatim>\<open>NOT NULL\<close> flag; \<open>InsertInto t i cells\<close> has \<open>i = None\<close> when the statement
  does not mention the column \<^verbatim>\<open>id\<close>; a cell \<open>(c, None)\<close> sends \<^verbatim>\<open>NULL\<close> for column \<open>c\<close>.
\<close>

datatype stmt =
    Select1
  | CreateTableIfNotExists tbl "(string \<times> bool) list"
  | SelectAll tbl
  | SelectMaxId tbl
  | InsertInto tbl "int option" "(string \<times> string option) list"
  | DeleteWhereId tbl int
  | SelectIdOrderById tbl
  | UpdateSetId tbl int int

datatype result =
    Done
  | RowSet "row list"
  | MaxId "int option"
  | Ids "int list"

fun max_id :: "int list \<Rightarrow> int option" where
  "max_id [] = None"
| "max_id (x # xs) = Some (fold max xs x)"

fun cell_value :: "string \<Rightarrow> bool \<Rightarrow> string option option \<Rightarrow> err + string option" where
  "cell_value c nn None = (if nn then Inl (NoDefaultValue c) else Inr None)"
| "cell_value c nn (Some None) = (if nn then Inl (ColumnCannotBeNull c) else Inr None)"
| "cell_value c nn (Some (Some s)) =
     (if 255 < length s then Inl (DataTooLong c) else Inr (Some s))"

fun insert_cells ::
  "(string \<times> bool) list \<Rightarrow> (string \<times> string option) list \<Rightarrow> err + (string \<times> string option) list"
where
  "insert_cells [] given = Inr []"
| "insert_cells ((c, nn) # cols) given =
     (case cell_value c nn (map_of given c) of
        Inl e \<Rightarrow> Inl e
      | Inr v \<Rightarrow>
          (case insert_cells cols given of
             Inl e \<Rightarrow> Inl e
           | Inr vs \<Rightarrow> Inr ((c, v) # vs)))"

definition set_id :: "int \<Rightarrow> int \<Rightarrow> row \<Rightarrow> row" where
  "set_id new old r = (if row_id r = old then r\<lparr>row_id := new\<rparr> else r)"

type_synonym tables = "tbl \<Rightarrow> table option"

fun exec :: "stmt \<Rightarrow> nat \<Rightarrow> tables \<Rightarrow> err + (result \<times> tables)" where
  "exec Select1 now ts = Inr (Done, ts)"
| "exec (CreateTableIfNotExists t cols) now ts =
     (case ts t of
        Some tb \<Rightarrow> Inr (Done, ts)
      | None \<Rightarrow> Inr (Done, ts(t := Some \<lparr>text_columns = cols, rows = [], auto_increment = 1\<rparr>)))"
| "exec (SelectAll t) now ts =
     (case ts t of
        None \<Rightarrow> Inl (NoSuchTable t)
      | Some tb \<Rightarrow> Inr (RowSet (rows tb), ts))"
| "exec (SelectMaxId t) now ts =
     (case ts t of
        None \<Rightarrow> Inl (NoSuchTable t)
      | Some tb \<Rightarrow> Inr (MaxId (max_id (map row_id (rows tb))), ts))"
| "exec (InsertInto t i given) now ts =
     (case ts t of
        None \<Rightarrow> Inl (NoSuchTable t)
      | Some tb \<Rightarrow>
          (case find (\<lambda>c. c \<notin> set (map fst (text_columns tb))) (map fst given) of
             Some c \<Rightarrow> Inl (UnknownColumn c)
           | None \<Rightarrow>
               (case insert_cells (text_columns tb) given of
                  Inl e \<Rightarrow> Inl e
                | Inr cs \<Rightarrow>
                    (case (case i of None \<Rightarrow> None | Some k \<Rightarrow> if k = 0 then None else Some k) of
                       None \<Rightarrow>
                         Inr (Done, ts(t := Some (tb\<lparr>
                           rows := rows tb @
                             [\<lparr>row_id = auto_increment tb, row_cells = cs, row_created_at = now\<rparr>],
                           auto_increment := auto_increment tb + 1\<rparr>)))
                     | Some k \<Rightarrow>
                         if k \<in> set (map row_id (rows tb)) then Inl (DuplicateEntry k)
                         else
                           Inr (Done, ts(t := Some (tb\<lparr>
                             rows := rows tb @
                               [\<lparr>row_id = k, row_cells = cs, row_created_at = now\<rparr>],
                             auto_increment := max (auto_increment tb) (k + 1)\<rparr>)))))))"
| "exec (DeleteWhereId t k) now ts =
     (case ts t of
        None \<Rightarrow> Inl (NoSuchTable t)
      | Some tb \<Rightarrow> Inr (Done, ts(t := Some (tb\<lparr>rows := filter (\<lambda>r. row_id r \<noteq> k) (rows tb)\<rparr>))))"
| "exec (SelectIdOrderById t) now ts =
     (case ts t of
        None \<Rightarrow> Inl (NoSuchTable t)
      | Some tb \<Rightarrow> Inr (Ids (sort (map row_id (rows tb))), ts))"
| "exec (UpdateSetId t new old) now ts =
     (case ts t of
        None \<Rightarrow> Inl (NoSuchTable t)
      | Some tb \<Rightarrow>
          if old \<notin> set (map row_id (rows tb)) \<or> new = old then Inr (Done, ts)
          else if new \<in> set (map row_id (rows tb)) then Inl (DuplicateEntry new)
          else Inr (Done, ts(t := Some (tb\<lparr>rows := map (set_id new old) (rows tb)\<rparr>))))"

section \<open>The process and its surroundings\<close>

datatype log_entry =
    MissingEnv string
  | Connected int
  | ConnectionFailed int int err
  | Retrying int
  | TablesEnsured
  | ErrorEnsuringTables err
  | ErrorAdding tbl err
  | ErrorDeleting tbl err
  | Running nat
  | Fatal err

text \<open>
  What the process can see and change: its environment variables, the database, whether the
  certificate bundle \<^verbatim>\<open>/app/global-bundle.pem\<close> can be read, the clock of the database, the
  console and the timers it has waited for. \<open>faults\<close> is the script of the coming
  \<^verbatim>\<open>db.query\<close> calls: \<open>Some e\<close> makes the next call fail with \<open>e\<close>, \<open>None\<close> lets it reach
  the database, and after the end of the script every call reaches the database.
\<close>

record world =
  env :: "string \<Rightarrow> string option"
  ca_bundle :: bool
  faults :: "err option list"
  tables :: tables
  clock :: nat
  console :: "log_entry list"
  timers :: "int list"

definition say :: "log_entry \<Rightarrow> world \<Rightarrow> world" where
  "say l w = w\<lparr>console := console w @ [l]\<rparr>"

definition run :: "stmt \<Rightarrow> world \<Rightarrow> (err + result) \<times> world" where
  "run s w =
     (case exec s (clock w) (tables w) of
        Inl e \<Rightarrow> (Inl e, w)
      | Inr (r, ts) \<Rightarrow> (Inr r, w\<lparr>tables := ts\<rparr>))"

fun query :: "stmt \<Rightarrow> world \<Rightarrow> (err + result) \<times> world" where
  "query s w =
     (case faults w of
        [] \<Rightarrow> run s w
      | None # fs \<Rightarrow> run s (w\<lparr>faults := fs\<rparr>)
      | Some e # fs \<Rightarrow> (Inl e, w\<lparr>faults := fs\<rparr>))"


text \<open>
  JavaScript's truth value of an environment variable or of a text field of a request body:
  \<^verbatim>\<open>undefined\<close> (and \<^verbatim>\<open>null\<close>), here \<open>None\<close>, and the empty string are falsy.
\<close>

fun truthy :: "string option \<Rightarrow> bool" where
  "truthy None = False"
| "truthy (Some s) = (s \<noteq> [])"

section \<open>Fail-fast check of the environment\<close>

definition REQUIRED_ENV_VARS :: "string list" where
  "REQUIRED_ENV_VARS = [''DB_HOST'', ''DB_USER'', ''DB_PASSWORD'', ''DB_NAME'']"

text \<open>
  \<^verbatim>\<open>REQUIRED_ENV_VARS.forEach\<close>: \<^verbatim>\<open>process.exit(1)\<close> ends the process at the first key whose
  value is falsy, so the keys after it are not looked at.
\<close>

definition missing_env :: "world \<Rightarrow> string option" where
  "missing_env w = find (\<lambda>key. \<not> truthy (env w key)) REQUIRED_ENV_VARS"

section \<open>Connection with retries\<close>

text \<open>
  JavaScript numbers, as far as a port needs them. \<open>Num n\<close> is the integer \<open>n\<close>, of magnitude
  at most \<open>2 ^ 53\<close> (negative zero is \<open>Num 0\<close>); \<open>NaN\<close> is not-a-number; \<open>Inexact\<close> stands
  for every other number (a fraction, an infinity, a larger integer), which the
  model does not compute.
\<close>

datatype js_number = Num int | NaN | Inexact

text \<open>
  \<^verbatim>\<open>Number(s)\<close> of a string, after the grammar of numeric strings of the language: white
  space (here in its UTF-8 bytes) is trimmed; the empty string is 0; then come the
  literals \<^verbatim>\<open>0x\<close>, \<^verbatim>\<open>0o\<close>, \<^verbatim>\<open>0b\<close>, or an optional sign and \<^verbatim>\<open>Infinity\<close> or decimal digits
  with an optional fraction and exponent; every other string is \<open>NaN\<close>. A numeral whose
  value is not an integer of magnitude at most \<open>2 ^ 53\<close> gives \<open>Inexact\<close>: the rounding
  to a floating-point number is not modelled.
\<close>

definition white_space :: "string list" where
  "white_space =
     map (\<lambda>a. [a]) [CHR 0x09, CHR 0x0A, CHR 0x0B, CHR 0x0C, CHR 0x0D, CHR 0x20] @
     map (\<lambda>(a, b). [a, b]) [(CHR 0xC2, CHR 0xA0)] @
     map (\<lambda>(a, b, c). [a, b, c])
       [(CHR 0xE1, CHR 0x9A, CHR 0x80),
        (CHR 0xE2, CHR 0x80, CHR 0x80), (CHR 0xE2, CHR 0x80, CHR 0x81),
        (CHR 0xE2, CHR 0x80, CHR 0x82), (CHR 0xE2, CHR 0x80, CHR 0x83),
        (CHR 0xE2, CHR 0x80, CHR 0x84), (CHR 0xE2, CHR 0x80, CHR 0x85),
        (CHR 0xE2, CHR 0x80, CHR 0x86), (CHR 0xE2, CHR 0x80, CHR 0x87),
        (CHR 0xE2, CHR 0x80, CHR 0x88), (CHR 0xE2, CHR 0x80, CHR 0x89),
        (CHR 0xE2, CHR 0x80, CHR 0x8A), (CHR 0xE2, CHR 0x80, CHR 0xA8),
        (CHR 0xE2, CHR 0x80, CHR 0xA9), (CHR 0xE2, CHR 0x80, CHR 0xAF),
        (CHR 0xE2, CHR 0x81, CHR 0x9F), (CHR 0xE3, CHR 0x80, CHR 0x80),
        (CHR 0xEF, CHR 0xBB, CHR 0xBF)]"

function strip :: "string list \<Rightarrow> string \<Rightarrow> string" where
  "strip tokens s =
     (case find (\<lambda>t. t \<noteq> [] \<and> take (length t) s = t) tokens of
        None \<Rightarrow> s
      | Some t \<Rightarrow> strip tokens (drop (length t) s))"
  by pat_completeness auto
termination
proof (relation "measure (\<lambda>(tokens, s). length s)")
  show "wf (measure (\<lambda>(tokens, s). length s))" by simp
next
  fix tokens :: "string list" and s t :: string
  assume "find (\<lambda>t. t \<noteq> [] \<and> take (length t) s = t) tokens = Some t"
  then have "t \<noteq> []" and "take (length t) s = t"
    by (auto simp add: find_Some_iff)
  have "length t \<le> length s"
    using arg_cong [OF \<open>take (length t) s = t\<close>, of length] by simp
  moreover have "0 < length t"
    using \<open>t \<noteq> []\<close> by simp
  ultimately show "((tokens, drop (length t) s), (tokens, s)) \<in> measure (\<lambda>(tokens, s). length s)"
    by (cases t) auto
qed

definition trim :: "string \<Rightarrow> string" where
  "trim s = rev (strip (map rev white_space) (rev (strip white_space s)))"

definition digit_of :: "int \<Rightarrow> char \<Rightarrow> int option" where
  "digit_of base c =
     (let n = of_char c :: int;
          d = (if 48 \<le> n \<and> n \<le> 57 then Some (n - 48)
               else if 97 \<le> n \<and> n \<le> 102 then Some (n - 87)
               else if 65 \<le> n \<and> n \<le> 70 then Some (n - 55)
               else None)
      in case d of None \<Rightarrow> None | Some v \<Rightarrow> if v < base then Some v else None)"

definition is_digit :: "char \<Rightarrow> bool" where
  "is_digit c = (digit_of 10 c \<noteq> None)"

fun digits_value :: "int \<Rightarrow> int \<Rightarrow> string \<Rightarrow> int option" where
  "digits_value base acc [] = Some acc"
| "digits_value base acc (c # cs) =
     (case digit_of base c of
        None \<Rightarrow> None
      | Some d \<Rightarrow> digits_value base (acc * base + d) cs)"

definition exact :: "int \<Rightarrow> js_number" where
  "exact v = (if \<bar>v\<bar> \<le> 2 ^ 53 then Num v else Inexact)"

definition radix_literal :: "int \<Rightarrow> string \<Rightarrow> js_number" where
  "radix_literal base ds =
     (if ds = [] then NaN
      else case digits_value base 0 ds of None \<Rightarrow> NaN | Some n \<Rightarrow> exact n)"

fun signed :: "string \<Rightarrow> bool \<times> string" where
  "signed [] = (False, [])"
| "signed (c # cs) =
     (if c = CHR ''+'' then (False, cs) else if c = CHR ''-'' then (True, cs) else (False, c # cs))"

definition exponent_part :: "string \<Rightarrow> int option" where
  "exponent_part r =
     (case r of
        [] \<Rightarrow> Some 0
      | c # cs \<Rightarrow>
          if c = CHR ''e'' \<or> c = CHR ''E'' then
            (case signed cs of
               (neg, ds) \<Rightarrow>
                 if ds = [] then None
                 else
                   (case digits_value 10 0 ds of
                      None \<Rightarrow> None
                    | Some n \<Rightarrow> Some (if neg then - n else n)))
          else None)"

definition scaled :: "bool \<Rightarrow> nat \<Rightarrow> int \<Rightarrow> int \<Rightarrow> js_number" where
  "scaled neg len m e =
     (if m = 0 then Num 0
      else if 0 \<le> e then
        (if e \<le> 16 then exact ((if neg then - 1 else 1) * m * 10 ^ nat e) else Inexact)
      else if - e \<le> int len \<and> 10 ^ nat (- e) dvd m then
        exact ((if neg then - 1 else 1) * (m div 10 ^ nat (- e)))
      else Inexact)"

definition decimal_literal :: "string \<Rightarrow> js_number" where
  "decimal_literal t =
     (case signed t of
        (neg, u) \<Rightarrow>
          if u = ''Infinity'' then Inexact
          else
            (let ip = takeWhile is_digit u;
                 r1 = dropWhile is_digit u;
                 fp = (case r1 of [] \<Rightarrow> [] | c # cs \<Rightarrow>
                         if c = CHR ''.'' then takeWhile is_digit cs else []);
                 r2 = (case r1 of [] \<Rightarrow> [] | c # cs \<Rightarrow>
                         if c = CHR ''.'' then dropWhile is_digit cs else r1)
             in if ip = [] \<and> fp = [] then NaN
                else
                  (case (digits_value 10 0 (ip @ fp), exponent_part r2) of
                     (Some m, Some e) \<Rightarrow> scaled neg (length (ip @ fp)) m (e - int (length fp))
                   | other \<Rightarrow> NaN)))"

definition Number :: "string \<Rightarrow> js_number" where
  "Number s =
     (let t = trim s
      in if t = [] then Num 0
         else if take 2 t = ''0x'' \<or> take 2 t = ''0X'' then radix_literal 16 (drop 2 t)
         else if take 2 t = ''0o'' \<or> take 2 t = ''0O'' then radix_literal 8 (drop 2 t)
         else if take 2 t = ''0b'' \<or> take 2 t = ''0B'' then radix_literal 2 (drop 2 t)
         else decimal_literal t)"

record pool =
  host :: "string option"
  user :: "string option"
  password :: "string option"
  database :: "string option"
  port :: js_number

datatype 'a completion = Returned 'a | Undefined | Thrown err

text \<open>
  \<^verbatim>\<open>src/backend/server.js\<close>: \<^verbatim>\<open>port: Number(process.env.DB_PORT || 3306)\<close>. A \<open>pool\<close> is the
  configuration that \<^verbatim>\<open>mysql.createPool\<close> is given; what the driver does with a port that is
  not the number of a port is not modelled.
\<close>

definition createPool :: "world \<Rightarrow> pool" where
  "createPool w =
     \<lparr>host = env w ''DB_HOST'', user = env w ''DB_USER'', password = env w ''DB_PASSWORD'',
      database = env w ''DB_NAME'',
      port = (case env w ''DB_PORT'' of
                None \<Rightarrow> Num 3306
              | Some s \<Rightarrow> if s = [] then Num 3306 else Number s)\<rparr>"

text \<open>\<^verbatim>\<open>src/unnamed/part_000\<close>: \<^verbatim>\<open>port: 3306\<close>.\<close>

definition createPool_p0 :: "world \<Rightarrow> pool" where
  "createPool_p0 w =
     \<lparr>host = env w ''DB_HOST'', user = env w ''DB_USER'', password = env w ''DB_PASSWORD'',
      database = env w ''DB_NAME'', port = Num 3306\<rparr>"

text \<open>
  The body of the \<^verbatim>\<open>try\<close> block of one attempt: create the pool, then
  \<^verbatim>\<open>await pool.query('SELECT 1')\<close>. In \<^verbatim>\<open>part_000\<close> the pool's configuration first reads the
  certificate bundle with \<^verbatim>\<open>fs.readFileSync\<close>, which throws when the file cannot be read.
\<close>

definition try_connect :: "world \<Rightarrow> (err + pool) \<times> world" where
  "try_connect w =
     (case query Select1 w of
        (Inl e, w') \<Rightarrow> (Inl e, w')
      | (Inr r, w') \<Rightarrow> (Inr (createPool w), w'))"

definition try_connect_p0 :: "world \<Rightarrow> (err + pool) \<times> world" where
  "try_connect_p0 w =
     (if \<not> ca_bundle w then (Inl FileNotFound, w)
      else
        (case query Select1 w of
           (Inl e, w') \<Rightarrow> (Inl e, w')
         | (Inr r, w') \<Rightarrow> (Inr (createPool_p0 w), w')))"

text \<open>
  The loop \<^verbatim>\<open>for (let attempt = 1; attempt <= retries; attempt++)\<close> of \<^verbatim>\<open>connectWithRetry\<close>,
  the same in both files, from the value \<open>attempt\<close> on.
\<close>

function connect_loop ::
  "(world \<Rightarrow> (err + pool) \<times> world) \<Rightarrow> int \<Rightarrow> int \<Rightarrow> int \<Rightarrow> world \<Rightarrow> pool completion \<times> world"
where
  "connect_loop once retries delay attempt w =
     (if attempt \<le> retries then
        (case once w of
           (Inr p, w') \<Rightarrow> (Returned p, say (Connected attempt) w')
         | (Inl e, w') \<Rightarrow>
             (if attempt = retries then (Thrown e, say (ConnectionFailed attempt retries e) w')
              else
                connect_loop once retries delay (attempt + 1)
                  ((say (Retrying delay) (say (ConnectionFailed attempt retries e) w'))
                     \<lparr>timers := timers w' @ [delay]\<rparr>)))
      else (Undefined, w))"
  by pat_completeness auto
termination
  by (relation "measure (\<lambda>(once, retries, delay, attempt, w). nat (retries + 1 - attempt))") auto

text \<open>
  \<^verbatim>\<open>async (retries = 10, delay = 3000)\<close>: an argument left out takes its default. The two
  numbers are integers here.
\<close>

definition connectWithRetry ::
  "int option \<Rightarrow> int option \<Rightarrow> world \<Rightarrow> pool completion \<times> world" where
  "connectWithRetry retries delay w =
     connect_loop try_connect
       (case retries of None \<Rightarrow> 10 | Some r \<Rightarrow> r) (case delay of None \<Rightarrow> 3000 | Some d \<Rightarrow> d) 1 w"

definition connectWithRetry_p0 ::
  "int option \<Rightarrow> int option \<Rightarrow> world \<Rightarrow> pool completion \<times> world" where
  "connectWithRetry_p0 retries delay w =
     connect_loop try_connect_p0
       (case retries of None \<Rightarrow> 10 | Some r \<Rightarrow> r) (case delay of None \<Rightarrow> 3000 | Some d \<Rightarrow> d) 1 w"


section \<open>Schema\<close>

text \<open>
  \<^verbatim>\<open>ensureTables\<close> of \<^verbatim>\<open>src/backend/server.js\<close>: both tables have the text columns
  \<^verbatim>\<open>NOT NULL\<close>, and the class column is called \<^verbatim>\<open>class_name\<close>. An error is logged and thrown
  again; the result is the error thrown, if any.
\<close>

definition ensureTables :: "world \<Rightarrow> err option \<times> world" where
  "ensureTables w =
     (case query (CreateTableIfNotExists Student
                    [(''name'', True), (''roll_number'', True), (''class_name'', True)]) w of
        (Inl e, w1) \<Rightarrow> (Some e, say (ErrorEnsuringTables e) w1)
      | (Inr r1, w1) \<Rightarrow>
          (case query (CreateTableIfNotExists Teacher
                         [(''name'', True), (''subject'', True), (''class_name'', True)]) w1 of
             (Inl e, w2) \<Rightarrow> (Some e, say (ErrorEnsuringTables e) w2)
           | (Inr r2, w2) \<Rightarrow> (None, say TablesEnsured w2)))"

text \<open>
  \<^verbatim>\<open>ensureTables\<close> of \<^verbatim>\<open>src/unnamed/part_000\<close>: the text columns may be \<^verbatim>\<open>NULL\<close>, and the
  class column is called \<^verbatim>\<open>class\<close>.
\<close>

definition ensureTables_p0 :: "world \<Rightarrow> err option \<times> world" where
  "ensureTables_p0 w =
     (case query (CreateTableIfNotExists Student
                    [(''name'', False), (''roll_number'', False), (''class'', False)]) w of
        (Inl e, w1) \<Rightarrow> (Some e, say (ErrorEnsuringTables e) w1)
      | (Inr r1, w1) \<Rightarrow>
          (case query (CreateTableIfNotExists Teacher
                         [(''name'', False), (''subject'', False), (''class'', False)]) w1 of
             (Inl e, w2) \<Rightarrow> (Some e, say (ErrorEnsuringTables e) w2)
           | (Inr r2, w2) \<Rightarrow> (None, say TablesEnsured w2)))"

section \<open>Start of the process\<close>

datatype proc = Exited int | Listening nat

text \<open>
  The top level of a server file: the check of the environment, then the asynchronous
  initialization: \<^verbatim>\<open>connectWithRetry()\<close> with its defaults, \<^verbatim>\<open>ensureTables\<close>, the registration
  of the routes and \<^verbatim>\<open>app.listen(3500)\<close>. An error on the way is logged and the process
  exits with status 1. \<^verbatim>\<open>ensureTables(undefined)\<close> would fail on \<^verbatim>\<open>db.query\<close> with a
  \<^verbatim>\<open>TypeError\<close>, caught and thrown again like a failed query.
\<close>

definition startup ::
  "(world \<Rightarrow> pool completion \<times> world) \<Rightarrow> (world \<Rightarrow> err option \<times> world) \<Rightarrow> world \<Rightarrow> proc \<times> world"
where
  "startup connect ensure w =
     (case missing_env w of
        Some key \<Rightarrow> (Exited 1, say (MissingEnv key) w)
      | None \<Rightarrow>
          (case connect w of
             (Thrown e, w1) \<Rightarrow> (Exited 1, say (Fatal e) w1)
           | (Undefined, w1) \<Rightarrow>
               (Exited 1, say (Fatal UndefinedPool) (say (ErrorEnsuringTables UndefinedPool) w1))
           | (Returned p, w1) \<Rightarrow>
               (case ensure w1 of
                  (Some e, w2) \<Rightarrow> (Exited 1, say (Fatal e) w2)
                | (None, w2) \<Rightarrow> (Listening 3500, say (Running 3500) w2))))"

definition main :: "world \<Rightarrow> proc \<times> world" where
  "main w = startup (connectWithRetry None None) ensureTables w"

definition main_p0 :: "world \<Rightarrow> proc \<times> world" where
  "main_p0 w = startup (connectWithRetry_p0 None None) ensureTables_p0 w"

section \<open>Request handlers\<close>

datatype body =
    Status string
  | Message string
  | Error string
  | Records "row list"
  | Envelope string "row list"

text \<open>
  A handler either sends a response (\<^verbatim>\<open>res.json\<close> alone sends status 200) or ends with an
  error that nothing in the handler catches.
\<close>

datatype outcome = Responded nat body | Threw err

fun rows_of :: "result \<Rightarrow> row list" where
  "rows_of (RowSet rs) = rs"
| "rows_of r = []"

subsection \<open>Probes and lists, the same in both files\<close>

definition get_health :: "world \<Rightarrow> outcome \<times> world" where
  "get_health w = (Responded 200 (Status ''UP''), w)"

definition get_ready :: "world \<Rightarrow> outcome \<times> world" where
  "get_ready w =
     (case query Select1 w of
        (Inr r, w') \<Rightarrow> (Responded 200 (Status ''READY''), w')
      | (Inl e, w') \<Rightarrow> (Responded 500 (Status ''NOT_READY''), w'))"

definition get_root :: "world \<Rightarrow> outcome \<times> world" where
  "get_root w =
     (case query (SelectAll Student) w of
        (Inl e, w') \<Rightarrow> (Threw e, w')
      | (Inr r, w') \<Rightarrow> (Responded 200 (Envelope ''From Backend'' (rows_of r)), w'))"

definition get_list :: "tbl \<Rightarrow> world \<Rightarrow> outcome \<times> world" where
  "get_list t w =
     (case query (SelectAll t) w of
        (Inl e, w') \<Rightarrow> (Threw e, w')
      | (Inr r, w') \<Rightarrow> (Responded 200 (Records (rows_of r)), w'))"

definition get_student :: "world \<Rightarrow> outcome \<times> world" where
  "get_student = get_list Student"

definition get_teacher :: "world \<Rightarrow> outcome \<times> world" where
  "get_teacher = get_list Teacher"

subsection \<open>Create and delete in \<^verbatim>\<open>src/backend/server.js\<close>\<close>

text \<open>
  The text fields of the request body are \<open>None\<close> when the key is missing (or \<^verbatim>\<open>null\<close>). The
  identifier of a delete request is the number the database reads the path parameter as.
\<close>

definition post_addstudent ::
  "string option \<Rightarrow> string option \<Rightarrow> string option \<Rightarrow> world \<Rightarrow> outcome \<times> world" where
  "post_addstudent name rollNo className w =
     (if \<not> truthy name \<or> \<not> truthy rollNo \<or> \<not> truthy className then
        (Responded 400 (Error ''Invalid payload: name, rollNo, class required''), w)
      else
        (case query (InsertInto Student None
                       [(''name'', name), (''roll_number'', rollNo), (''class_name'', className)]) w of
           (Inl e, w') \<Rightarrow>
             (Responded 500 (Error ''Internal server error''), say (ErrorAdding Student e) w')
         | (Inr r, w') \<Rightarrow> (Responded 201 (Message ''Student added successfully''), w')))"

definition post_addteacher ::
  "string option \<Rightarrow> string option \<Rightarrow> string option \<Rightarrow> world \<Rightarrow> outcome \<times> world" where
  "post_addteacher name subject className w =
     (if \<not> truthy name \<or> \<not> truthy subject \<or> \<not> truthy className then
        (Responded 400 (Error ''Invalid payload''), w)
      else
        (case query (InsertInto Teacher None
                       [(''name'', name), (''subject'', subject), (''class'', className)]) w of
           (Inl e, w') \<Rightarrow>
             (Responded 500 (Error ''Internal server error''), say (ErrorAdding Teacher e) w')
         | (Inr r, w') \<Rightarrow> (Responded 201 (Message ''Teacher added successfully''), w')))"

definition delete_by_id :: "tbl \<Rightarrow> string \<Rightarrow> int \<Rightarrow> world \<Rightarrow> outcome \<times> world" where
  "delete_by_id t msg k w =
     (case query (DeleteWhereId t k) w of
        (Inl e, w') \<Rightarrow>
          (Responded 500 (Error ''Internal server error''), say (ErrorDeleting t e) w')
      | (Inr r, w') \<Rightarrow> (Responded 200 (Message msg), w'))"

definition delete_student :: "int \<Rightarrow> world \<Rightarrow> outcome \<times> world" where
  "delete_student = delete_by_id Student ''Student deleted successfully''"

definition delete_teacher :: "int \<Rightarrow> world \<Rightarrow> outcome \<times> world" where
  "delete_teacher = delete_by_id Teacher ''Teacher deleted successfully''"

subsection \<open>Create and delete in \<^verbatim>\<open>src/unnamed/part_000\<close>\<close>

text \<open>
  \<^verbatim>\<open>getLastStudentID\<close> and \<^verbatim>\<open>getLastTeacherID\<close>: \<^verbatim>\<open>result[0].lastID || 0\<close> is 0 for the
  \<^verbatim>\<open>NULL\<close> of an empty table (and for a maximum of 0).
\<close>

definition getLastID :: "tbl \<Rightarrow> world \<Rightarrow> (err + int) \<times> world" where
  "getLastID t w =
     (case query (SelectMaxId t) w of
        (Inl e, w') \<Rightarrow> (Inl e, w')
      | (Inr (MaxId (Some k)), w') \<Rightarrow> (Inr k, w')
      | (Inr r, w') \<Rightarrow> (Inr 0, w'))"

definition getLastStudentID :: "world \<Rightarrow> (err + int) \<times> world" where
  "getLastStudentID = getLastID Student"

definition getLastTeacherID :: "world \<Rightarrow> (err + int) \<times> world" where
  "getLastTeacherID = getLastID Teacher"

text \<open>No check of the fields, no \<^verbatim>\<open>try\<close>, and the identifier is sent with the row.\<close>

definition post_addstudent_p0 ::
  "string option \<Rightarrow> string option \<Rightarrow> string option \<Rightarrow> world \<Rightarrow> outcome \<times> world" where
  "post_addstudent_p0 name rollNo className w =
     (case getLastStudentID w of
        (Inl e, w1) \<Rightarrow> (Threw e, w1)
      | (Inr lastID, w1) \<Rightarrow>
          (case query (InsertInto Student (Some (lastID + 1))
                         [(''name'', name), (''roll_number'', rollNo), (''class'', className)]) w1 of
             (Inl e, w2) \<Rightarrow> (Threw e, w2)
           | (Inr r, w2) \<Rightarrow> (Responded 200 (Message ''Student added successfully''), w2)))"

definition post_addteacher_p0 ::
  "string option \<Rightarrow> string option \<Rightarrow> string option \<Rightarrow> world \<Rightarrow> outcome \<times> world" where
  "post_addteacher_p0 name subject className w =
     (case getLastTeacherID w of
        (Inl e, w1) \<Rightarrow> (Threw e, w1)
      | (Inr lastID, w1) \<Rightarrow>
          (case query (InsertInto Teacher (Some (lastID + 1))
                         [(''name'', name), (''subject'', subject), (''class'', className)]) w1 of
             (Inl e, w2) \<Rightarrow> (Threw e, w2)
           | (Inr r, w2) \<Rightarrow> (Responded 200 (Message ''Teacher added successfully''), w2)))"

text \<open>
  \<^verbatim>\<open>rows.map((row, index) => db.query('UPDATE ... SET id = ? WHERE id = ?', [index + 1, row.id]))\<close>
  under \<^verbatim>\<open>Promise.all\<close>: every update is sent, and the first error, if any, is the one
  thrown. The updates are taken one after the other in the order of \<open>rows\<close>, in which they are
  issued. A pool may run them on several connections and so in another order, in which an
  update can meet an identifier that is still in use; what is proved of the renumbering
  holds for the order of issue only.
\<close>

fun renumber :: "tbl \<Rightarrow> int \<Rightarrow> int list \<Rightarrow> world \<Rightarrow> err option \<times> world" where
  "renumber t index [] w = (None, w)"
| "renumber t index (k # ks) w =
     (case query (UpdateSetId t (index + 1) k) w of
        (r, w1) \<Rightarrow>
          (case renumber t (index + 1) ks w1 of
             (later, w2) \<Rightarrow> ((case r of Inl e \<Rightarrow> Some e | Inr d \<Rightarrow> later), w2)))"

fun ids_of :: "result \<Rightarrow> int list" where
  "ids_of (Ids ks) = ks"
| "ids_of r = []"

definition delete_by_id_p0 :: "tbl \<Rightarrow> string \<Rightarrow> int \<Rightarrow> world \<Rightarrow> outcome \<times> world" where
  "delete_by_id_p0 t msg k w =
     (case query (DeleteWhereId t k) w of
        (Inl e, w1) \<Rightarrow> (Threw e, w1)
      | (Inr r1, w1) \<Rightarrow>
          (case query (SelectIdOrderById t) w1 of
             (Inl e, w2) \<Rightarrow> (Threw e, w2)
           | (Inr r2, w2) \<Rightarrow>
               (case renumber t 0 (ids_of r2) w2 of
                  (Some e, w3) \<Rightarrow> (Threw e, w3)
                | (None, w3) \<Rightarrow> (Responded 200 (Message msg), w3))))"

definition delete_student_p0 :: "int \<Rightarrow> world \<Rightarrow> outcome \<times> world" where
  "delete_student_p0 = delete_by_id_p0 Student ''Student deleted successfully''"

definition delete_teacher_p0 :: "int \<Rightarrow> world \<Rightarrow> outcome \<times> world" where
  "delete_teacher_p0 = delete_by_id_p0 Teacher ''Teacher deleted successfully''"

subsection \<open>The routes\<close>

datatype request =
    GetHealth
  | GetReady
  | GetRoot
  | GetStudent
  | GetTeacher
  | AddStudent "string option" "string option" "string option"
  | AddTeacher "string option" "string option" "string option"
  | DeleteStudent int
  | DeleteTeacher int

text \<open>The routes registered by \<^verbatim>\<open>src/backend/server.js\<close>.\<close>

fun handle :: "request \<Rightarrow> world \<Rightarrow> outcome \<times> world" where
  "handle GetHealth w = get_health w"
| "handle GetReady w = get_ready w"
| "handle GetRoot w = get_root w"
| "handle GetStudent w = get_student w"
| "handle GetTeacher w = get_teacher w"
| "handle (AddStudent name rollNo className) w = post_addstudent name rollNo className w"
| "handle (AddTeacher name subject className) w = post_addteacher name subject className w"
| "handle (DeleteStudent k) w = delete_student k w"
| "handle (DeleteTeacher k) w = delete_teacher k w"

text \<open>The routes registered by \<^verbatim>\<open>src/unnamed/part_000\<close>.\<close>

fun handle_p0 :: "request \<Rightarrow> world \<Rightarrow> outcome \<times> world" where
  "handle_p0 GetHealth w = get_health w"
| "handle_p0 GetReady w = get_ready w"
| "handle_p0 GetRoot w = get_root w"
| "handle_p0 GetStudent w = get_student w"
| "handle_p0 GetTeacher w = get_teacher w"
| "handle_p0 (AddStudent name rollNo className) w = post_addstudent_p0 name rollNo className w"
| "handle_p0 (AddTeacher name subject className) w = post_addteacher_p0 name subject className w"
| "handle_p0 (DeleteStudent k) w = delete_student_p0 k w"
| "handle_p0 (DeleteTeacher k) w = delete_teacher_p0 k w"

text \<open>Requests handled one after the other; the result is the world after the last one.\<close>

fun serve :: "(request \<Rightarrow> world \<Rightarrow> outcome \<times> world) \<Rightarrow> request list \<Rightarrow> world \<Rightarrow> world" where
  "serve h [] w = w"
| "serve h (rq # rqs) w = serve h rqs (snd (h rq w))"

section \<open>Notions used to state the properties\<close>

text \<open>The number that a string of decimal digits denotes.\<close>

definition decimal :: "string \<Rightarrow> int" where
  "decimal s = foldl (\<lambda>a c. a * 10 + (of_char c - 48)) 0 s"

text \<open>The number of attempts that fail before the store answers.\<close>

definition failures_first :: "world \<Rightarrow> nat" where
  "failures_first w = length (takeWhile (\<lambda>f. f \<noteq> None) (faults w))"

text \<open>The next query reaches the database; all coming queries do.\<close>

definition next_ok :: "world \<Rightarrow> bool" where
  "next_ok w = (case faults w of Some e # fs \<Rightarrow> False | fs \<Rightarrow> True)"

definition quiet :: "world \<Rightarrow> bool" where
  "quiet w = list_all (\<lambda>f. f = None) (faults w)"

text \<open>
  A table as the handlers leave it: the identifiers ascend along the rows (so no two rows
  share one), are at least 1 and lie below the counter of the table, which is at least 1.
\<close>

definition wf_table :: "table \<Rightarrow> bool" where
  "wf_table tb =
     (1 \<le> auto_increment tb \<and> sorted_wrt (<) (map row_id (rows tb)) \<and>
      list_all (\<lambda>r. 1 \<le> row_id r \<and> row_id r < auto_increment tb) (rows tb))"

definition wf_tables :: "tables \<Rightarrow> bool" where
  "wf_tables ts =
     ((case ts Student of None \<Rightarrow> True | Some tb \<Rightarrow> wf_table tb) \<and>
      (case ts Teacher of None \<Rightarrow> True | Some tb \<Rightarrow> wf_table tb))"

text \<open>
  \<open>grows a b\<close>: every row of \<open>b\<close> is a row of \<open>a\<close>, unchanged, or carries an identifier that
  the counter of \<open>a\<close> had not reached; the counter has not gone back.
\<close>

fun grows :: "table option \<Rightarrow> table option \<Rightarrow> bool" where
  "grows None None = True"
| "grows (Some a) (Some b) =
     (text_columns b = text_columns a \<and> auto_increment a \<le> auto_increment b \<and>
      list_all (\<lambda>r. r \<in> set (rows a) \<or> auto_increment a \<le> row_id r) (rows b))"
| "grows a b = False"

text \<open>The rows numbered 1, 2, ... in their order, all else kept.\<close>

fun renumbered :: "int \<Rightarrow> row list \<Rightarrow> row list" where
  "renumbered index [] = []"
| "renumbered index (r # rs) = r\<lparr>row_id := index + 1\<rparr> # renumbered (index + 1) rs"

text \<open>The text columns that the two files create.\<close>

definition student_columns :: "(string \<times> bool) list" where
  "student_columns = [(''name'', True), (''roll_number'', True), (''class_name'', True)]"

definition student_columns_p0 :: "(string \<times> bool) list" where
  "student_columns_p0 = [(''name'', False), (''roll_number'', False), (''class'', False)]"

definition short :: "string option \<Rightarrow> bool" where
  "short x = (case x of None \<Rightarrow> True | Some s \<Rightarrow> length s \<le> 255)"

definition teacher_columns :: "(string \<times> bool) list" where
  "teacher_columns = [(''name'', True), (''subject'', True), (''class_name'', True)]"

definition teacher_columns_p0 :: "(string \<times> bool) list" where
  "teacher_columns_p0 = [(''name'', False), (''subject'', False), (''class'', False)]"

text \<open>The identifier that \<^verbatim>\<open>part_000\<close> computes for a new row: the last one plus one.\<close>

definition next_id :: "table \<Rightarrow> int" where
  "next_id tb = (case max_id (map row_id (rows tb)) of None \<Rightarrow> 0 | Some k \<Rightarrow> k) + 1"

text \<open>
  The statements that leave the identifiers to the store: no insert with an identifier, no
  update of an identifier, no change of the schema.
\<close>

fun store_assigned :: "stmt \<Rightarrow> bool" where
  "store_assigned (InsertInto t (Some k) given) = False"
| "store_assigned (UpdateSetId t new old) = False"
| "store_assigned (CreateTableIfNotExists t cols) = False"
| "store_assigned s = True"

text \<open>The list and delete requests of a resource, and the message of its delete handler.\<close>

fun list_route :: "tbl \<Rightarrow> request" where
  "list_route Student = GetStudent"
| "list_route Teacher = GetTeacher"

fun delete_route :: "tbl \<Rightarrow> int \<Rightarrow> request" where
  "delete_route Student k = DeleteStudent k"
| "delete_route Teacher k = DeleteTeacher k"

fun deleted :: "tbl \<Rightarrow> string" where
  "deleted Student = ''Student deleted successfully''"
| "deleted Teacher = ''Teacher deleted successfully''"

section \<open>Worlds used as concrete inputs\<close>

definition fresh :: world where
  "fresh =
     \<lparr>env = [''DB_HOST'' \<mapsto> ''db'', ''DB_USER'' \<mapsto> ''app'', ''DB_PASSWORD'' \<mapsto> ''secret'',
             ''DB_NAME'' \<mapsto> ''school''],
      ca_bundle = True, faults = [], tables = (\<lambda>t. None), clock = 0, console = [],
      timers = []\<rparr>"

text \<open>The worlds after a start on a fresh database, for each file.\<close>

definition served :: world where
  "served = snd (main fresh)"

definition served_p0 :: world where
  "served_p0 = snd (main_p0 fresh)"

text \<open>Two students added through the handlers of \<^verbatim>\<open>part_000\<close>.\<close>

definition two_students_p0 :: world where
  "two_students_p0 =
     serve handle_p0
       [AddStudent (Some ''Ann'') (Some ''7'') (Some ''5A''),
        AddStudent (Some ''Bea'') (Some ''8'') (Some ''5A'')] served_p0"

text \<open>The same two students added through the handlers of \<^verbatim>\<open>server.js\<close>.\<close>

definition two_students :: world where
  "two_students =
     serve handle
       [AddStudent (Some ''Ann'') (Some ''7'') (Some ''5A''),
        AddStudent (Some ''Bea'') (Some ''8'') (Some ''5A'')] served"

text \<open>The rows and tables of these worlds.\<close>

definition student :: "int \<Rightarrow> string \<Rightarrow> string \<Rightarrow> string \<Rightarrow> string \<Rightarrow> row" where
  "student k class_column name rollNo className =
     \<lparr>row_id = k,
      row_cells = [(''name'', Some name), (''roll_number'', Some rollNo),
                   (class_column, Some className)],
      row_created_at = 0\<rparr>"

definition ann_bea :: table where
  "ann_bea =
     \<lparr>text_columns = student_columns,
      rows = [student 1 ''class_name'' ''Ann'' ''7'' ''5A'',
              student 2 ''class_name'' ''Bea'' ''8'' ''5A''],
      auto_increment = 3\<rparr>"

definition ann_bea_p0 :: table where
  "ann_bea_p0 =
     \<lparr>text_columns = student_columns_p0,
      rows = [student 1 ''class'' ''Ann'' ''7'' ''5A'', student 2 ''class'' ''Bea'' ''8'' ''5A''],
      auto_increment = 3\<rparr>"

text \<open>Two students added, the first deleted, a third added.\<close>

definition four_requests :: "request list" where
  "four_requests =
     [AddStudent (Some ''Ann'') (Some ''7'') (Some ''5A''),
      AddStudent (Some ''Bea'') (Some ''8'') (Some ''5A''),
      DeleteStudent 1,
      AddStudent (Some ''Cy'') (Some ''9'') (Some ''5A'')]"

text \<open>The store out of reach for the next query.\<close>

definition store_down :: world where
  "store_down = served\<lparr>faults := [Some (Fault 7)]\<rparr>"

definition store_down_p0 :: world where
  "store_down_p0 = two_students_p0\<lparr>faults := [Some (Fault 7)]\<rparr>"

text \<open>A store that fails twice and then answers.\<close>

definition flaky :: world where
  "flaky = fresh\<lparr>faults := [Some (Fault 1), Some (Fault 2)]\<rparr>"

text \<open>The port set in the environment; a required variable not set.\<close>

definition custom_port :: world where
  "custom_port = fresh\<lparr>env := (env fresh)(''DB_PORT'' \<mapsto> ''3307'')\<rparr>"

definition no_user :: world where
  "no_user = fresh\<lparr>env := (env fresh)(''DB_USER'' := None)\<rparr>"

text \<open>Two required variables not set.\<close>

definition no_host_no_name :: world where
  "no_host_no_name = fresh\<lparr>env := (env fresh)(''DB_HOST'' := None, ''DB_NAME'' := None)\<rparr>"

text \<open>The store out of reach for the second, or for the third, query.\<close>

definition insert_fails_p0 :: world where
  "insert_fails_p0 = two_students_p0\<lparr>faults := [None, Some (Fault 7)]\<rparr>"

definition update_fails_p0 :: world where
  "update_fails_p0 = two_students_p0\<lparr>faults := [None, None, Some (Fault 7)]\<rparr>"

section \<open>The store and its script of faults\<close>

lemma query_Nil: "faults w = [] \<Longrightarrow> query s w = run s w"
  by simp

lemma query_None: "faults w = None # fs \<Longrightarrow> query s w = run s (w\<lparr>faults := fs\<rparr>)"
  by simp

lemma query_Some: "faults w = Some e # fs \<Longrightarrow> query s w = (Inl e, w\<lparr>faults := fs\<rparr>)"
  by simp

lemma run_Select1: "run Select1 w = (Inr Done, w)"
  by (simp add: run_def)

declare query.simps [simp del]

lemma faults_Nil_idem: "faults w = [] \<Longrightarrow> w\<lparr>faults := []\<rparr> = w"
  by (cases w) simp

lemma query_next_ok: "next_ok w \<Longrightarrow> query s w = run s (w\<lparr>faults := tl (faults w)\<rparr>)"
  by (cases "faults w")
     (auto simp add: next_ok_def query.simps faults_Nil_idem split: option.splits)

lemma query_not_next_ok:
  "\<not> next_ok w \<Longrightarrow> \<exists>e. hd (faults w) = Some e \<and> query s w = (Inl e, w\<lparr>faults := tl (faults w)\<rparr>)"
  by (cases "faults w") (auto simp add: next_ok_def query.simps split: option.splits)

lemma query_Select1_ok: "(\<exists>r. fst (query Select1 w) = Inr r) = next_ok w"
proof (cases "next_ok w")
  case True
  then show ?thesis by (simp add: query_next_ok run_Select1)
next
  case False
  from query_not_next_ok [OF this, of Select1] False show ?thesis by auto
qed

lemma run_frame:
  "env (snd (run s w)) = env w" "ca_bundle (snd (run s w)) = ca_bundle w"
  "faults (snd (run s w)) = faults w" "clock (snd (run s w)) = clock w"
  "console (snd (run s w)) = console w" "timers (snd (run s w)) = timers w"
  by (simp_all add: run_def split: sum.splits prod.splits)

lemma query_frame:
  "env (snd (query s w)) = env w" "ca_bundle (snd (query s w)) = ca_bundle w"
  "faults (snd (query s w)) = tl (faults w)" "clock (snd (query s w)) = clock w"
  "console (snd (query s w)) = console w" "timers (snd (query s w)) = timers w"
  by (simp_all add: query.simps run_frame split: list.splits option.splits)


section \<open>Properties of the connection loop\<close>

declare connect_loop.simps [simp del]

text \<open>
  C9. When \<open>retries \<le> 0\<close> the loop body of \<^verbatim>\<open>connectWithRetry\<close> never runs: the call
  resolves to \<^verbatim>\<open>undefined\<close>, neither a pool nor an error, and nothing else has happened (no
  query, no log line, no timer). This holds for the function of both files.
\<close>

theorem connectWithRetry_no_attempt:
  "retries \<le> 0 \<Longrightarrow>
     connectWithRetry (Some retries) delay w = (Undefined, w) \<and>
     connectWithRetry_p0 (Some retries) delay w = (Undefined, w)"
  by (simp add: connectWithRetry_def connectWithRetry_p0_def connect_loop.simps)

theorem connectWithRetry_no_attempt_witness:
  "(0::int) \<le> 0 \<and>
   connectWithRetry (Some 0) (Some 3000) fresh = (Undefined, fresh) \<and>
   connectWithRetry_p0 (Some 0) (Some 3000) fresh = (Undefined, fresh)"
  using connectWithRetry_no_attempt [of 0 "Some 3000" fresh] by simp

lemma connect_loop_script:
  assumes t1: "\<And>w. ok w \<Longrightarrow> faults w = [] \<Longrightarrow> once w = (Inr (mk w), w)"
    and t2: "\<And>w fs. ok w \<Longrightarrow> faults w = None # fs \<Longrightarrow> once w = (Inr (mk w), w\<lparr>faults := fs\<rparr>)"
    and t3: "\<And>w e fs. ok w \<Longrightarrow> faults w = Some e # fs \<Longrightarrow> once w = (Inl e, w\<lparr>faults := fs\<rparr>)"
    and ok: "\<And>w fs c d. ok w \<Longrightarrow> ok (w\<lparr>faults := fs, console := c, timers := d\<rparr>)"
    and mk: "\<And>w fs c d. mk (w\<lparr>faults := fs, console := c, timers := d\<rparr>) = mk w"
  shows "faults w = xs \<Longrightarrow> ok w \<Longrightarrow> a \<le> retries \<Longrightarrow>
    (a + int (length (takeWhile (\<lambda>f. f \<noteq> None) xs)) \<le> retries \<longrightarrow>
       fst (connect_loop once retries delay a w) = Returned (mk w) \<and>
       timers (snd (connect_loop once retries delay a w)) =
         timers w @ replicate (length (takeWhile (\<lambda>f. f \<noteq> None) xs)) delay \<and>
       last (console (snd (connect_loop once retries delay a w))) =
         Connected (a + int (length (takeWhile (\<lambda>f. f \<noteq> None) xs)))) \<and>
    (retries < a + int (length (takeWhile (\<lambda>f. f \<noteq> None) xs)) \<longrightarrow>
       (\<exists>e. xs ! nat (retries - a) = Some e \<and>
            fst (connect_loop once retries delay a w) = Thrown e) \<and>
       timers (snd (connect_loop once retries delay a w)) =
         timers w @ replicate (nat (retries - a)) delay)"
proof (induction xs arbitrary: w a)
  case Nil
  have "connect_loop once retries delay a w = (Returned (mk w), say (Connected a) w)"
    using Nil by (subst connect_loop.simps) (simp add: t1)
  with Nil show ?case
    by (simp add: say_def)
next
  case (Cons x fs)
  show ?case
  proof (cases x)
    case None
    have "connect_loop once retries delay a w =
            (Returned (mk w), say (Connected a) (w\<lparr>faults := fs\<rparr>))"
      using Cons.prems None by (subst connect_loop.simps) (simp add: t2)
    with Cons.prems None show ?thesis
      by (simp add: say_def)
  next
    case (Some e)
    have t: "once w = (Inl e, w\<lparr>faults := fs\<rparr>)"
      using t3 Cons.prems Some by simp
    show ?thesis
    proof (cases "a = retries")
      case True
      have "connect_loop once retries delay a w =
              (Thrown e, say (ConnectionFailed a retries e) (w\<lparr>faults := fs\<rparr>))"
        using True t by (subst connect_loop.simps) simp
      with True Some show ?thesis
        by (simp add: say_def)
    next
      case False
      define w' where
        "w' = w\<lparr>faults := fs,
                 console := console w @ [ConnectionFailed a retries e, Retrying delay],
                 timers := timers w @ [delay]\<rparr>"
      have step: "connect_loop once retries delay a w = connect_loop once retries delay (a + 1) w'"
        using False Cons.prems(3) t
        by (subst connect_loop.simps) (simp add: say_def w'_def)
      have f: "faults w' = fs" by (simp add: w'_def)
      have o: "ok w'" unfolding w'_def using ok Cons.prems(2) by blast
      have m: "mk w' = mk w" unfolding w'_def using mk by blast
      have a': "a + 1 \<le> retries" using False Cons.prems(3) by simp
      have tm: "timers w' = timers w @ [delay]" by (simp add: w'_def)
      have n: "nat (retries - a) = Suc (nat (retries - (a + 1)))" using a' by simp
      from Cons.IH[OF f o a'] show ?thesis
        unfolding step m tm Some n
        by (simp add: replicate_append_same add.commute add.left_commute)
    qed
  qed
qed

lemma try_connect_script:
  "faults w = [] \<Longrightarrow> try_connect w = (Inr (createPool w), w)"
  "faults w = None # fs \<Longrightarrow> try_connect w = (Inr (createPool w), w\<lparr>faults := fs\<rparr>)"
  "faults w = Some e # fs \<Longrightarrow> try_connect w = (Inl e, w\<lparr>faults := fs\<rparr>)"
  by (simp_all add: try_connect_def query.simps run_Select1)

lemma try_connect_p0_script:
  "ca_bundle w \<Longrightarrow> faults w = [] \<Longrightarrow> try_connect_p0 w = (Inr (createPool_p0 w), w)"
  "ca_bundle w \<Longrightarrow> faults w = None # fs \<Longrightarrow>
     try_connect_p0 w = (Inr (createPool_p0 w), w\<lparr>faults := fs\<rparr>)"
  "ca_bundle w \<Longrightarrow> faults w = Some e # fs \<Longrightarrow> try_connect_p0 w = (Inl e, w\<lparr>faults := fs\<rparr>)"
  by (simp_all add: try_connect_p0_def query.simps run_Select1)


lemma connect_loop_server:
  assumes "1 \<le> retries"
  shows "(int (failures_first w) < retries \<longrightarrow>
       fst (connect_loop try_connect retries delay 1 w) = Returned (createPool w) \<and>
       timers (snd (connect_loop try_connect retries delay 1 w)) =
         timers w @ replicate (failures_first w) delay \<and>
       last (console (snd (connect_loop try_connect retries delay 1 w))) =
         Connected (int (failures_first w) + 1)) \<and>
    (retries \<le> int (failures_first w) \<longrightarrow>
       (\<exists>e. faults w ! nat (retries - 1) = Some e \<and>
            fst (connect_loop try_connect retries delay 1 w) = Thrown e) \<and>
       timers (snd (connect_loop try_connect retries delay 1 w)) =
         timers w @ replicate (nat (retries - 1)) delay)"
proof -
  have "(1 + int (length (takeWhile (\<lambda>f. f \<noteq> None) (faults w))) \<le> retries \<longrightarrow>
       fst (connect_loop try_connect retries delay 1 w) = Returned (createPool w) \<and>
       timers (snd (connect_loop try_connect retries delay 1 w)) =
         timers w @ replicate (length (takeWhile (\<lambda>f. f \<noteq> None) (faults w))) delay \<and>
       last (console (snd (connect_loop try_connect retries delay 1 w))) =
         Connected (1 + int (length (takeWhile (\<lambda>f. f \<noteq> None) (faults w))))) \<and>
    (retries < 1 + int (length (takeWhile (\<lambda>f. f \<noteq> None) (faults w))) \<longrightarrow>
       (\<exists>e. faults w ! nat (retries - 1) = Some e \<and>
            fst (connect_loop try_connect retries delay 1 w) = Thrown e) \<and>
       timers (snd (connect_loop try_connect retries delay 1 w)) =
         timers w @ replicate (nat (retries - 1)) delay)"
    by (rule connect_loop_script [where ok = "\<lambda>w. True"])
       (simp_all add: try_connect_script createPool_def assms)
  then show ?thesis
    unfolding failures_first_def by (simp add: add.commute)
qed

lemma connect_loop_p0:
  assumes "1 \<le> retries" and "ca_bundle w"
  shows "(int (failures_first w) < retries \<longrightarrow>
       fst (connect_loop try_connect_p0 retries delay 1 w) = Returned (createPool_p0 w) \<and>
       timers (snd (connect_loop try_connect_p0 retries delay 1 w)) =
         timers w @ replicate (failures_first w) delay \<and>
       last (console (snd (connect_loop try_connect_p0 retries delay 1 w))) =
         Connected (int (failures_first w) + 1)) \<and>
    (retries \<le> int (failures_first w) \<longrightarrow>
       (\<exists>e. faults w ! nat (retries - 1) = Some e \<and>
            fst (connect_loop try_connect_p0 retries delay 1 w) = Thrown e) \<and>
       timers (snd (connect_loop try_connect_p0 retries delay 1 w)) =
         timers w @ replicate (nat (retries - 1)) delay)"
proof -
  have "(1 + int (length (takeWhile (\<lambda>f. f \<noteq> None) (faults w))) \<le> retries \<longrightarrow>
       fst (connect_loop try_connect_p0 retries delay 1 w) = Returned (createPool_p0 w) \<and>
       timers (snd (connect_loop try_connect_p0 retries delay 1 w)) =
         timers w @ replicate (length (takeWhile (\<lambda>f. f \<noteq> None) (faults w))) delay \<and>
       last (console (snd (connect_loop try_connect_p0 retries delay 1 w))) =
         Connected (1 + int (length (takeWhile (\<lambda>f. f \<noteq> None) (faults w))))) \<and>
    (retries < 1 + int (length (takeWhile (\<lambda>f. f \<noteq> None) (faults w))) \<longrightarrow>
       (\<exists>e. faults w ! nat (retries - 1) = Some e \<and>
            fst (connect_loop try_connect_p0 retries delay 1 w) = Thrown e) \<and>
       timers (snd (connect_loop try_connect_p0 retries delay 1 w)) =
         timers w @ replicate (nat (retries - 1)) delay)"
    by (rule connect_loop_script [where ok = ca_bundle])
       (simp_all add: try_connect_p0_script createPool_p0_def assms)
  then show ?thesis
    unfolding failures_first_def by (simp add: add.commute)
qed

text \<open>
  C3, as the code has it. For \<open>retries \<ge> 1\<close> and a store whose first \<open>failures_first w\<close>
  attempts fail: when that number is below \<open>retries\<close>, \<^verbatim>\<open>connectWithRetry\<close> returns the pool
  on the attempt after the failures, having waited \<open>delay\<close> after each failure; otherwise it
  throws the error of attempt number \<open>retries\<close>, the last one. \<^verbatim>\<open>part_000\<close> does the same
  when its certificate bundle can be read. The defaults are 10 attempts and 3000 ms.
\<close>

theorem connectWithRetry_attempts:
  assumes "1 \<le> retries"
  shows "(int (failures_first w) < retries \<longrightarrow>
            fst (connectWithRetry (Some retries) (Some delay) w) = Returned (createPool w) \<and>
            last (console (snd (connectWithRetry (Some retries) (Some delay) w))) =
              Connected (int (failures_first w) + 1) \<and>
            timers (snd (connectWithRetry (Some retries) (Some delay) w)) =
              timers w @ replicate (failures_first w) delay \<and>
            (ca_bundle w \<longrightarrow>
               fst (connectWithRetry_p0 (Some retries) (Some delay) w) = Returned (createPool_p0 w) \<and>
               last (console (snd (connectWithRetry_p0 (Some retries) (Some delay) w))) =
                 Connected (int (failures_first w) + 1) \<and>
               timers (snd (connectWithRetry_p0 (Some retries) (Some delay) w)) =
                 timers w @ replicate (failures_first w) delay)) \<and>
         (retries \<le> int (failures_first w) \<longrightarrow>
            (\<exists>e. faults w ! nat (retries - 1) = Some e \<and>
                 fst (connectWithRetry (Some retries) (Some delay) w) = Thrown e \<and>
                 (ca_bundle w \<longrightarrow>
                    fst (connectWithRetry_p0 (Some retries) (Some delay) w) = Thrown e))) \<and>
         connectWithRetry None None w = connectWithRetry (Some 10) (Some 3000) w \<and>
         connectWithRetry_p0 None None w = connectWithRetry_p0 (Some 10) (Some 3000) w"
  using connect_loop_server [OF assms, of w delay] connect_loop_p0 [OF assms, of w delay]
  by (auto simp add: connectWithRetry_def connectWithRetry_p0_def)

theorem connectWithRetry_attempts_witness:
  "fst (connectWithRetry (Some 3) (Some 3000) flaky) = Returned (createPool flaky) \<and>
   fst (connectWithRetry_p0 (Some 3) (Some 3000) flaky) = Returned (createPool_p0 flaky) \<and>
   timers (snd (connectWithRetry (Some 3) (Some 3000) flaky)) = [3000, 3000] \<and>
   fst (connectWithRetry (Some 2) (Some 3000) flaky) = Thrown (Fault 2) \<and>
   fst (connectWithRetry_p0 (Some 2) (Some 3000) flaky) = Thrown (Fault 2)"
  using connectWithRetry_attempts [of 3 flaky 3000] connectWithRetry_attempts [of 2 flaky 3000]
  by (simp add: failures_first_def flaky_def fresh_def)

text \<open>
  C3 as stated fails for \<open>retries = 0\<close>: the store of \<open>fresh\<close> answers the first attempt, so
  attempt 1 is beyond \<open>retries\<close> and the claim asks for the last attempt's error, but there is
  no attempt and the call resolves to \<^verbatim>\<open>undefined\<close>.
\<close>

theorem connectWithRetry_zero_attempts_counterexample:
  "fst (connectWithRetry (Some 0) (Some 3000) fresh) = Undefined \<and>
   failures_first fresh = 0"
  by (simp add: connectWithRetry_def connect_loop.simps failures_first_def fresh_def)

section \<open>Probes\<close>

text \<open>
  C6. \<^verbatim>\<open>GET /health\<close> always answers 200 \<^verbatim>\<open>{status: "UP"}\<close>. \<^verbatim>\<open>GET /ready\<close> answers 200
  \<^verbatim>\<open>{status: "READY"}\<close> exactly when its \<^verbatim>\<open>SELECT 1\<close> succeeds, which is when the next query
  reaches the store, and 500 \<^verbatim>\<open>{status: "NOT_READY"}\<close> exactly when the query fails; it
  never ends with an error. The handlers are the same in both files.
\<close>

theorem probes:
  "get_health w = (Responded 200 (Status ''UP''), w) \<and>
   (fst (get_ready w) = Responded 200 (Status ''READY'')) = (\<exists>r. fst (query Select1 w) = Inr r) \<and>
   (fst (get_ready w) = Responded 500 (Status ''NOT_READY'')) = (\<exists>e. fst (query Select1 w) = Inl e) \<and>
   (fst (get_ready w) = Responded 200 (Status ''READY'')) = next_ok w \<and>
   (\<forall>e. fst (get_ready w) \<noteq> Threw e)"
proof -
  have "get_health w = (Responded 200 (Status ''UP''), w)"
    by (simp add: get_health_def)
  moreover have r: "(fst (get_ready w) = Responded 200 (Status ''READY'')) =
      (\<exists>r. fst (query Select1 w) = Inr r)"
    by (cases "query Select1 w"; cases "fst (query Select1 w)") (auto simp add: get_ready_def)
  moreover have "(fst (get_ready w) = Responded 500 (Status ''NOT_READY'')) =
      (\<exists>e. fst (query Select1 w) = Inl e)"
    by (cases "query Select1 w"; cases "fst (query Select1 w)") (auto simp add: get_ready_def)
  moreover have "(fst (get_ready w) = Responded 200 (Status ''READY'')) = next_ok w"
    using r query_Select1_ok by simp
  moreover have "\<forall>e. fst (get_ready w) \<noteq> Threw e"
    by (cases "query Select1 w"; cases "fst (query Select1 w)") (auto simp add: get_ready_def)
  ultimately show ?thesis by blast
qed

lemma next_ok_fresh: "next_ok fresh"
  by (simp add: next_ok_def fresh_def)

lemma not_next_ok_flaky: "\<not> next_ok flaky"
  by (simp add: next_ok_def flaky_def)

theorem probes_witness:
  "fst (get_health flaky) = Responded 200 (Status ''UP'') \<and>
   fst (get_ready fresh) = Responded 200 (Status ''READY'') \<and>
   fst (get_ready flaky) = Responded 500 (Status ''NOT_READY'')"
proof -
  from probes [of fresh] next_ok_fresh
  have "fst (get_ready fresh) = Responded 200 (Status ''READY'')" by blast
  moreover from probes [of flaky] not_next_ok_flaky
  have "fst (get_ready flaky) = Responded 500 (Status ''NOT_READY'')"
    by (metis old.sum.exhaust)
  ultimately show ?thesis
    using probes [of flaky] by simp
qed

section \<open>Start of the process\<close>

lemma missing_env_find:
  assumes "key \<in> set ks" and "\<not> truthy (env w key)"
  shows "\<exists>k. find (\<lambda>key. \<not> truthy (env w key)) ks = Some k \<and> k \<in> set ks \<and> \<not> truthy (env w k) \<and>
             list_all (\<lambda>k'. truthy (env w k')) (takeWhile (\<lambda>x. x \<noteq> k) ks) \<and>
             (list_all (\<lambda>k'. truthy (env w k')) (takeWhile (\<lambda>x. x \<noteq> key) ks) \<longrightarrow> k = key)"
  using assms by (induction ks) auto

text \<open>
  C7, as the code has it. When a required key is unset or empty, the process of either file
  exits with status 1 after one more line on the console, which names the first key of
  \<open>REQUIRED_ENV_VARS\<close> without a value: the key itself when the keys before it have values.
  Nothing else has happened: the script of the store, the tables and the timers are as
  before, so no connection was tried, no table made and no listener opened.
\<close>

theorem missing_env_exits:
  assumes "key \<in> set REQUIRED_ENV_VARS" and "\<not> truthy (env w key)"
  shows "\<exists>k. k \<in> set REQUIRED_ENV_VARS \<and> \<not> truthy (env w k) \<and>
             list_all (\<lambda>k'. truthy (env w k')) (takeWhile (\<lambda>x. x \<noteq> k) REQUIRED_ENV_VARS) \<and>
             (list_all (\<lambda>k'. truthy (env w k')) (takeWhile (\<lambda>x. x \<noteq> key) REQUIRED_ENV_VARS)
                \<longrightarrow> k = key) \<and>
             fst (main w) = Exited 1 \<and>
             console (snd (main w)) = console w @ [MissingEnv k] \<and>
             faults (snd (main w)) = faults w \<and>
             tables (snd (main w)) = tables w \<and>
             timers (snd (main w)) = timers w \<and>
             fst (main_p0 w) = Exited 1 \<and>
             console (snd (main_p0 w)) = console w @ [MissingEnv k] \<and>
             faults (snd (main_p0 w)) = faults w \<and>
             tables (snd (main_p0 w)) = tables w \<and>
             timers (snd (main_p0 w)) = timers w"
proof -
  from missing_env_find [OF assms] obtain k where
    k: "missing_env w = Some k" "k \<in> set REQUIRED_ENV_VARS" "\<not> truthy (env w k)"
      "list_all (\<lambda>k'. truthy (env w k')) (takeWhile (\<lambda>x. x \<noteq> k) REQUIRED_ENV_VARS)"
      "list_all (\<lambda>k'. truthy (env w k')) (takeWhile (\<lambda>x. x \<noteq> key) REQUIRED_ENV_VARS) \<longrightarrow> k = key"
    unfolding missing_env_def by blast
  then show ?thesis
    by (intro exI [of _ k]) (simp add: main_def main_p0_def startup_def say_def)
qed

theorem missing_env_exits_witness:
  "fst (main no_user) = Exited 1 \<and>
   console (snd (main no_user)) = [MissingEnv ''DB_USER''] \<and>
   faults (snd (main no_user)) = [] \<and>
   timers (snd (main no_user)) = [] \<and>
   fst (main_p0 no_user) = Exited 1 \<and>
   console (snd (main_p0 no_user)) = [MissingEnv ''DB_USER'']"
proof -
  have m: "''DB_USER'' \<in> set REQUIRED_ENV_VARS" "\<not> truthy (env no_user ''DB_USER'')"
    by (simp_all add: REQUIRED_ENV_VARS_def no_user_def)
  have f: "list_all (\<lambda>k'. truthy (env no_user k'))
             (takeWhile (\<lambda>x. x \<noteq> ''DB_USER'') REQUIRED_ENV_VARS)"
    by (simp add: REQUIRED_ENV_VARS_def no_user_def fresh_def)
  have w: "console no_user = []" "faults no_user = []" "timers no_user = []"
    by (simp_all add: no_user_def fresh_def)
  from missing_env_exits [OF m] f w show ?thesis
    by auto
qed

text \<open>
  C7 as stated fails when a key before the unset one is unset too: with neither
  \<^verbatim>\<open>DB_HOST\<close> nor \<^verbatim>\<open>DB_NAME\<close> set, the only line names \<^verbatim>\<open>DB_HOST\<close>; the unset key
  \<^verbatim>\<open>DB_NAME\<close> is not named.
\<close>

theorem missing_env_names_first_counterexample:
  "env no_host_no_name ''DB_NAME'' = None \<and>
   fst (main no_host_no_name) = Exited 1 \<and>
   console (snd (main no_host_no_name)) = [MissingEnv ''DB_HOST''] \<and>
   console (snd (main_p0 no_host_no_name)) = [MissingEnv ''DB_HOST'']"
  by (simp add: main_def main_p0_def startup_def missing_env_def REQUIRED_ENV_VARS_def say_def
      no_host_no_name_def fresh_def)


section \<open>The port of the connection\<close>

lemma try_connect_env: "try_connect w = (r, w') \<Longrightarrow> env w' = env w"
  using query_frame(1) [of Select1 w]
  by (cases "query Select1 w"; cases "fst (query Select1 w)") (auto simp add: try_connect_def)

lemma try_connect_p0_env: "try_connect_p0 w = (r, w') \<Longrightarrow> env w' = env w"
  using query_frame(1) [of Select1 w]
  by (cases "query Select1 w"; cases "fst (query Select1 w)")
     (auto simp add: try_connect_p0_def split: if_splits)

lemma try_connect_pool: "try_connect w = (Inr p, w') \<Longrightarrow> p = createPool w"
  by (cases "query Select1 w"; cases "fst (query Select1 w)") (auto simp add: try_connect_def)

lemma try_connect_p0_pool: "try_connect_p0 w = (Inr p, w') \<Longrightarrow> p = createPool_p0 w"
  by (cases "query Select1 w"; cases "fst (query Select1 w)")
     (auto simp add: try_connect_p0_def split: if_splits)

lemma connect_loop_port:
  assumes e: "\<And>w r w'. once w = (r, w') \<Longrightarrow> env w' = env w"
    and p: "\<And>w p w'. once w = (Inr p, w') \<Longrightarrow> port p = f (env w)"
  shows "fst (connect_loop once retries delay a w) = Returned p \<Longrightarrow> port p = f (env w)"
proof (induction "nat (retries + 1 - a)" arbitrary: a w)
  case 0
  then show ?case by (simp add: connect_loop.simps)
next
  case (Suc n)
  obtain r w' where o: "once w = (r, w')" by (cases "once w")
  show ?case
  proof (cases r)
    case (Inr q)
    with o Suc.prems Suc.hyps(2) have "q = p"
      by (subst (asm) connect_loop.simps) (simp split: if_splits)
    with p o Inr show ?thesis by simp
  next
    case (Inl x)
    let ?w = "(say (Retrying delay) (say (ConnectionFailed a retries x) w'))\<lparr>timers := timers w' @ [delay]\<rparr>"
    have ne: "a \<noteq> retries" "a \<le> retries"
      using Suc.prems o Inl by (subst (asm) connect_loop.simps, simp split: if_splits)+
    have "fst (connect_loop once retries delay (a + 1) ?w) = Returned p"
      using Suc.prems o Inl ne by (subst (asm) connect_loop.simps) simp
    moreover have "n = nat (retries + 1 - (a + 1))" using Suc.hyps(2) by simp
    ultimately have "port p = f (env ?w)" using Suc.hyps(1) by blast
    moreover have "env ?w = env w" using e [OF o] by (simp add: say_def)
    ultimately show ?thesis by simp
  qed
qed

declare strip.simps [simp del]

lemma digit_of_10: "is_digit c \<Longrightarrow> digit_of 10 c = Some (of_char c - 48)"
  by (auto simp add: is_digit_def digit_of_def Let_def split: if_splits)

lemma digits_value_decimal:
  "list_all is_digit s \<Longrightarrow>
   digits_value 10 acc s = Some (foldl (\<lambda>a c. a * 10 + (of_char c - 48)) acc s)"
  by (induction s arbitrary: acc) (simp_all add: digit_of_10)

lemma white_space_no_digit:
  "list_all (\<lambda>t. t \<noteq> [] \<and> \<not> is_digit (hd t) \<and> \<not> is_digit (last t)) white_space"
  by (simp add: white_space_def is_digit_def digit_of_def)

lemma strip_no_token:
  assumes "list_all (\<lambda>t. t = [] \<or> take (length t) s \<noteq> t) tokens"
  shows "strip tokens s = s"
proof -
  have "find (\<lambda>t. t \<noteq> [] \<and> take (length t) s = t) tokens = None"
    using assms by (auto simp add: find_None_iff list_all_iff)
  then show ?thesis by (subst strip.simps) simp
qed

lemma take_hd: "t \<noteq> [] \<Longrightarrow> take (length t) s = t \<Longrightarrow> hd s = hd t"
  by (cases t; cases s) auto

lemma strip_digits:
  assumes "s \<noteq> []" and "is_digit (hd s)"
    and "list_all (\<lambda>t. t \<noteq> [] \<and> \<not> is_digit (hd t)) tokens"
  shows "strip tokens s = s"
proof (rule strip_no_token)
  show "list_all (\<lambda>t. t = [] \<or> take (length t) s \<noteq> t) tokens"
    unfolding list_all_iff
  proof
    fix t
    assume "t \<in> set tokens"
    with assms(3) have t: "t \<noteq> []" "\<not> is_digit (hd t)"
      by (simp_all add: list_all_iff)
    show "t = [] \<or> take (length t) s \<noteq> t"
    proof (intro disjI2 notI)
      assume "take (length t) s = t"
      from take_hd [OF t(1) this] assms(2) t(2) show False by simp
    qed
  qed
qed

lemma trim_digits:
  assumes "s \<noteq> []" and "list_all is_digit s"
  shows "trim s = s"
proof -
  have h: "is_digit (hd s)" "is_digit (last s)"
    using assms by (auto simp add: list_all_iff)
  have 1: "strip white_space s = s"
    using assms(1) h(1) white_space_no_digit
    by (intro strip_digits) (auto simp add: list_all_iff)
  have 2: "strip (map rev white_space) (rev s) = rev s"
    using assms(1) h(2) white_space_no_digit
    by (intro strip_digits) (auto simp add: list_all_iff hd_rev)
  show ?thesis by (simp add: trim_def 1 2)
qed

lemma not_digits_prefix:
  assumes "list_all is_digit s" and "\<not> list_all is_digit p"
  shows "take (length p) s \<noteq> p"
proof
  assume "take (length p) s = p"
  then have "set p \<subseteq> set s" by (metis set_take_subset)
  with assms show False by (auto simp add: list_all_iff)
qed

lemma Number_digits:
  assumes "s \<noteq> []" and "list_all is_digit s"
  shows "Number s = exact (decimal s)"
proof -
  have p: "take 2 s \<noteq> ''0x''" "take 2 s \<noteq> ''0X''" "take 2 s \<noteq> ''0o''" "take 2 s \<noteq> ''0O''"
    "take 2 s \<noteq> ''0b''" "take 2 s \<noteq> ''0B''"
    using not_digits_prefix [OF assms(2), of "''0x''"] not_digits_prefix [OF assms(2), of "''0X''"]
      not_digits_prefix [OF assms(2), of "''0o''"] not_digits_prefix [OF assms(2), of "''0O''"]
      not_digits_prefix [OF assms(2), of "''0b''"] not_digits_prefix [OF assms(2), of "''0B''"]
    by (simp_all add: is_digit_def digit_of_def numeral_2_eq_2)
  have i: "s \<noteq> ''Infinity''"
    using assms(2) by (auto simp add: is_digit_def digit_of_def)
  have sg: "signed s = (False, s)"
    using assms by (cases s) (auto simp add: is_digit_def digit_of_def Let_def)
  have tw: "takeWhile is_digit s = s" "dropWhile is_digit s = []"
    using assms(2) by (simp_all add: list_all_iff)
  have dv: "digits_value 10 0 s = Some (decimal s)"
    using digits_value_decimal [OF assms(2), of 0] by (simp add: decimal_def)
  have "decimal_literal s = scaled False (length s) (decimal s) 0"
    using assms(1) i by (simp add: decimal_literal_def sg tw dv exponent_part_def)
  also have "\<dots> = exact (decimal s)"
    by (simp add: scaled_def exact_def)
  finally show ?thesis
    using assms(1) p by (simp add: Number_def trim_digits [OF assms])
qed

lemma digit_nonneg: "is_digit c \<Longrightarrow> 0 \<le> (of_char c :: int) - 48"
  by (auto simp add: is_digit_def digit_of_def Let_def split: if_splits)

lemma foldl_decimal_nonneg:
  "list_all is_digit s \<Longrightarrow> 0 \<le> a \<Longrightarrow> 0 \<le> foldl (\<lambda>a c. a * 10 + (of_char c - 48)) (a :: int) s"
proof (induction s arbitrary: a)
  case Nil
  then show ?case by simp
next
  case (Cons c s)
  from Cons.prems have "0 \<le> a * 10 + (of_char c - 48)"
    using digit_nonneg [of c] by simp
  with Cons.IH [of "a * 10 + (of_char c - 48)"] Cons.prems show ?case by simp
qed

lemma decimal_nonneg: "list_all is_digit s \<Longrightarrow> 0 \<le> decimal s"
  unfolding decimal_def by (rule foldl_decimal_nonneg) simp_all

text \<open>
  C8, as the code has it. A pool returned by \<^verbatim>\<open>connectWithRetry\<close> of
  \<^verbatim>\<open>src/backend/server.js\<close> was created with the port \<^verbatim>\<open>Number(DB_PORT)\<close> when \<^verbatim>\<open>DB_PORT\<close>
  is set to a string that is not empty, which for a string of decimal digits is the number
  it denotes, and with the port 3306 when it is unset or empty. A pool returned by
  \<^verbatim>\<open>connectWithRetry\<close> of \<^verbatim>\<open>src/unnamed/part_000\<close> was created with the port 3306 whatever
  \<^verbatim>\<open>DB_PORT\<close> is.
\<close>

theorem pool_port:
  "(fst (connectWithRetry retries delay w) = Returned p \<longrightarrow>
      port p = (case env w ''DB_PORT'' of
                  None \<Rightarrow> Num 3306
                | Some s \<Rightarrow> if s = [] then Num 3306 else Number s) \<and>
      (env w ''DB_PORT'' = Some digits \<and> digits \<noteq> [] \<and> list_all is_digit digits \<and>
       decimal digits \<le> 2 ^ 53 \<longrightarrow> port p = Num (decimal digits))) \<and>
   (fst (connectWithRetry_p0 retries delay w) = Returned p \<longrightarrow> port p = Num 3306)"
proof -
  have a: "fst (connectWithRetry retries delay w) = Returned p \<Longrightarrow>
      port p = (case env w ''DB_PORT'' of
                  None \<Rightarrow> Num 3306
                | Some s \<Rightarrow> if s = [] then Num 3306 else Number s)"
    unfolding connectWithRetry_def
    by (rule connect_loop_port [where once = try_connect])
       (auto dest: try_connect_env try_connect_pool simp add: createPool_def)
  have d: "list_all is_digit digits \<Longrightarrow> 0 \<le> decimal digits"
    by (rule decimal_nonneg)
  have b: "fst (connectWithRetry retries delay w) = Returned p \<Longrightarrow>
      env w ''DB_PORT'' = Some digits \<and> digits \<noteq> [] \<and> list_all is_digit digits \<and>
      decimal digits \<le> 2 ^ 53 \<longrightarrow> port p = Num (decimal digits)"
    using a d by (auto simp add: Number_digits exact_def)
  have c: "fst (connectWithRetry_p0 retries delay w) = Returned p \<Longrightarrow> port p = Num 3306"
    unfolding connectWithRetry_p0_def
    by (rule connect_loop_port [where once = try_connect_p0 and f = "\<lambda>e. Num 3306"])
       (auto dest: try_connect_p0_env try_connect_p0_pool simp add: createPool_p0_def)
  from a b c show ?thesis by blast
qed

lemma connect_fresh: "fst (connectWithRetry None None fresh) = Returned (createPool fresh)"
  by (simp add: connectWithRetry_def connect_loop.simps try_connect_script fresh_def say_def)

lemma connect_custom_port:
  "fst (connectWithRetry None None custom_port) = Returned (createPool custom_port)"
  by (simp add: connectWithRetry_def connect_loop.simps try_connect_script custom_port_def
      fresh_def say_def)

theorem pool_port_witness:
  "port (createPool fresh) = Num 3306 \<and> port (createPool custom_port) = Num 3307"
proof -
  have e: "env fresh ''DB_PORT'' = None" "env custom_port ''DB_PORT'' = Some ''3307''"
    by (simp_all add: fresh_def custom_port_def)
  have g: "decimal ''3307'' = 3307"
    by (simp add: decimal_def)
  from pool_port [of None None fresh "createPool fresh"] connect_fresh e(1)
  have 1: "port (createPool fresh) = Num 3306" by simp
  have h: "''3307'' \<noteq> [] \<and> list_all is_digit ''3307'' \<and> decimal ''3307'' \<le> 2 ^ 53"
    by (simp add: g is_digit_def digit_of_def)
  from pool_port [of None None custom_port "createPool custom_port" "''3307''"]
    connect_custom_port e(2) h
  have "port (createPool custom_port) = Num (decimal ''3307'')"
    by blast
  then have 2: "port (createPool custom_port) = Num 3307"
    by (simp add: g)
  from 1 2 show ?thesis by blast
qed

text \<open>
  C8 as stated fails in \<^verbatim>\<open>src/unnamed/part_000\<close>: with \<^verbatim>\<open>DB_PORT=3307\<close> the pool is opened on
  port 3306.
\<close>

theorem pool_port_p0_counterexample:
  "env custom_port ''DB_PORT'' = Some ''3307'' \<and>
   fst (connectWithRetry_p0 None None custom_port) =
     Returned \<lparr>host = Some ''db'', user = Some ''app'', password = Some ''secret'',
               database = Some ''school'', port = Num 3306\<rparr>"
  by (simp add: connectWithRetry_p0_def connect_loop.simps try_connect_p0_script
      createPool_p0_def custom_port_def fresh_def say_def)

section \<open>Errors of the store in the handlers\<close>

lemma get_list_error: "fst (query (SelectAll t) w) = Inl e \<Longrightarrow> fst (get_list t w) = Threw e"
  by (cases "query (SelectAll t) w") (simp add: get_list_def)

lemma get_list_never_500:
  "(case fst (get_list t w) of Responded st b \<Rightarrow> st = 200 | Threw e \<Rightarrow> True)"
  by (cases "query (SelectAll t) w"; cases "fst (query (SelectAll t) w)")
     (simp_all add: get_list_def)

lemma get_root_error: "fst (query (SelectAll Student) w) = Inl e \<Longrightarrow> fst (get_root w) = Threw e"
  by (cases "query (SelectAll Student) w") (simp add: get_root_def)

lemma get_root_never_500:
  "(case fst (get_root w) of Responded st b \<Rightarrow> st = 200 | Threw e \<Rightarrow> True)"
  by (cases "query (SelectAll Student) w"; cases "fst (query (SelectAll Student) w)")
     (simp_all add: get_root_def)

lemma post_addstudent_error:
  "truthy name \<Longrightarrow> truthy rollNo \<Longrightarrow> truthy className \<Longrightarrow>
   fst (query (InsertInto Student None
          [(''name'', name), (''roll_number'', rollNo), (''class_name'', className)]) w) = Inl e \<Longrightarrow>
   fst (post_addstudent name rollNo className w) = Responded 500 (Error ''Internal server error'')"
  by (cases "query (InsertInto Student None
          [(''name'', name), (''roll_number'', rollNo), (''class_name'', className)]) w")
     (simp add: post_addstudent_def)

lemma post_addteacher_error:
  "truthy name \<Longrightarrow> truthy subject \<Longrightarrow> truthy className \<Longrightarrow>
   fst (query (InsertInto Teacher None
          [(''name'', name), (''subject'', subject), (''class'', className)]) w) = Inl e \<Longrightarrow>
   fst (post_addteacher name subject className w) = Responded 500 (Error ''Internal server error'')"
  by (cases "query (InsertInto Teacher None
          [(''name'', name), (''subject'', subject), (''class'', className)]) w")
     (simp add: post_addteacher_def)

lemma delete_by_id_error:
  "fst (query (DeleteWhereId t k) w) = Inl e \<Longrightarrow>
   fst (delete_by_id t msg k w) = Responded 500 (Error ''Internal server error'')"
  by (cases "query (DeleteWhereId t k) w") (simp add: delete_by_id_def)

lemma getLastID_error: "fst (query (SelectMaxId t) w) = Inl e \<Longrightarrow> fst (getLastID t w) = Inl e"
  by (cases "query (SelectMaxId t) w") (simp add: getLastID_def)

lemma post_addstudent_p0_error:
  "fst (query (SelectMaxId Student) w) = Inl e \<Longrightarrow>
   fst (post_addstudent_p0 name rollNo className w) = Threw e"
  using getLastID_error [of Student w e]
  by (cases "getLastID Student w") (simp add: post_addstudent_p0_def getLastStudentID_def)

lemma post_addteacher_p0_error:
  "fst (query (SelectMaxId Teacher) w) = Inl e \<Longrightarrow>
   fst (post_addteacher_p0 name subject className w) = Threw e"
  using getLastID_error [of Teacher w e]
  by (cases "getLastID Teacher w") (simp add: post_addteacher_p0_def getLastTeacherID_def)

lemma delete_by_id_p0_error:
  "fst (query (DeleteWhereId t k) w) = Inl e \<Longrightarrow> fst (delete_by_id_p0 t msg k w) = Threw e"
  by (cases "query (DeleteWhereId t k) w") (simp add: delete_by_id_p0_def)

lemma query_fault: "faults w = Some e # fs \<Longrightarrow> fst (query s w) = Inl e"
  by (simp add: query.simps)

section \<open>What the handlers do to the tables\<close>

lemma quiet_next_ok: "quiet w \<Longrightarrow> next_ok w"
  by (cases "faults w") (auto simp add: quiet_def next_ok_def split: option.splits)

lemma quiet_query: "quiet w \<Longrightarrow> quiet (snd (query s w))"
  by (cases "faults w") (auto simp add: quiet_def query_frame)

lemma quiet_tl: "quiet w \<Longrightarrow> quiet (w\<lparr>faults := tl (faults w)\<rparr>)"
  by (cases "faults w") (simp_all add: quiet_def)

lemma quiet_say: "quiet (say l w) = quiet w"
  by (simp add: quiet_def say_def)

lemma tables_say: "tables (say l w) = tables w"
  by (simp add: say_def)

lemma query_quiet: "quiet w \<Longrightarrow> query s w = run s (w\<lparr>faults := tl (faults w)\<rparr>)"
  by (simp add: query_next_ok quiet_next_ok)

lemma query_tables:
  "next_ok w \<Longrightarrow> exec s (clock w) (tables w) = Inr (r, ts) \<Longrightarrow>
   fst (query s w) = Inr r \<and> tables (snd (query s w)) = ts"
  by (simp add: query_next_ok run_def)

lemma query_tables_error:
  "next_ok w \<Longrightarrow> exec s (clock w) (tables w) = Inl e \<Longrightarrow>
   fst (query s w) = Inl e \<and> tables (snd (query s w)) = tables w"
  by (simp add: query_next_ok run_def)

lemma query_tables_cases:
  "tables (snd (query s w)) = tables w \<or>
   (\<exists>r. exec s (clock w) (tables w) = Inr (r, tables (snd (query s w))))"
  by (cases "faults w"; cases "exec s (clock w) (tables w)")
     (auto simp add: query.simps run_def split: option.splits)

lemma get_list_ok:
  "next_ok w \<Longrightarrow> tables w t = Some tb \<Longrightarrow> fst (get_list t w) = Responded 200 (Records (rows tb))"
  using query_tables [of w "SelectAll t" "RowSet (rows tb)" "tables w"]
  by (cases "query (SelectAll t) w") (simp add: get_list_def)

lemma exec_insert_auto:
  assumes "ts t = Some tb" and "list_all (\<lambda>c. c \<in> set (map fst (text_columns tb))) (map fst given)"
    and "insert_cells (text_columns tb) given = Inr cs"
  shows "exec (InsertInto t None given) now ts =
     Inr (Done, ts(t := Some (tb\<lparr>rows := rows tb @
            [\<lparr>row_id = auto_increment tb, row_cells = cs, row_created_at = now\<rparr>],
          auto_increment := auto_increment tb + 1\<rparr>)))"
proof -
  have "find (\<lambda>c. c \<notin> set (map fst (text_columns tb))) (map fst given) = None"
    using assms(2) by (simp add: find_None_iff list_all_iff)
  with assms show ?thesis by simp
qed

lemma exec_insert_explicit:
  assumes "ts t = Some tb" and "list_all (\<lambda>c. c \<in> set (map fst (text_columns tb))) (map fst given)"
    and "insert_cells (text_columns tb) given = Inr cs"
    and "k \<noteq> 0" and "k \<notin> set (map row_id (rows tb))"
  shows "exec (InsertInto t (Some k) given) now ts =
     Inr (Done, ts(t := Some (tb\<lparr>rows := rows tb @
            [\<lparr>row_id = k, row_cells = cs, row_created_at = now\<rparr>],
          auto_increment := max (auto_increment tb) (k + 1)\<rparr>)))"
proof -
  have "find (\<lambda>c. c \<notin> set (map fst (text_columns tb))) (map fst given) = None"
    using assms(2) by (simp add: find_None_iff list_all_iff)
  with assms show ?thesis by simp
qed

lemma insert_cells_student:
  "name \<noteq> [] \<Longrightarrow> length name \<le> 255 \<Longrightarrow> length rollNo \<le> 255 \<Longrightarrow> length className \<le> 255 \<Longrightarrow>
   insert_cells student_columns
     [(''name'', Some name), (''roll_number'', Some rollNo), (''class_name'', Some className)] =
   Inr [(''name'', Some name), (''roll_number'', Some rollNo), (''class_name'', Some className)]"
  by (simp add: student_columns_def)

lemma insert_cells_student_p0:
  "short name \<Longrightarrow> short rollNo \<Longrightarrow> short className \<Longrightarrow>
   insert_cells student_columns_p0
     [(''name'', name), (''roll_number'', rollNo), (''class'', className)] =
   Inr [(''name'', name), (''roll_number'', rollNo), (''class'', className)]"
  by (cases name; cases rollNo; cases className) (simp_all add: student_columns_p0_def short_def)

lemma post_addstudent_ok:
  assumes "next_ok w" and "tables w Student = Some tb" and "text_columns tb = student_columns"
    and "name \<noteq> []" "rollNo \<noteq> []" "className \<noteq> []"
    and "length name \<le> 255" "length rollNo \<le> 255" "length className \<le> 255"
  shows "fst (post_addstudent (Some name) (Some rollNo) (Some className) w) =
           Responded 201 (Message ''Student added successfully'')"
    and "tables (snd (post_addstudent (Some name) (Some rollNo) (Some className) w)) =
           (tables w)(Student := Some (tb\<lparr>rows := rows tb @
              [\<lparr>row_id = auto_increment tb,
                row_cells = [(''name'', Some name), (''roll_number'', Some rollNo),
                             (''class_name'', Some className)],
                row_created_at = clock w\<rparr>],
              auto_increment := auto_increment tb + 1\<rparr>))"
proof -
  let ?given = "[(''name'', Some name), (''roll_number'', Some rollNo), (''class_name'', Some className)]"
  have "exec (InsertInto Student None ?given) (clock w) (tables w) =
     Inr (Done, (tables w)(Student := Some (tb\<lparr>rows := rows tb @
            [\<lparr>row_id = auto_increment tb, row_cells = ?given, row_created_at = clock w\<rparr>],
          auto_increment := auto_increment tb + 1\<rparr>)))"
    using assms by (intro exec_insert_auto) (simp_all add: insert_cells_student, simp add: student_columns_def)
  from query_tables [OF assms(1) this] assms(4-6)
  show "fst (post_addstudent (Some name) (Some rollNo) (Some className) w) =
           Responded 201 (Message ''Student added successfully'')"
    and "tables (snd (post_addstudent (Some name) (Some rollNo) (Some className) w)) =
           (tables w)(Student := Some (tb\<lparr>rows := rows tb @
              [\<lparr>row_id = auto_increment tb,
                row_cells = [(''name'', Some name), (''roll_number'', Some rollNo),
                             (''class_name'', Some className)],
                row_created_at = clock w\<rparr>],
              auto_increment := auto_increment tb + 1\<rparr>))"
    by (cases "query (InsertInto Student None ?given) w"; simp add: post_addstudent_def)+
qed


lemma post_addstudent_invalid:
  "\<not> truthy name \<or> \<not> truthy rollNo \<or> \<not> truthy className \<Longrightarrow>
   post_addstudent name rollNo className w =
     (Responded 400 (Error ''Invalid payload: name, rollNo, class required''), w)"
  by (auto simp add: post_addstudent_def)

lemma post_addteacher_invalid:
  "\<not> truthy name \<or> \<not> truthy subject \<or> \<not> truthy className \<Longrightarrow>
   post_addteacher name subject className w = (Responded 400 (Error ''Invalid payload''), w)"
  by (auto simp add: post_addteacher_def)

lemma delete_by_id_ok:
  assumes "next_ok w" and "tables w t = Some tb"
  shows "fst (delete_by_id t msg k w) = Responded 200 (Message msg)"
    and "tables (snd (delete_by_id t msg k w)) =
           (tables w)(t := Some (tb\<lparr>rows := filter (\<lambda>r. row_id r \<noteq> k) (rows tb)\<rparr>))"
  using query_tables [OF assms(1), of "DeleteWhereId t k" Done
      "(tables w)(t := Some (tb\<lparr>rows := filter (\<lambda>r. row_id r \<noteq> k) (rows tb)\<rparr>))"] assms(2)
  by (cases "query (DeleteWhereId t k) w"; simp add: delete_by_id_def)+

lemma max_id_Max: "max_id (x # xs) = Some (Max (set (x # xs)))"
  using Max.set_eq_fold [of x xs] by simp

lemma max_id_None: "(max_id xs = None) = (xs = [])"
  by (cases xs) simp_all

lemma max_id_Some: "max_id xs = Some m \<Longrightarrow> m \<in> set xs \<and> (\<forall>x\<in>set xs. x \<le> m)"
proof (cases xs)
  case Nil
  then show "max_id xs = Some m \<Longrightarrow> ?thesis" by simp
next
  case (Cons a as)
  assume "max_id xs = Some m"
  with Cons have "m = Max (set xs)" using max_id_Max [of a as] by simp
  with Cons show ?thesis
    using Max_in [of "set xs"] Max_ge [of "set xs"] by auto
qed

lemma tables_idem: "w\<lparr>tables := tables w\<rparr> = w"
  by simp

lemma getLastID_ok:
  assumes "next_ok w" and "tables w t = Some tb"
  shows "getLastID t w =
     (Inr (case max_id (map row_id (rows tb)) of None \<Rightarrow> 0 | Some k \<Rightarrow> k),
      w\<lparr>faults := tl (faults w)\<rparr>)"
  using assms
  by (simp add: getLastID_def query_next_ok run_def split: option.splits)

lemma next_id_fresh:
  assumes "wf_table tb"
  shows "next_id tb \<noteq> 0" and "next_id tb \<notin> set (map row_id (rows tb))"
    and "list_all (\<lambda>r. row_id r < next_id tb) (rows tb)" and "1 \<le> next_id tb"
proof -
  have pos: "\<forall>r\<in>set (rows tb). 1 \<le> row_id r"
    using assms by (simp add: wf_table_def list_all_iff)
  show a: "list_all (\<lambda>r. row_id r < next_id tb) (rows tb)"
  proof (cases "max_id (map row_id (rows tb))")
    case None
    then show ?thesis by (simp add: max_id_None)
  next
    case (Some m)
    from max_id_Some [OF this] show ?thesis
      by (auto simp add: next_id_def Some list_all_iff)
  qed
  show b: "1 \<le> next_id tb"
  proof (cases "max_id (map row_id (rows tb))")
    case None
    then show ?thesis by (simp add: next_id_def)
  next
    case (Some m)
    from max_id_Some [OF this] pos show ?thesis
      by (auto simp add: next_id_def Some)
  qed
  from b show "next_id tb \<noteq> 0" by simp
  from a show "next_id tb \<notin> set (map row_id (rows tb))"
    by (auto simp add: list_all_iff)
qed

lemma post_addstudent_p0_ok:
  assumes "quiet w" and "tables w Student = Some tb" and "text_columns tb = student_columns_p0"
    and "wf_table tb" and "short name" "short rollNo" "short className"
  shows "fst (post_addstudent_p0 name rollNo className w) =
           Responded 200 (Message ''Student added successfully'')"
    and "tables (snd (post_addstudent_p0 name rollNo className w)) =
           (tables w)(Student := Some (tb\<lparr>rows := rows tb @
              [\<lparr>row_id = next_id tb,
                row_cells = [(''name'', name), (''roll_number'', rollNo), (''class'', className)],
                row_created_at = clock w\<rparr>],
              auto_increment := max (auto_increment tb) (next_id tb + 1)\<rparr>))"
proof -
  let ?given = "[(''name'', name), (''roll_number'', rollNo), (''class'', className)]"
  let ?w1 = "w\<lparr>faults := tl (faults w)\<rparr>"
  have l: "getLastStudentID w =
      (Inr (case max_id (map row_id (rows tb)) of None \<Rightarrow> 0 | Some k \<Rightarrow> k), ?w1)"
    unfolding getLastStudentID_def using assms by (intro getLastID_ok quiet_next_ok)
  have q1: "next_ok ?w1"
    using assms(1) by (intro quiet_next_ok quiet_tl)
  have "exec (InsertInto Student (Some (next_id tb)) ?given) (clock ?w1) (tables ?w1) =
     Inr (Done, (tables ?w1)(Student := Some (tb\<lparr>rows := rows tb @
            [\<lparr>row_id = next_id tb, row_cells = ?given, row_created_at = clock ?w1\<rparr>],
          auto_increment := max (auto_increment tb) (next_id tb + 1)\<rparr>)))"
    using assms next_id_fresh(1,2) [OF assms(4)]
    by (intro exec_insert_explicit)
       (simp_all add: insert_cells_student_p0, simp add: student_columns_p0_def)
  from query_tables [OF q1 this]
  show "fst (post_addstudent_p0 name rollNo className w) =
           Responded 200 (Message ''Student added successfully'')"
    and "tables (snd (post_addstudent_p0 name rollNo className w)) =
           (tables w)(Student := Some (tb\<lparr>rows := rows tb @
              [\<lparr>row_id = next_id tb,
                row_cells = [(''name'', name), (''roll_number'', rollNo), (''class'', className)],
                row_created_at = clock w\<rparr>],
              auto_increment := max (auto_increment tb) (next_id tb + 1)\<rparr>))"
    by (cases "query (InsertInto Student (Some (next_id tb)) ?given) ?w1";
        simp add: post_addstudent_p0_def l next_id_def)+
qed

lemma set_id_other: "row_id r \<noteq> old \<Longrightarrow> set_id new old r = r"
  by (simp add: set_id_def)

lemma map_set_id_other: "list_all (\<lambda>r. row_id r \<noteq> old) rs \<Longrightarrow> map (set_id new old) rs = rs"
  by (induction rs) (simp_all add: set_id_other)

lemma exec_update_step:
  assumes t: "ts t = Some tb" and r: "rows tb = pre @ r # post"
    and pre: "list_all (\<lambda>x. row_id x \<le> index) pre"
    and k: "index < row_id r"
    and post: "list_all (\<lambda>x. row_id r < row_id x) post"
  shows "exec (UpdateSetId t (index + 1) (row_id r)) now ts =
           Inr (Done, ts(t := Some (tb\<lparr>rows := pre @ r\<lparr>row_id := index + 1\<rparr> # post\<rparr>)))"
proof (cases "index + 1 = row_id r")
  case True
  then have "r\<lparr>row_id := index + 1\<rparr> = r" by simp
  then have "tb\<lparr>rows := pre @ r\<lparr>row_id := index + 1\<rparr> # post\<rparr> = tb"
    using r by simp
  then have "ts(t := Some (tb\<lparr>rows := pre @ r\<lparr>row_id := index + 1\<rparr> # post\<rparr>)) = ts"
    using t by (simp add: fun_upd_idem)
  with t True show ?thesis by simp
next
  case False
  have a: "list_all (\<lambda>x. row_id x \<noteq> row_id r) pre"
    using pre k by (auto simp add: list_all_iff)
  have b: "list_all (\<lambda>x. row_id x \<noteq> row_id r) post"
    using post by (auto simp add: list_all_iff)
  have notin: "index + 1 \<notin> set (map row_id (rows tb))"
    using False pre post k r by (auto simp add: list_all_iff)
  have "map (set_id (index + 1) (row_id r)) (rows tb) = pre @ r\<lparr>row_id := index + 1\<rparr> # post"
    using r a b by (simp add: map_set_id_other) (simp add: set_id_def)
  with t r False notin show ?thesis by simp
qed

lemma renumber_ok:
  assumes "quiet w" and "tables w t = Some tb" and "rows tb = pre @ post"
    and "list_all (\<lambda>x. row_id x \<le> index) pre"
    and "sorted_wrt (<) (map row_id post)"
    and "list_all (\<lambda>x. index < row_id x) post"
  shows "fst (renumber t index (map row_id post) w) = None \<and>
         tables (snd (renumber t index (map row_id post) w)) =
           (tables w)(t := Some (tb\<lparr>rows := pre @ renumbered index post\<rparr>))"
  using assms
proof (induction post arbitrary: index pre w tb)
  case Nil
  then show ?case by (simp add: fun_upd_idem)
next
  case (Cons r post)
  let ?tb = "tb\<lparr>rows := pre @ r\<lparr>row_id := index + 1\<rparr> # post\<rparr>"
  let ?q = "query (UpdateSetId t (index + 1) (row_id r)) w"
  have gt: "list_all (\<lambda>x. row_id r < row_id x) post"
    using Cons.prems(5) by (simp add: list_all_iff)
  have k: "index < row_id r" using Cons.prems(6) by simp
  have "exec (UpdateSetId t (index + 1) (row_id r)) (clock w) (tables w) =
           Inr (Done, (tables w)(t := Some ?tb))"
    using Cons.prems(2,3,4) k gt by (intro exec_update_step) simp_all
  from query_tables [OF quiet_next_ok [OF Cons.prems(1)] this]
  have q: "fst ?q = Inr Done" "tables (snd ?q) = (tables w)(t := Some ?tb)" by simp_all
  have 1: "quiet (snd ?q)" using Cons.prems(1) by (rule quiet_query)
  have 2: "tables (snd ?q) t = Some ?tb" using q(2) by simp
  have 3: "rows ?tb = (pre @ [r\<lparr>row_id := index + 1\<rparr>]) @ post" by simp
  have 4: "list_all (\<lambda>x. row_id x \<le> index + 1) (pre @ [r\<lparr>row_id := index + 1\<rparr>])"
    using Cons.prems(4) by (auto simp add: list_all_iff)
  have 5: "sorted_wrt (<) (map row_id post)" using Cons.prems(5) by simp
  have 6: "list_all (\<lambda>x. index + 1 < row_id x) post"
    using gt k by (auto simp add: list_all_iff)
  let ?rn = "renumber t (index + 1) (map row_id post) (snd ?q)"
  note ih = Cons.IH [OF 1 2 3 4 5 6]
  have A: "fst ?rn = None"
    by (rule ih [THEN conjunct1])
  have B: "tables (snd ?rn) =
      (tables (snd ?q))(t := Some (?tb\<lparr>rows := (pre @ [r\<lparr>row_id := index + 1\<rparr>]) @
         renumbered (index + 1) post\<rparr>))"
    by (rule ih [THEN conjunct2])
  have B': "tables (snd ?rn) = (tables w)(t := Some (tb\<lparr>rows := pre @ renumbered index (r # post)\<rparr>))"
    unfolding B q(2) by simp
  have unf: "renumber t index (map row_id (r # post)) w =
      ((case fst ?q of Inl e \<Rightarrow> Some e | Inr d \<Rightarrow> fst ?rn), snd ?rn)"
    by (simp add: case_prod_beta)
  show ?case
    unfolding unf using A B' q(1) by simp
qed


lemma sort_sorted_wrt: "sorted_wrt (<) (xs :: int list) \<Longrightarrow> sort xs = xs"
  by (simp add: sorted_sort_id strict_sorted_iff)

lemma wf_table_filter: "wf_table tb \<Longrightarrow> wf_table (tb\<lparr>rows := filter P (rows tb)\<rparr>)"
  by (simp add: wf_table_def list_all_iff sorted_wrt_map sorted_wrt_filter)

lemma delete_by_id_p0_ok:
  assumes "quiet w" and "tables w t = Some tb" and "wf_table tb"
  shows "fst (delete_by_id_p0 t msg k w) = Responded 200 (Message msg)"
    and "tables (snd (delete_by_id_p0 t msg k w)) =
           (tables w)(t := Some (tb\<lparr>rows := renumbered 0 (filter (\<lambda>r. row_id r \<noteq> k) (rows tb))\<rparr>))"
proof -
  let ?rs = "filter (\<lambda>r. row_id r \<noteq> k) (rows tb)"
  let ?tb = "tb\<lparr>rows := ?rs\<rparr>"
  let ?q1 = "query (DeleteWhereId t k) w"
  let ?q2 = "query (SelectIdOrderById t) (snd ?q1)"
  have wf: "wf_table ?tb" using assms(3) by (rule wf_table_filter)
  have e1: "exec (DeleteWhereId t k) (clock w) (tables w) = Inr (Done, (tables w)(t := Some ?tb))"
    using assms(2) by simp
  from query_tables [OF quiet_next_ok [OF assms(1)] e1]
  have q1: "fst ?q1 = Inr Done" "tables (snd ?q1) = (tables w)(t := Some ?tb)" by simp_all
  have quiet1: "quiet (snd ?q1)" using assms(1) by (rule quiet_query)
  have srt: "sorted_wrt (<) (map row_id ?rs)" using wf by (simp add: wf_table_def)
  have e2: "exec (SelectIdOrderById t) (clock (snd ?q1)) (tables (snd ?q1)) =
      Inr (Ids (map row_id ?rs), tables (snd ?q1))"
    using q1(2) sort_sorted_wrt [OF srt] by simp
  from query_tables [OF quiet_next_ok [OF quiet1] e2]
  have q2: "fst ?q2 = Inr (Ids (map row_id ?rs))" "tables (snd ?q2) = (tables w)(t := Some ?tb)"
    using q1(2) by simp_all
  have quiet2: "quiet (snd ?q2)" using quiet1 by (rule quiet_query)
  have pos: "list_all (\<lambda>x. 0 < row_id x) ?rs"
    using wf by (auto simp add: wf_table_def list_all_iff)
  let ?rn = "renumber t 0 (map row_id ?rs) (snd ?q2)"
  have r0: "rows ?tb = [] @ ?rs" by simp
  have p0: "list_all (\<lambda>x. row_id x \<le> 0) []" by simp
  note rn = renumber_ok [OF quiet2 _ r0 p0 srt pos, of t]
  have t2: "tables (snd ?q2) t = Some ?tb" unfolding q2(2) by simp
  have A: "fst ?rn = None"
    by (rule rn [OF t2, THEN conjunct1])
  have B: "tables (snd ?rn) = (tables (snd ?q2))(t := Some (?tb\<lparr>rows := [] @ renumbered 0 ?rs\<rparr>))"
    by (rule rn [OF t2, THEN conjunct2])
  have B': "tables (snd ?rn) = (tables w)(t := Some (tb\<lparr>rows := renumbered 0 ?rs\<rparr>))"
    unfolding B q2(2) by simp
  have unf: "delete_by_id_p0 t msg k w =
      (case fst ?q1 of
         Inl e \<Rightarrow> (Threw e, snd ?q1)
       | Inr r1 \<Rightarrow>
           (case fst ?q2 of
              Inl e \<Rightarrow> (Threw e, snd ?q2)
            | Inr r2 \<Rightarrow>
                (case fst (renumber t 0 (ids_of r2) (snd ?q2)) of
                   Some e \<Rightarrow> (Threw e, snd (renumber t 0 (ids_of r2) (snd ?q2)))
                 | None \<Rightarrow> (Responded 200 (Message msg), snd (renumber t 0 (ids_of r2) (snd ?q2))))))"
    by (simp add: delete_by_id_p0_def case_prod_beta split: sum.splits option.splits)
  show "fst (delete_by_id_p0 t msg k w) = Responded 200 (Message msg)"
    unfolding unf using q1(1) q2(1) A by simp
  show "tables (snd (delete_by_id_p0 t msg k w)) =
           (tables w)(t := Some (tb\<lparr>rows := renumbered 0 ?rs\<rparr>))"
    unfolding unf using q1(1) q2(1) A B' by simp
qed

lemma renumbered_kept:
  "map row_cells (renumbered index rs) = map row_cells rs"
  "map row_created_at (renumbered index rs) = map row_created_at rs"
  "length (renumbered index rs) = length rs"
  by (induction rs arbitrary: index) simp_all

lemma renumbered_ids: "map row_id (renumbered index rs) = [index + 1 .. index + int (length rs)]"
proof (induction rs arbitrary: index)
  case Nil
  show ?case by simp
next
  case (Cons r rs)
  have "[index + 1 .. index + int (length (r # rs))] =
      (index + 1) # [index + 1 + 1 .. index + 1 + int (length rs)]"
    by (subst upto_rec1) (simp_all add: algebra_simps)
  with Cons.IH [of "index + 1"] show ?case by simp
qed

lemma query_result:
  "fst (query s w) = Inr r \<Longrightarrow> exec s (clock w) (tables w) = Inr (r, tables (snd (query s w)))"
  by (cases "faults w"; cases "exec s (clock w) (tables w)")
     (auto simp add: query.simps run_def split: option.splits)

lemma grows_refl: "grows a a"
  by (cases a) (simp_all add: list_all_iff)

lemma grows_trans: "grows a b \<Longrightarrow> grows b c \<Longrightarrow> grows a c"
  by (cases a; cases b; cases c) (auto simp add: list_all_iff)

lemma wf_table_append:
  assumes "wf_table tb"
  shows "wf_table (tb\<lparr>rows := rows tb @ [\<lparr>row_id = auto_increment tb, row_cells = cs, row_created_at = now\<rparr>],
                     auto_increment := auto_increment tb + 1\<rparr>)"
  using assms
  by (auto simp add: wf_table_def list_all_iff sorted_wrt_append)

lemma exec_store_assigned:
  assumes "store_assigned s" and "exec s now ts = Inr (r, ts')"
  shows "grows (ts t) (ts' t)"
    and "(case ts t of None \<Rightarrow> True | Some tb \<Rightarrow> wf_table tb) \<Longrightarrow>
         (case ts' t of None \<Rightarrow> True | Some tb \<Rightarrow> wf_table tb)"
proof -
  show "grows (ts t) (ts' t)"
  proof (cases s)
    case (InsertInto u i given)
    with assms show ?thesis
      by (cases i)
         (auto simp add: grows_refl list_all_iff split: option.splits sum.splits if_splits)
  next
    case (DeleteWhereId u k)
    with assms show ?thesis
      by (auto simp add: grows_refl list_all_iff split: option.splits)
  qed (use assms in \<open>auto simp add: grows_refl split: option.splits\<close>)
  show "(case ts t of None \<Rightarrow> True | Some tb \<Rightarrow> wf_table tb) \<Longrightarrow>
         (case ts' t of None \<Rightarrow> True | Some tb \<Rightarrow> wf_table tb)"
  proof (cases s)
    case (InsertInto u i given)
    with assms show "(case ts t of None \<Rightarrow> True | Some tb \<Rightarrow> wf_table tb) \<Longrightarrow> ?thesis"
      by (cases i)
         (auto simp add: wf_table_append split: option.splits sum.splits if_splits)
  next
    case (DeleteWhereId u k)
    with assms show "(case ts t of None \<Rightarrow> True | Some tb \<Rightarrow> wf_table tb) \<Longrightarrow> ?thesis"
      by (auto simp add: wf_table_filter split: option.splits if_splits)
  qed (use assms in \<open>auto split: option.splits if_splits\<close>)
qed

lemma query_store_assigned:
  assumes "store_assigned s"
  shows "grows (tables w t) (tables (snd (query s w)) t)"
    and "wf_tables (tables w) \<Longrightarrow> wf_tables (tables (snd (query s w)))"
proof -
  from query_tables_cases [of s w]
  show "grows (tables w t) (tables (snd (query s w)) t)"
    using exec_store_assigned(1) [OF assms] by (auto simp add: grows_refl)
  from query_tables_cases [of s w]
  show "wf_tables (tables w) \<Longrightarrow> wf_tables (tables (snd (query s w)))"
    unfolding wf_tables_def using exec_store_assigned(2) [OF assms] by metis
qed

lemma handle_store_assigned:
  "\<exists>s. store_assigned s \<and>
       (tables (snd (handle rq w)) = tables w \<or> tables (snd (handle rq w)) = tables (snd (query s w)))"
proof (cases rq)
  case GetHealth
  then show ?thesis by (auto simp add: get_health_def intro: exI [of _ Select1])
next
  case GetReady
  then show ?thesis
    by (intro exI [of _ Select1]) (simp add: get_ready_def case_prod_beta split: sum.splits)
next
  case GetRoot
  then show ?thesis
    by (intro exI [of _ "SelectAll Student"]) (simp add: get_root_def case_prod_beta split: sum.splits)
next
  case GetStudent
  then show ?thesis
    by (intro exI [of _ "SelectAll Student"])
       (simp add: get_student_def get_list_def case_prod_beta split: sum.splits)
next
  case GetTeacher
  then show ?thesis
    by (intro exI [of _ "SelectAll Teacher"])
       (simp add: get_teacher_def get_list_def case_prod_beta split: sum.splits)
next
  case (AddStudent n r c)
  then show ?thesis
    by (intro exI [of _ "InsertInto Student None
          [(''name'', n), (''roll_number'', r), (''class_name'', c)]"])
       (simp add: post_addstudent_def case_prod_beta tables_say split: sum.splits)
next
  case (AddTeacher n r c)
  then show ?thesis
    by (intro exI [of _ "InsertInto Teacher None
          [(''name'', n), (''subject'', r), (''class'', c)]"])
       (simp add: post_addteacher_def case_prod_beta tables_say split: sum.splits)
next
  case (DeleteStudent k)
  then show ?thesis
    by (intro exI [of _ "DeleteWhereId Student k"])
       (simp add: delete_student_def delete_by_id_def case_prod_beta tables_say split: sum.splits)
next
  case (DeleteTeacher k)
  then show ?thesis
    by (intro exI [of _ "DeleteWhereId Teacher k"])
       (simp add: delete_teacher_def delete_by_id_def case_prod_beta tables_say split: sum.splits)
qed

lemma handle_grows:
  "grows (tables w t) (tables (snd (handle rq w)) t)"
  "wf_tables (tables w) \<Longrightarrow> wf_tables (tables (snd (handle rq w)))"
proof -
  from handle_store_assigned [of rq w] obtain s where s: "store_assigned s"
    "tables (snd (handle rq w)) = tables w \<or> tables (snd (handle rq w)) = tables (snd (query s w))"
    by blast
  from s(2) show "grows (tables w t) (tables (snd (handle rq w)) t)"
    using query_store_assigned(1) [OF s(1), of w t] by (auto simp add: grows_refl)
  from s(2) show "wf_tables (tables w) \<Longrightarrow> wf_tables (tables (snd (handle rq w)))"
    using query_store_assigned(2) [OF s(1), of w] by auto
qed

lemma serve_grows:
  "wf_tables (tables w) \<Longrightarrow>
   wf_tables (tables (serve handle rqs w)) \<and> grows (tables w t) (tables (serve handle rqs w) t)"
proof (induction rqs arbitrary: w)
  case Nil
  then show ?case by (simp add: grows_refl)
next
  case (Cons rq rqs)
  from Cons.IH [OF handle_grows(2) [OF Cons.prems, of rq]] handle_grows(1) [of w t rq]
  show ?case by (auto intro: grows_trans)
qed

lemma exec_insert_auto_result:
  "exec (InsertInto t None given) now ts = Inr (r, ts') \<Longrightarrow> ts t = Some tb \<Longrightarrow>
   \<exists>cs. ts' = ts(t := Some (tb\<lparr>rows := rows tb @
            [\<lparr>row_id = auto_increment tb, row_cells = cs, row_created_at = now\<rparr>],
          auto_increment := auto_increment tb + 1\<rparr>))"
  by (auto split: option.splits sum.splits)

lemma post_addstudent_201:
  assumes "fst (post_addstudent name rollNo className w) = Responded 201 b"
    and "tables w Student = Some tb"
  shows "\<exists>cs. tables (snd (post_addstudent name rollNo className w)) =
           (tables w)(Student := Some (tb\<lparr>rows := rows tb @
              [\<lparr>row_id = auto_increment tb, row_cells = cs, row_created_at = clock w\<rparr>],
              auto_increment := auto_increment tb + 1\<rparr>))"
proof -
  let ?s = "InsertInto Student None
              [(''name'', name), (''roll_number'', rollNo), (''class_name'', className)]"
  from assms(1) obtain r where r: "fst (query ?s w) = Inr r"
    and t: "tables (snd (post_addstudent name rollNo className w)) = tables (snd (query ?s w))"
    by (cases "fst (query ?s w)")
       (auto simp add: post_addstudent_def case_prod_beta split: if_splits)
  from exec_insert_auto_result [OF query_result [OF r] assms(2)] t show ?thesis by simp
qed

lemma post_addteacher_201:
  assumes "fst (post_addteacher name subject className w) = Responded 201 b"
    and "tables w Teacher = Some tb"
  shows "\<exists>cs. tables (snd (post_addteacher name subject className w)) =
           (tables w)(Teacher := Some (tb\<lparr>rows := rows tb @
              [\<lparr>row_id = auto_increment tb, row_cells = cs, row_created_at = clock w\<rparr>],
              auto_increment := auto_increment tb + 1\<rparr>))"
proof -
  let ?s = "InsertInto Teacher None
              [(''name'', name), (''subject'', subject), (''class'', className)]"
  from assms(1) obtain r where r: "fst (query ?s w) = Inr r"
    and t: "tables (snd (post_addteacher name subject className w)) = tables (snd (query ?s w))"
    by (cases "fst (query ?s w)")
       (auto simp add: post_addteacher_def case_prod_beta split: if_splits)
  from exec_insert_auto_result [OF query_result [OF r] assms(2)] t show ?thesis by simp
qed

lemma quiet_renumber: "quiet w \<Longrightarrow> quiet (snd (renumber t index ks w))"
  by (induction ks arbitrary: index w) (simp_all add: case_prod_beta quiet_query)

lemma snd_getLastID: "snd (getLastID t w) = snd (query (SelectMaxId t) w)"
  by (simp add: getLastID_def case_prod_beta split: sum.splits result.splits option.splits)

lemma quiet_handle: "quiet w \<Longrightarrow> quiet (snd (handle rq w))"
  by (cases rq)
     (simp_all add: get_health_def get_ready_def get_root_def get_student_def get_teacher_def
        get_list_def post_addstudent_def post_addteacher_def delete_student_def
        delete_teacher_def delete_by_id_def case_prod_beta quiet_query quiet_say
        split: sum.splits)

lemma quiet_handle_p0: "quiet w \<Longrightarrow> quiet (snd (handle_p0 rq w))"
  by (cases rq)
     (simp_all add: get_health_def get_ready_def get_root_def get_student_def get_teacher_def
        get_list_def post_addstudent_p0_def post_addteacher_p0_def getLastStudentID_def
        getLastTeacherID_def snd_getLastID delete_student_p0_def
        delete_teacher_p0_def delete_by_id_p0_def case_prod_beta quiet_query quiet_renumber
        split: sum.splits option.splits)

lemma insert_cells_teacher_p0:
  "short name \<Longrightarrow> short subject \<Longrightarrow> short className \<Longrightarrow>
   insert_cells teacher_columns_p0
     [(''name'', name), (''subject'', subject), (''class'', className)] =
   Inr [(''name'', name), (''subject'', subject), (''class'', className)]"
  by (cases name; cases subject; cases className) (simp_all add: teacher_columns_p0_def short_def)

lemma post_addteacher_p0_ok:
  assumes "quiet w" and "tables w Teacher = Some tb" and "text_columns tb = teacher_columns_p0"
    and "wf_table tb" and "short name" "short subject" "short className"
  shows "fst (post_addteacher_p0 name subject className w) =
           Responded 200 (Message ''Teacher added successfully'')"
    and "tables (snd (post_addteacher_p0 name subject className w)) =
           (tables w)(Teacher := Some (tb\<lparr>rows := rows tb @
              [\<lparr>row_id = next_id tb,
                row_cells = [(''name'', name), (''subject'', subject), (''class'', className)],
                row_created_at = clock w\<rparr>],
              auto_increment := max (auto_increment tb) (next_id tb + 1)\<rparr>))"
proof -
  let ?given = "[(''name'', name), (''subject'', subject), (''class'', className)]"
  let ?w1 = "w\<lparr>faults := tl (faults w)\<rparr>"
  have l: "getLastTeacherID w =
      (Inr (case max_id (map row_id (rows tb)) of None \<Rightarrow> 0 | Some k \<Rightarrow> k), ?w1)"
    unfolding getLastTeacherID_def using assms by (intro getLastID_ok quiet_next_ok)
  have q1: "next_ok ?w1"
    using assms(1) by (intro quiet_next_ok quiet_tl)
  have "exec (InsertInto Teacher (Some (next_id tb)) ?given) (clock ?w1) (tables ?w1) =
     Inr (Done, (tables ?w1)(Teacher := Some (tb\<lparr>rows := rows tb @
            [\<lparr>row_id = next_id tb, row_cells = ?given, row_created_at = clock ?w1\<rparr>],
          auto_increment := max (auto_increment tb) (next_id tb + 1)\<rparr>)))"
    using assms next_id_fresh(1,2) [OF assms(4)]
    by (intro exec_insert_explicit)
       (simp_all add: insert_cells_teacher_p0, simp add: teacher_columns_p0_def)
  from query_tables [OF q1 this]
  show "fst (post_addteacher_p0 name subject className w) =
           Responded 200 (Message ''Teacher added successfully'')"
    and "tables (snd (post_addteacher_p0 name subject className w)) =
           (tables w)(Teacher := Some (tb\<lparr>rows := rows tb @
              [\<lparr>row_id = next_id tb,
                row_cells = [(''name'', name), (''subject'', subject), (''class'', className)],
                row_created_at = clock w\<rparr>],
              auto_increment := max (auto_increment tb) (next_id tb + 1)\<rparr>))"
    by (cases "query (InsertInto Teacher (Some (next_id tb)) ?given) ?w1";
        simp add: post_addteacher_p0_def l next_id_def)+
qed

lemma handle_list: "handle (list_route t) w = get_list t w" "handle_p0 (list_route t) w = get_list t w"
  by (cases t; simp add: get_student_def get_teacher_def)+

lemma handle_delete:
  "handle (delete_route t k) w = delete_by_id t (deleted t) k w"
  "handle_p0 (delete_route t k) w = delete_by_id_p0 t (deleted t) k w"
  by (cases t; simp add: delete_student_def delete_teacher_def delete_student_p0_def
      delete_teacher_p0_def)+

lemma filter_distinct_length:
  "distinct (map f xs) \<Longrightarrow> length xs \<le> length (filter (\<lambda>r. f r \<noteq> k) xs) + 1"
proof (induction xs)
  case Nil
  then show ?case by simp
next
  case (Cons x xs)
  show ?case
  proof (cases "f x = k")
    case True
    with Cons.prems have "\<forall>y\<in>set xs. f y \<noteq> k"
      by (auto simp add: image_iff)
    then have "filter (\<lambda>r. f r \<noteq> k) xs = xs"
      by (simp add: filter_id_conv)
    with True show ?thesis by simp
  next
    case False
    with Cons show ?thesis by simp
  qed
qed

lemma filter_member_length:
  "distinct (map f xs) \<Longrightarrow> k \<in> set (map f xs) \<Longrightarrow>
   length (filter (\<lambda>r. f r \<noteq> k) xs) + 1 = length xs"
proof (induction xs)
  case Nil
  then show ?case by simp
next
  case (Cons x xs)
  show ?case
  proof (cases "f x = k")
    case True
    with Cons.prems have "\<forall>y\<in>set xs. f y \<noteq> k"
      by (auto simp add: image_iff)
    then have "filter (\<lambda>r. f r \<noteq> k) xs = xs"
      by (simp add: filter_id_conv)
    with True show ?thesis by simp
  next
    case False
    with Cons show ?thesis by simp
  qed
qed

lemma filter_absent: "k \<notin> set (map f xs) \<Longrightarrow> filter (\<lambda>r. f r \<noteq> k) xs = xs"
  by (auto simp add: filter_id_conv)

lemma wf_table_distinct: "wf_table tb \<Longrightarrow> distinct (map row_id (rows tb))"
  by (simp add: wf_table_def strict_sorted_iff)

section \<open>The concrete worlds\<close>

lemma two_students_table: "tables two_students Student = Some ann_bea"
  by code_simp

lemma two_students_faults: "faults two_students = []"
  by code_simp

lemma two_students_p0_table: "tables two_students_p0 Student = Some ann_bea_p0"
  by code_simp

lemma two_students_p0_faults: "faults two_students_p0 = []"
  by code_simp

lemma served_tables:
  "tables served Student = Some \<lparr>text_columns = student_columns, rows = [], auto_increment = 1\<rparr>"
  "tables served Teacher = Some \<lparr>text_columns = teacher_columns, rows = [], auto_increment = 1\<rparr>"
  by code_simp+

lemma served_faults: "faults served = []"
  by code_simp

lemma served_p0_tables:
  "tables served_p0 Student =
     Some \<lparr>text_columns = student_columns_p0, rows = [], auto_increment = 1\<rparr>"
  "tables served_p0 Teacher =
     Some \<lparr>text_columns = teacher_columns_p0, rows = [], auto_increment = 1\<rparr>"
  by code_simp+

lemma served_p0_faults: "faults served_p0 = []"
  by code_simp

lemma faults_Nil_quiet: "faults w = [] \<Longrightarrow> quiet w"
  by (simp add: quiet_def)

lemma wf_ann_bea: "wf_table ann_bea" "wf_table ann_bea_p0"
  by (simp_all add: wf_table_def ann_bea_def ann_bea_p0_def student_def)

lemma wf_empty: "wf_table \<lparr>text_columns = cols, rows = [], auto_increment = 1\<rparr>"
  by (simp add: wf_table_def)

section \<open>The handlers and the errors of the store\<close>

lemma post_addstudent_p0_unfold:
  "post_addstudent_p0 name rollNo className w =
     (case fst (getLastStudentID w) of
        Inl e \<Rightarrow> (Threw e, snd (getLastStudentID w))
      | Inr lastID \<Rightarrow>
          (case fst (query (InsertInto Student (Some (lastID + 1))
                       [(''name'', name), (''roll_number'', rollNo), (''class'', className)])
                       (snd (getLastStudentID w))) of
             Inl e \<Rightarrow> (Threw e, snd (query (InsertInto Student (Some (lastID + 1))
                       [(''name'', name), (''roll_number'', rollNo), (''class'', className)])
                       (snd (getLastStudentID w))))
           | Inr r \<Rightarrow> (Responded 200 (Message ''Student added successfully''),
                       snd (query (InsertInto Student (Some (lastID + 1))
                       [(''name'', name), (''roll_number'', rollNo), (''class'', className)])
                       (snd (getLastStudentID w))))))"
  by (simp add: post_addstudent_p0_def case_prod_beta split: sum.splits)

lemma post_addteacher_p0_unfold:
  "post_addteacher_p0 name subject className w =
     (case fst (getLastTeacherID w) of
        Inl e \<Rightarrow> (Threw e, snd (getLastTeacherID w))
      | Inr lastID \<Rightarrow>
          (case fst (query (InsertInto Teacher (Some (lastID + 1))
                       [(''name'', name), (''subject'', subject), (''class'', className)])
                       (snd (getLastTeacherID w))) of
             Inl e \<Rightarrow> (Threw e, snd (query (InsertInto Teacher (Some (lastID + 1))
                       [(''name'', name), (''subject'', subject), (''class'', className)])
                       (snd (getLastTeacherID w))))
           | Inr r \<Rightarrow> (Responded 200 (Message ''Teacher added successfully''),
                       snd (query (InsertInto Teacher (Some (lastID + 1))
                       [(''name'', name), (''subject'', subject), (''class'', className)])
                       (snd (getLastTeacherID w))))))"
  by (simp add: post_addteacher_p0_def case_prod_beta split: sum.splits)

lemma delete_by_id_p0_unfold:
  "delete_by_id_p0 t msg k w =
     (case fst (query (DeleteWhereId t k) w) of
        Inl e \<Rightarrow> (Threw e, snd (query (DeleteWhereId t k) w))
      | Inr r1 \<Rightarrow>
          (case fst (query (SelectIdOrderById t) (snd (query (DeleteWhereId t k) w))) of
             Inl e \<Rightarrow> (Threw e, snd (query (SelectIdOrderById t) (snd (query (DeleteWhereId t k) w))))
           | Inr r2 \<Rightarrow>
               (case fst (renumber t 0 (ids_of r2)
                       (snd (query (SelectIdOrderById t) (snd (query (DeleteWhereId t k) w))))) of
                  Some e \<Rightarrow> (Threw e, snd (renumber t 0 (ids_of r2)
                       (snd (query (SelectIdOrderById t) (snd (query (DeleteWhereId t k) w))))))
                | None \<Rightarrow> (Responded 200 (Message msg), snd (renumber t 0 (ids_of r2)
                       (snd (query (SelectIdOrderById t) (snd (query (DeleteWhereId t k) w)))))))))"
  by (simp add: delete_by_id_p0_def case_prod_beta split: sum.splits option.splits)

lemma renumber_unfold:
  "fst (renumber t index (k # ks) w) =
     (case fst (query (UpdateSetId t (index + 1) k) w) of
        Inl e \<Rightarrow> Some e
      | Inr d \<Rightarrow> fst (renumber t (index + 1) ks (snd (query (UpdateSetId t (index + 1) k) w))))"
  by (simp add: case_prod_beta)

lemma post_addstudent_p0_outcome:
  "(case fst (post_addstudent_p0 name rollNo className w) of
      Responded st b \<Rightarrow> st = 200 \<and> b = Message ''Student added successfully''
    | Threw x \<Rightarrow> True)"
  unfolding post_addstudent_p0_unfold by (simp split: sum.splits)

lemma post_addteacher_p0_outcome:
  "(case fst (post_addteacher_p0 name subject className w) of
      Responded st b \<Rightarrow> st = 200 \<and> b = Message ''Teacher added successfully''
    | Threw x \<Rightarrow> True)"
  unfolding post_addteacher_p0_unfold by (simp split: sum.splits)

lemma delete_by_id_p0_outcome:
  "(case fst (delete_by_id_p0 t msg k w) of
      Responded st b \<Rightarrow> st = 200 \<and> b = Message msg
    | Threw x \<Rightarrow> True)"
  unfolding delete_by_id_p0_unfold by (simp split: sum.splits option.splits)

lemma post_addstudent_p0_insert_error:
  "fst (getLastStudentID w) = Inr lastID \<Longrightarrow>
   fst (query (InsertInto Student (Some (lastID + 1))
          [(''name'', name), (''roll_number'', rollNo), (''class'', className)])
          (snd (getLastStudentID w))) = Inl e \<Longrightarrow>
   fst (post_addstudent_p0 name rollNo className w) = Threw e"
  unfolding post_addstudent_p0_unfold by simp

lemma post_addteacher_p0_insert_error:
  "fst (getLastTeacherID w) = Inr lastID \<Longrightarrow>
   fst (query (InsertInto Teacher (Some (lastID + 1))
          [(''name'', name), (''subject'', subject), (''class'', className)])
          (snd (getLastTeacherID w))) = Inl e \<Longrightarrow>
   fst (post_addteacher_p0 name subject className w) = Threw e"
  unfolding post_addteacher_p0_unfold by simp

lemma delete_by_id_p0_select_error:
  "fst (query (DeleteWhereId t k) w) = Inr r1 \<Longrightarrow>
   fst (query (SelectIdOrderById t) (snd (query (DeleteWhereId t k) w))) = Inl e \<Longrightarrow>
   fst (delete_by_id_p0 t msg k w) = Threw e"
  unfolding delete_by_id_p0_unfold by simp

lemma delete_by_id_p0_update_error:
  "fst (query (DeleteWhereId t k) w) = Inr r1 \<Longrightarrow>
   fst (query (SelectIdOrderById t) (snd (query (DeleteWhereId t k) w))) = Inr r2 \<Longrightarrow>
   fst (renumber t 0 (ids_of r2)
          (snd (query (SelectIdOrderById t) (snd (query (DeleteWhereId t k) w))))) = Some e \<Longrightarrow>
   fst (delete_by_id_p0 t msg k w) = Threw e"
  unfolding delete_by_id_p0_unfold by simp

text \<open>
  C10, as the code has it. The list handlers (\<^verbatim>\<open>GET /\<close>, \<^verbatim>\<open>GET /student\<close>,
  \<^verbatim>\<open>GET /teacher\<close>, the same in both files) have no error branch: when the query fails
  the handler ends with that error and sends nothing, and a response it sends has status
  200. In \<^verbatim>\<open>src/backend/server.js\<close> the create handlers (for fields that pass the check) and
  the delete handlers catch the error of their query and answer 500. In
  \<^verbatim>\<open>src/unnamed/part_000\<close> the create and delete handlers have no error branch either: the
  error of any of their queries (the read of the largest identifier or the insertion; the
  deletion, the read of the identifiers or the first update that fails) leaves the handler,
  and a response they send has status 200 and the message of success.
\<close>

theorem list_handlers_do_not_catch:
  "(fst (query (SelectAll Student) w) = Inl e \<longrightarrow>
      fst (get_root w) = Threw e \<and> fst (get_student w) = Threw e) \<and>
   (fst (query (SelectAll Teacher) w) = Inl e \<longrightarrow> fst (get_teacher w) = Threw e) \<and>
   (case fst (get_root w) of Responded st b \<Rightarrow> st = 200 | Threw x \<Rightarrow> True) \<and>
   (case fst (get_student w) of Responded st b \<Rightarrow> st = 200 | Threw x \<Rightarrow> True) \<and>
   (case fst (get_teacher w) of Responded st b \<Rightarrow> st = 200 | Threw x \<Rightarrow> True) \<and>
   (truthy name \<and> truthy second \<and> truthy className \<and>
    fst (query (InsertInto Student None
           [(''name'', name), (''roll_number'', second), (''class_name'', className)]) w) = Inl e \<longrightarrow>
      fst (post_addstudent name second className w) =
        Responded 500 (Error ''Internal server error'')) \<and>
   (truthy name \<and> truthy second \<and> truthy className \<and>
    fst (query (InsertInto Teacher None
           [(''name'', name), (''subject'', second), (''class'', className)]) w) = Inl e \<longrightarrow>
      fst (post_addteacher name second className w) =
        Responded 500 (Error ''Internal server error'')) \<and>
   (fst (query (DeleteWhereId Student k) w) = Inl e \<longrightarrow>
      fst (delete_student k w) = Responded 500 (Error ''Internal server error'') \<and>
      fst (delete_student_p0 k w) = Threw e) \<and>
   (fst (query (DeleteWhereId Teacher k) w) = Inl e \<longrightarrow>
      fst (delete_teacher k w) = Responded 500 (Error ''Internal server error'') \<and>
      fst (delete_teacher_p0 k w) = Threw e) \<and>
   (fst (query (SelectMaxId Student) w) = Inl e \<longrightarrow>
      fst (post_addstudent_p0 name second className w) = Threw e) \<and>
   (fst (query (SelectMaxId Teacher) w) = Inl e \<longrightarrow>
      fst (post_addteacher_p0 name second className w) = Threw e) \<and>
   (fst (getLastStudentID w) = Inr lastID \<and>
    fst (query (InsertInto Student (Some (lastID + 1))
           [(''name'', name), (''roll_number'', second), (''class'', className)])
           (snd (getLastStudentID w))) = Inl e \<longrightarrow>
      fst (post_addstudent_p0 name second className w) = Threw e) \<and>
   (fst (getLastTeacherID w) = Inr lastID \<and>
    fst (query (InsertInto Teacher (Some (lastID + 1))
           [(''name'', name), (''subject'', second), (''class'', className)])
           (snd (getLastTeacherID w))) = Inl e \<longrightarrow>
      fst (post_addteacher_p0 name second className w) = Threw e) \<and>
   (fst (query (DeleteWhereId t k) w) = Inr r1 \<and>
    fst (query (SelectIdOrderById t) (snd (query (DeleteWhereId t k) w))) = Inl e \<longrightarrow>
      fst (handle_p0 (delete_route t k) w) = Threw e) \<and>
   (fst (query (DeleteWhereId t k) w) = Inr r1 \<and>
    fst (query (SelectIdOrderById t) (snd (query (DeleteWhereId t k) w))) = Inr r2 \<and>
    fst (renumber t 0 (ids_of r2)
           (snd (query (SelectIdOrderById t) (snd (query (DeleteWhereId t k) w))))) = Some e \<longrightarrow>
      fst (handle_p0 (delete_route t k) w) = Threw e) \<and>
   fst (renumber t index (k # ks) w) =
     (case fst (query (UpdateSetId t (index + 1) k) w) of
        Inl x \<Rightarrow> Some x
      | Inr d \<Rightarrow> fst (renumber t (index + 1) ks (snd (query (UpdateSetId t (index + 1) k) w)))) \<and>
   (case fst (post_addstudent_p0 name second className w) of
      Responded st b \<Rightarrow> st = 200 \<and> b = Message ''Student added successfully''
    | Threw x \<Rightarrow> True) \<and>
   (case fst (post_addteacher_p0 name second className w) of
      Responded st b \<Rightarrow> st = 200 \<and> b = Message ''Teacher added successfully''
    | Threw x \<Rightarrow> True) \<and>
   (case fst (handle_p0 (delete_route t k) w) of
      Responded st b \<Rightarrow> st = 200 \<and> b = Message (deleted t)
    | Threw x \<Rightarrow> True)"
proof -
  have old: "(fst (query (SelectAll Student) w) = Inl e \<longrightarrow>
      fst (get_root w) = Threw e \<and> fst (get_student w) = Threw e) \<and>
   (fst (query (SelectAll Teacher) w) = Inl e \<longrightarrow> fst (get_teacher w) = Threw e) \<and>
   (case fst (get_root w) of Responded st b \<Rightarrow> st = 200 | Threw x \<Rightarrow> True) \<and>
   (case fst (get_student w) of Responded st b \<Rightarrow> st = 200 | Threw x \<Rightarrow> True) \<and>
   (case fst (get_teacher w) of Responded st b \<Rightarrow> st = 200 | Threw x \<Rightarrow> True) \<and>
   (truthy name \<and> truthy second \<and> truthy className \<and>
    fst (query (InsertInto Student None
           [(''name'', name), (''roll_number'', second), (''class_name'', className)]) w) = Inl e \<longrightarrow>
      fst (post_addstudent name second className w) =
        Responded 500 (Error ''Internal server error'')) \<and>
   (truthy name \<and> truthy second \<and> truthy className \<and>
    fst (query (InsertInto Teacher None
           [(''name'', name), (''subject'', second), (''class'', className)]) w) = Inl e \<longrightarrow>
      fst (post_addteacher name second className w) =
        Responded 500 (Error ''Internal server error'')) \<and>
   (fst (query (DeleteWhereId Student k) w) = Inl e \<longrightarrow>
      fst (delete_student k w) = Responded 500 (Error ''Internal server error'') \<and>
      fst (delete_student_p0 k w) = Threw e) \<and>
   (fst (query (DeleteWhereId Teacher k) w) = Inl e \<longrightarrow>
      fst (delete_teacher k w) = Responded 500 (Error ''Internal server error'') \<and>
      fst (delete_teacher_p0 k w) = Threw e) \<and>
   (fst (query (SelectMaxId Student) w) = Inl e \<longrightarrow>
      fst (post_addstudent_p0 name second className w) = Threw e) \<and>
   (fst (query (SelectMaxId Teacher) w) = Inl e \<longrightarrow>
      fst (post_addteacher_p0 name second className w) = Threw e)"
  using get_list_never_500 [of Student w] get_list_never_500 [of Teacher w] get_root_never_500 [of w]
  by (simp add: get_root_error get_list_error get_student_def get_teacher_def
      post_addstudent_error post_addteacher_error delete_by_id_error delete_student_def
      delete_teacher_def delete_student_p0_def delete_teacher_p0_def delete_by_id_p0_error
      post_addstudent_p0_error post_addteacher_p0_error)
  have n1: "(fst (getLastStudentID w) = Inr lastID \<and>
    fst (query (InsertInto Student (Some (lastID + 1))
           [(''name'', name), (''roll_number'', second), (''class'', className)])
           (snd (getLastStudentID w))) = Inl e \<longrightarrow>
      fst (post_addstudent_p0 name second className w) = Threw e) \<and>
   (fst (getLastTeacherID w) = Inr lastID \<and>
    fst (query (InsertInto Teacher (Some (lastID + 1))
           [(''name'', name), (''subject'', second), (''class'', className)])
           (snd (getLastTeacherID w))) = Inl e \<longrightarrow>
      fst (post_addteacher_p0 name second className w) = Threw e) \<and>
   (fst (query (DeleteWhereId t k) w) = Inr r1 \<and>
    fst (query (SelectIdOrderById t) (snd (query (DeleteWhereId t k) w))) = Inl e \<longrightarrow>
      fst (handle_p0 (delete_route t k) w) = Threw e) \<and>
   (fst (query (DeleteWhereId t k) w) = Inr r1 \<and>
    fst (query (SelectIdOrderById t) (snd (query (DeleteWhereId t k) w))) = Inr r2 \<and>
    fst (renumber t 0 (ids_of r2)
           (snd (query (SelectIdOrderById t) (snd (query (DeleteWhereId t k) w))))) = Some e \<longrightarrow>
      fst (handle_p0 (delete_route t k) w) = Threw e)"
    by (simp add: handle_delete post_addstudent_p0_insert_error post_addteacher_p0_insert_error
        delete_by_id_p0_select_error delete_by_id_p0_update_error)
  have n2: "fst (renumber t index (k # ks) w) =
     (case fst (query (UpdateSetId t (index + 1) k) w) of
        Inl x \<Rightarrow> Some x
      | Inr d \<Rightarrow> fst (renumber t (index + 1) ks (snd (query (UpdateSetId t (index + 1) k) w))))"
    by (rule renumber_unfold)
  have n3: "(case fst (post_addstudent_p0 name second className w) of
      Responded st b \<Rightarrow> st = 200 \<and> b = Message ''Student added successfully''
    | Threw x \<Rightarrow> True) \<and>
   (case fst (post_addteacher_p0 name second className w) of
      Responded st b \<Rightarrow> st = 200 \<and> b = Message ''Teacher added successfully''
    | Threw x \<Rightarrow> True) \<and>
   (case fst (handle_p0 (delete_route t k) w) of
      Responded st b \<Rightarrow> st = 200 \<and> b = Message (deleted t)
    | Threw x \<Rightarrow> True)"
    using post_addstudent_p0_outcome [of name second className w]
      post_addteacher_p0_outcome [of name second className w]
      delete_by_id_p0_outcome [where t = t and msg = "deleted t" and k = k and w = w]
    by (simp add: handle_delete)
  from old n1 n2 n3 show ?thesis
    by - ((elim conjE)?, intro conjI, assumption+)
qed

lemma faults_store_down: "faults store_down = [Some (Fault 7)]"
  by (simp add: store_down_def)

lemma faults_insert_fails_p0: "faults insert_fails_p0 = [None, Some (Fault 7)]"
  by (simp add: insert_fails_p0_def)

lemma faults_update_fails_p0: "faults update_fails_p0 = [None, None, Some (Fault 7)]"
  by (simp add: update_fails_p0_def)

lemma query_second_fault:
  "faults w = None # Some e # fs \<Longrightarrow> fst (query s' (snd (query s w))) = Inl e"
  by (rule query_fault [where fs = fs]) (simp add: query_frame)

lemma query_third_fault:
  "faults w = None # None # Some e # fs \<Longrightarrow>
   fst (query s'' (snd (query s' (snd (query s w))))) = Inl e"
  by (rule query_fault [where fs = fs]) (simp add: query_frame)

lemma insert_fails_p0_table: "tables insert_fails_p0 Student = Some ann_bea_p0"
  by (simp add: insert_fails_p0_def two_students_p0_table)

lemma update_fails_p0_table: "tables update_fails_p0 Student = Some ann_bea_p0"
  by (simp add: update_fails_p0_def two_students_p0_table)

lemma next_ok_fails_p0: "next_ok insert_fails_p0" "next_ok update_fails_p0"
  by (simp_all add: next_ok_def insert_fails_p0_def update_fails_p0_def)

theorem list_handlers_do_not_catch_witness:
  "fst (get_root store_down) = Threw (Fault 7) \<and>
   fst (get_student store_down) = Threw (Fault 7) \<and>
   fst (get_teacher store_down) = Threw (Fault 7) \<and>
   fst (post_addstudent (Some ''Ann'') (Some ''7'') (Some ''5A'') store_down) =
     Responded 500 (Error ''Internal server error'') \<and>
   fst (post_addteacher (Some ''Bob'') (Some ''Math'') (Some ''5A'') store_down) =
     Responded 500 (Error ''Internal server error'') \<and>
   fst (delete_student 1 store_down) = Responded 500 (Error ''Internal server error'') \<and>
   fst (delete_teacher 1 store_down) = Responded 500 (Error ''Internal server error'') \<and>
   fst (delete_teacher_p0 1 store_down) = Threw (Fault 7) \<and>
   fst (post_addteacher_p0 (Some ''Bob'') (Some ''Math'') (Some ''5A'') store_down) =
     Threw (Fault 7) \<and>
   fst (post_addstudent_p0 (Some ''Cy'') (Some ''9'') (Some ''5A'') insert_fails_p0) =
     Threw (Fault 7) \<and>
   fst (handle_p0 (DeleteStudent 1) insert_fails_p0) = Threw (Fault 7) \<and>
   fst (handle_p0 (DeleteStudent 1) update_fails_p0) = Threw (Fault 7)"
proof -
  note a = list_handlers_do_not_catch [where w = store_down and e = "Fault 7"
      and name = "Some ''Ann''" and second = "Some ''7''" and className = "Some ''5A''" and k = 1]
  note b = list_handlers_do_not_catch [where w = store_down and e = "Fault 7"
      and name = "Some ''Bob''" and second = "Some ''Math''" and className = "Some ''5A''"
      and k = 1]
  have 1: "fst (get_root store_down) = Threw (Fault 7) \<and>
   fst (get_student store_down) = Threw (Fault 7) \<and>
   fst (get_teacher store_down) = Threw (Fault 7) \<and>
   fst (post_addstudent (Some ''Ann'') (Some ''7'') (Some ''5A'') store_down) =
     Responded 500 (Error ''Internal server error'') \<and>
   fst (delete_student 1 store_down) = Responded 500 (Error ''Internal server error'') \<and>
   fst (delete_teacher 1 store_down) = Responded 500 (Error ''Internal server error'') \<and>
   fst (delete_teacher_p0 1 store_down) = Threw (Fault 7)"
    using a by (simp add: query_fault [OF faults_store_down])
  have 2: "fst (post_addteacher (Some ''Bob'') (Some ''Math'') (Some ''5A'') store_down) =
     Responded 500 (Error ''Internal server error'') \<and>
   fst (post_addteacher_p0 (Some ''Bob'') (Some ''Math'') (Some ''5A'') store_down) =
     Threw (Fault 7)"
    using b by (simp add: query_fault [OF faults_store_down])
  have l: "getLastStudentID insert_fails_p0 = (Inr 2, insert_fails_p0\<lparr>faults := [Some (Fault 7)]\<rparr>)"
    unfolding getLastStudentID_def
    using getLastID_ok [OF next_ok_fails_p0(1) insert_fails_p0_table]
    by (simp add: ann_bea_p0_def student_def faults_insert_fails_p0)
  have 3: "fst (post_addstudent_p0 (Some ''Cy'') (Some ''9'') (Some ''5A'') insert_fails_p0) =
     Threw (Fault 7)"
    using list_handlers_do_not_catch [where w = insert_fails_p0 and e = "Fault 7"
        and name = "Some ''Cy''" and second = "Some ''9''" and className = "Some ''5A''"
        and lastID = 2] l
    by (simp add: query_fault)
  have d: "fst (query (DeleteWhereId Student 1) insert_fails_p0) = Inr Done"
    "fst (query (DeleteWhereId Student 1) update_fails_p0) = Inr Done"
    using query_tables [OF next_ok_fails_p0(1), of "DeleteWhereId Student 1" Done
        "(tables insert_fails_p0)(Student := Some (ann_bea_p0\<lparr>rows :=
           filter (\<lambda>r. row_id r \<noteq> 1) (rows ann_bea_p0)\<rparr>))"]
      query_tables [OF next_ok_fails_p0(2), of "DeleteWhereId Student 1" Done
        "(tables update_fails_p0)(Student := Some (ann_bea_p0\<lparr>rows :=
           filter (\<lambda>r. row_id r \<noteq> 1) (rows ann_bea_p0)\<rparr>))"]
    by (simp_all add: insert_fails_p0_table update_fails_p0_table)
  have 4: "fst (handle_p0 (DeleteStudent 1) insert_fails_p0) = Threw (Fault 7)"
    using list_handlers_do_not_catch [where w = insert_fails_p0 and e = "Fault 7"
        and t = Student and k = 1 and ?r1.0 = Done] d(1)
      query_second_fault [OF faults_insert_fails_p0]
    by simp
  have u: "fst (query (SelectIdOrderById Student)
                (snd (query (DeleteWhereId Student 1) update_fails_p0))) = Inr (Ids [2])"
    "fst (renumber Student 0 (ids_of (Ids [2]))
           (snd (query (SelectIdOrderById Student)
                  (snd (query (DeleteWhereId Student 1) update_fails_p0))))) = Some (Fault 7)"
    by code_simp+
  have 5: "fst (handle_p0 (DeleteStudent 1) update_fails_p0) = Threw (Fault 7)"
    using list_handlers_do_not_catch [where w = update_fails_p0 and e = "Fault 7"
        and t = Student and k = 1 and ?r1.0 = Done and ?r2.0 = "Ids [2]"] d(2) u
    by simp
  from 1 2 3 4 5 show ?thesis by blast
qed

text \<open>
  C10 as stated fails in \<^verbatim>\<open>src/unnamed/part_000\<close>: with the store out of reach its delete
  and create handlers end with the error instead of answering 500.
\<close>

theorem create_delete_p0_do_not_catch_counterexample:
  "fst (delete_student_p0 1 store_down_p0) = Threw (Fault 7) \<and>
   fst (post_addstudent_p0 (Some ''Cy'') (Some ''9'') (Some ''5A'') store_down_p0) = Threw (Fault 7)"
  by (simp add: delete_student_p0_def delete_by_id_p0_def post_addstudent_p0_def
      getLastStudentID_def getLastID_def query.simps store_down_p0_def)


section \<open>Delete by identifier\<close>

text \<open>
  C1, as the code has it, for the table \<open>t\<close> of either resource. In
  \<^verbatim>\<open>src/backend/server.js\<close>, when the query reaches the store, the delete handler answers
  200 whether or not a row has the identifier \<open>k\<close>, removes the rows with that identifier (at
  most one when the identifiers are distinct) and leaves all other rows, and the other
  table, as they were; when no row has the identifier the tables do not change. In
  \<^verbatim>\<open>src/unnamed/part_000\<close>, when the queries reach the store, the delete handler also
  answers 200 and removes the row, but then numbers the remaining rows 1, 2, ... in their
  order; their cells and creation times stay.
\<close>

theorem delete_frame:
  assumes "tables w t = Some tb"
  shows "(next_ok w \<longrightarrow>
            fst (handle (delete_route t k) w) = Responded 200 (Message (deleted t)) \<and>
            tables (snd (handle (delete_route t k) w)) =
              (tables w)(t := Some (tb\<lparr>rows := filter (\<lambda>r. row_id r \<noteq> k) (rows tb)\<rparr>)) \<and>
            (k \<notin> set (map row_id (rows tb)) \<longrightarrow>
               tables (snd (handle (delete_route t k) w)) = tables w) \<and>
            (distinct (map row_id (rows tb)) \<longrightarrow>
               length (rows tb) \<le> length (filter (\<lambda>r. row_id r \<noteq> k) (rows tb)) + 1)) \<and>
         (quiet w \<and> wf_table tb \<longrightarrow>
            fst (handle_p0 (delete_route t k) w) = Responded 200 (Message (deleted t)) \<and>
            tables (snd (handle_p0 (delete_route t k) w)) =
              (tables w)(t := Some (tb\<lparr>rows :=
                 renumbered 0 (filter (\<lambda>r. row_id r \<noteq> k) (rows tb))\<rparr>)) \<and>
            map row_id (renumbered 0 (filter (\<lambda>r. row_id r \<noteq> k) (rows tb))) =
              [1 .. int (length (filter (\<lambda>r. row_id r \<noteq> k) (rows tb)))] \<and>
            map row_cells (renumbered 0 (filter (\<lambda>r. row_id r \<noteq> k) (rows tb))) =
              map row_cells (filter (\<lambda>r. row_id r \<noteq> k) (rows tb)) \<and>
            map row_created_at (renumbered 0 (filter (\<lambda>r. row_id r \<noteq> k) (rows tb))) =
              map row_created_at (filter (\<lambda>r. row_id r \<noteq> k) (rows tb)))"
proof -
  have 1: "next_ok w \<Longrightarrow> k \<notin> set (map row_id (rows tb)) \<Longrightarrow>
      tables (snd (handle (delete_route t k) w)) = tables w"
    using assms filter_absent [of k row_id "rows tb"]
    by (simp add: handle_delete delete_by_id_ok fun_upd_idem)
  show ?thesis
    using assms 1 renumbered_ids [of 0] filter_distinct_length [of row_id "rows tb" k]
    by (simp add: handle_delete delete_by_id_ok delete_by_id_p0_ok renumbered_kept)
qed

theorem delete_frame_witness:
  "fst (handle (DeleteStudent 1) two_students) =
     Responded 200 (Message ''Student deleted successfully'') \<and>
   tables (snd (handle (DeleteStudent 1) two_students)) Student =
     Some (ann_bea\<lparr>rows := [student 2 ''class_name'' ''Bea'' ''8'' ''5A'']\<rparr>) \<and>
   fst (handle (DeleteStudent 9) two_students) =
     Responded 200 (Message ''Student deleted successfully'') \<and>
   tables (snd (handle (DeleteStudent 9) two_students)) = tables two_students \<and>
   fst (handle_p0 (DeleteStudent 1) two_students_p0) =
     Responded 200 (Message ''Student deleted successfully'') \<and>
   tables (snd (handle_p0 (DeleteStudent 1) two_students_p0)) Student =
     Some (ann_bea_p0\<lparr>rows := [student 1 ''class'' ''Bea'' ''8'' ''5A'']\<rparr>)"
proof -
  have q: "quiet two_students_p0" "next_ok two_students"
    by (simp_all add: faults_Nil_quiet quiet_next_ok two_students_faults two_students_p0_faults)
  have absent: "9 \<notin> set (map row_id (rows ann_bea))"
    by (simp add: ann_bea_def student_def)
  have f1: "filter (\<lambda>r. row_id r \<noteq> 1) (rows ann_bea) = [student 2 ''class_name'' ''Bea'' ''8'' ''5A'']"
    by (simp add: ann_bea_def student_def)
  have f2: "renumbered 0 (filter (\<lambda>r. row_id r \<noteq> 1) (rows ann_bea_p0)) =
      [student 1 ''class'' ''Bea'' ''8'' ''5A'']"
    by (simp add: ann_bea_p0_def student_def)
  from delete_frame [OF two_students_table, of 1] q(2)
  have a: "fst (handle (delete_route Student 1) two_students) =
      Responded 200 (Message (deleted Student))"
    and b: "tables (snd (handle (delete_route Student 1) two_students)) =
      (tables two_students)(Student := Some (ann_bea\<lparr>rows :=
         filter (\<lambda>r. row_id r \<noteq> 1) (rows ann_bea)\<rparr>))"
    by blast+
  from delete_frame [OF two_students_table, of 9] q(2) absent
  have c: "fst (handle (delete_route Student 9) two_students) =
      Responded 200 (Message (deleted Student))"
    and d: "tables (snd (handle (delete_route Student 9) two_students)) = tables two_students"
    by blast+
  from delete_frame [OF two_students_p0_table, of 1] q(1) wf_ann_bea(2)
  have e: "fst (handle_p0 (delete_route Student 1) two_students_p0) =
      Responded 200 (Message (deleted Student))"
    and f: "tables (snd (handle_p0 (delete_route Student 1) two_students_p0)) =
      (tables two_students_p0)(Student := Some (ann_bea_p0\<lparr>rows :=
         renumbered 0 (filter (\<lambda>r. row_id r \<noteq> 1) (rows ann_bea_p0))\<rparr>))"
    by blast+
  from a c e fun_cong [OF b, of Student] d fun_cong [OF f, of Student]
  show ?thesis
    unfolding f1 f2 by simp
qed

text \<open>
  C1 as stated fails in \<^verbatim>\<open>src/unnamed/part_000\<close>: deleting student 1 changes the identifier
  of the other student, Bea, from 2 to 1.
\<close>

theorem delete_renumbers_p0_counterexample:
  "fst (handle_p0 GetStudent two_students_p0) =
     Responded 200 (Records [student 1 ''class'' ''Ann'' ''7'' ''5A'',
                             student 2 ''class'' ''Bea'' ''8'' ''5A'']) \<and>
   fst (handle_p0 GetStudent (snd (handle_p0 (DeleteStudent 1) two_students_p0))) =
     Responded 200 (Records [student 1 ''class'' ''Bea'' ''8'' ''5A''])"
  by code_simp

section \<open>Create\<close>

text \<open>
  C2, as the code has it. In \<^verbatim>\<open>src/backend/server.js\<close> a create request with a required
  field absent or empty is answered 400 and nothing else happens: no query is sent and the
  world, so every list, is as before; the tables change only when all three fields are
  present and not empty. In \<^verbatim>\<open>src/unnamed/part_000\<close> there is no such check: when the
  queries reach the store the request is answered 200 and a row is inserted, with
  \<^verbatim>\<open>NULL\<close> for an absent field.
\<close>

theorem create_validation:
  "(\<not> truthy name \<or> \<not> truthy second \<or> \<not> truthy className \<longrightarrow>
      handle (AddStudent name second className) w =
        (Responded 400 (Error ''Invalid payload: name, rollNo, class required''), w) \<and>
      handle (AddTeacher name second className) w =
        (Responded 400 (Error ''Invalid payload''), w) \<and>
      fst (handle (list_route t) (snd (handle (AddStudent name second className) w))) =
        fst (handle (list_route t) w) \<and>
      fst (handle (list_route t) (snd (handle (AddTeacher name second className) w))) =
        fst (handle (list_route t) w)) \<and>
   (tables (snd (handle (AddStudent name second className) w)) \<noteq> tables w \<longrightarrow>
      truthy name \<and> truthy second \<and> truthy className) \<and>
   (tables (snd (handle (AddTeacher name second className) w)) \<noteq> tables w \<longrightarrow>
      truthy name \<and> truthy second \<and> truthy className) \<and>
   (quiet w \<and> tables w Student = Some tb \<and> text_columns tb = student_columns_p0 \<and>
    wf_table tb \<and> short name \<and> short second \<and> short className \<longrightarrow>
      fst (handle_p0 (AddStudent name second className) w) =
        Responded 200 (Message ''Student added successfully'') \<and>
      tables (snd (handle_p0 (AddStudent name second className) w)) =
        (tables w)(Student := Some (tb\<lparr>rows := rows tb @
           [\<lparr>row_id = next_id tb,
             row_cells = [(''name'', name), (''roll_number'', second), (''class'', className)],
             row_created_at = clock w\<rparr>],
           auto_increment := max (auto_increment tb) (next_id tb + 1)\<rparr>))) \<and>
   (quiet w \<and> tables w Teacher = Some tc \<and> text_columns tc = teacher_columns_p0 \<and>
    wf_table tc \<and> short name \<and> short second \<and> short className \<longrightarrow>
      fst (handle_p0 (AddTeacher name second className) w) =
        Responded 200 (Message ''Teacher added successfully'') \<and>
      tables (snd (handle_p0 (AddTeacher name second className) w)) =
        (tables w)(Teacher := Some (tc\<lparr>rows := rows tc @
           [\<lparr>row_id = next_id tc,
             row_cells = [(''name'', name), (''subject'', second), (''class'', className)],
             row_created_at = clock w\<rparr>],
           auto_increment := max (auto_increment tc) (next_id tc + 1)\<rparr>)))"
proof -
  have inv: "\<not> truthy name \<or> \<not> truthy second \<or> \<not> truthy className \<Longrightarrow>
      handle (AddStudent name second className) w =
        (Responded 400 (Error ''Invalid payload: name, rollNo, class required''), w) \<and>
      handle (AddTeacher name second className) w =
        (Responded 400 (Error ''Invalid payload''), w)"
    using post_addstudent_invalid [of name second className w]
      post_addteacher_invalid [of name second className w] by simp
  have 1: "\<not> truthy name \<or> \<not> truthy second \<or> \<not> truthy className \<longrightarrow>
      handle (AddStudent name second className) w =
        (Responded 400 (Error ''Invalid payload: name, rollNo, class required''), w) \<and>
      handle (AddTeacher name second className) w =
        (Responded 400 (Error ''Invalid payload''), w) \<and>
      fst (handle (list_route t) (snd (handle (AddStudent name second className) w))) =
        fst (handle (list_route t) w) \<and>
      fst (handle (list_route t) (snd (handle (AddTeacher name second className) w))) =
        fst (handle (list_route t) w)"
  proof
    assume "\<not> truthy name \<or> \<not> truthy second \<or> \<not> truthy className"
    from inv [OF this] show "handle (AddStudent name second className) w =
        (Responded 400 (Error ''Invalid payload: name, rollNo, class required''), w) \<and>
      handle (AddTeacher name second className) w =
        (Responded 400 (Error ''Invalid payload''), w) \<and>
      fst (handle (list_route t) (snd (handle (AddStudent name second className) w))) =
        fst (handle (list_route t) w) \<and>
      fst (handle (list_route t) (snd (handle (AddTeacher name second className) w))) =
        fst (handle (list_route t) w)"
      by simp
  qed
  have 2: "tables (snd (handle (AddStudent name second className) w)) \<noteq> tables w \<longrightarrow>
      truthy name \<and> truthy second \<and> truthy className"
  proof (cases "\<not> truthy name \<or> \<not> truthy second \<or> \<not> truthy className")
    case True
    from inv [OF this] show ?thesis by simp
  next
    case False
    then show ?thesis by simp
  qed
  have 3: "tables (snd (handle (AddTeacher name second className) w)) \<noteq> tables w \<longrightarrow>
      truthy name \<and> truthy second \<and> truthy className"
  proof (cases "\<not> truthy name \<or> \<not> truthy second \<or> \<not> truthy className")
    case True
    from inv [OF this] show ?thesis by simp
  next
    case False
    then show ?thesis by simp
  qed
  have 4: "quiet w \<and> tables w Student = Some tb \<and> text_columns tb = student_columns_p0 \<and>
    wf_table tb \<and> short name \<and> short second \<and> short className \<longrightarrow>
      fst (handle_p0 (AddStudent name second className) w) =
        Responded 200 (Message ''Student added successfully'') \<and>
      tables (snd (handle_p0 (AddStudent name second className) w)) =
        (tables w)(Student := Some (tb\<lparr>rows := rows tb @
           [\<lparr>row_id = next_id tb,
             row_cells = [(''name'', name), (''roll_number'', second), (''class'', className)],
             row_created_at = clock w\<rparr>],
           auto_increment := max (auto_increment tb) (next_id tb + 1)\<rparr>))"
    by (simp add: post_addstudent_p0_ok)
  have 5: "quiet w \<and> tables w Teacher = Some tc \<and> text_columns tc = teacher_columns_p0 \<and>
    wf_table tc \<and> short name \<and> short second \<and> short className \<longrightarrow>
      fst (handle_p0 (AddTeacher name second className) w) =
        Responded 200 (Message ''Teacher added successfully'') \<and>
      tables (snd (handle_p0 (AddTeacher name second className) w)) =
        (tables w)(Teacher := Some (tc\<lparr>rows := rows tc @
           [\<lparr>row_id = next_id tc,
             row_cells = [(''name'', name), (''subject'', second), (''class'', className)],
             row_created_at = clock w\<rparr>],
           auto_increment := max (auto_increment tc) (next_id tc + 1)\<rparr>))"
    by (simp add: post_addteacher_p0_ok)
  from 1 2 3 4 5 show ?thesis
    by - (intro conjI, assumption+)
qed

theorem create_validation_witness:
  "handle (AddStudent (Some ''Ann'') None (Some ''5A'')) served =
     (Responded 400 (Error ''Invalid payload: name, rollNo, class required''), served) \<and>
   handle (AddTeacher (Some ''Bob'') (Some '''') (Some ''5A'')) served =
     (Responded 400 (Error ''Invalid payload''), served) \<and>
   fst (handle_p0 (AddStudent (Some ''Ann'') None (Some ''5A'')) served_p0) =
     Responded 200 (Message ''Student added successfully'')"
proof -
  have q: "quiet served_p0" by (simp add: faults_Nil_quiet served_p0_faults)
  have s: "short (Some ''Ann'')" "short None" "short (Some ''5A'')" by (simp_all add: short_def)
  from create_validation [of "Some ''Ann''" None "Some ''5A''" served Student]
  have a: "handle (AddStudent (Some ''Ann'') None (Some ''5A'')) served =
     (Responded 400 (Error ''Invalid payload: name, rollNo, class required''), served)"
    by simp
  from create_validation [of "Some ''Bob''" "Some ''''" "Some ''5A''" served Student]
  have b: "handle (AddTeacher (Some ''Bob'') (Some '''') (Some ''5A'')) served =
     (Responded 400 (Error ''Invalid payload''), served)"
    by simp
  from create_validation [of "Some ''Ann''" None "Some ''5A''" served_p0 Student
      "\<lparr>text_columns = student_columns_p0, rows = [], auto_increment = 1\<rparr>"]
    q s served_p0_tables(1) wf_empty [of student_columns_p0]
  have c: "fst (handle_p0 (AddStudent (Some ''Ann'') None (Some ''5A'')) served_p0) =
     Responded 200 (Message ''Student added successfully'')"
    by simp
  from a b c show ?thesis by blast
qed

text \<open>
  C2 as stated fails in \<^verbatim>\<open>src/unnamed/part_000\<close>: a student without \<^verbatim>\<open>rollNo\<close> is answered
  200 and the list grows from no row to one.
\<close>

theorem create_unchecked_p0_counterexample:
  "fst (handle_p0 GetStudent served_p0) = Responded 200 (Records []) \<and>
   fst (handle_p0 (AddStudent (Some ''Ann'') None (Some ''5A'')) served_p0) =
     Responded 200 (Message ''Student added successfully'') \<and>
   fst (handle_p0 GetStudent
          (snd (handle_p0 (AddStudent (Some ''Ann'') None (Some ''5A'')) served_p0))) =
     Responded 200 (Records
       [\<lparr>row_id = 1,
         row_cells = [(''name'', Some ''Ann''), (''roll_number'', None), (''class'', Some ''5A'')],
         row_created_at = 0\<rparr>])"
  by code_simp

lemma list_after:
  assumes "quiet w" and "quiet w \<Longrightarrow> quiet w'" and "tables w' t = Some tb'"
  shows "fst (get_list t w') = Responded 200 (Records (rows tb'))"
  using assms by (intro get_list_ok quiet_next_ok) simp_all

text \<open>
  C4, as the code has it, when the queries reach the store. In \<^verbatim>\<open>src/backend/server.js\<close>,
  on the student table that the file creates (columns \<^verbatim>\<open>name\<close>, \<^verbatim>\<open>roll_number\<close>,
  \<^verbatim>\<open>class_name\<close>), a create request for a student whose three fields are present, not empty
  and at most 255 bytes long is answered 201, and the list afterwards is the list before
  with one row at its end that carries the submitted values and the identifier from the
  counter of the table. After the delete of an existing identifier (identifiers distinct) the
  list of either resource is shorter by one and has no row with that identifier. In
  \<^verbatim>\<open>src/unnamed/part_000\<close>, on the student table that the file creates (columns \<^verbatim>\<open>name\<close>,
  \<^verbatim>\<open>roll_number\<close>, \<^verbatim>\<open>class\<close>) with identifiers that ascend from 1 below the counter, a create
  request whose fields are absent or at most 255 bytes long is answered 200, not 201, and the
  new row carries the last identifier plus one; after a delete of an existing identifier,
  the updates of the renumbering taken in the order in which they are issued, the list is
  shorter by one and its identifiers are 1, 2, ..., so the deleted identifier is in the list
  exactly when it is below the number of rows before.
\<close>

theorem create_then_list:
  "(quiet w \<and> tables w Student = Some tb \<and> text_columns tb = student_columns \<and>
    name \<noteq> [] \<and> rollNo \<noteq> [] \<and> className \<noteq> [] \<and>
    length name \<le> 255 \<and> length rollNo \<le> 255 \<and> length className \<le> 255 \<longrightarrow>
      fst (handle GetStudent w) = Responded 200 (Records (rows tb)) \<and>
      fst (handle (AddStudent (Some name) (Some rollNo) (Some className)) w) =
        Responded 201 (Message ''Student added successfully'') \<and>
      fst (handle GetStudent
             (snd (handle (AddStudent (Some name) (Some rollNo) (Some className)) w))) =
        Responded 200 (Records (rows tb @
          [\<lparr>row_id = auto_increment tb,
            row_cells = [(''name'', Some name), (''roll_number'', Some rollNo),
                         (''class_name'', Some className)],
            row_created_at = clock w\<rparr>]))) \<and>
   (quiet w \<and> tables w t = Some td \<and> distinct (map row_id (rows td)) \<and>
    k \<in> set (map row_id (rows td)) \<longrightarrow>
      fst (handle (list_route t) w) = Responded 200 (Records (rows td)) \<and>
      fst (handle (list_route t) (snd (handle (delete_route t k) w))) =
        Responded 200 (Records (filter (\<lambda>r. row_id r \<noteq> k) (rows td))) \<and>
      length (filter (\<lambda>r. row_id r \<noteq> k) (rows td)) + 1 = length (rows td) \<and>
      k \<notin> set (map row_id (filter (\<lambda>r. row_id r \<noteq> k) (rows td)))) \<and>
   (quiet w \<and> tables w Student = Some tb \<and> text_columns tb = student_columns_p0 \<and>
    wf_table tb \<and> short first \<and> short second \<and> short third \<longrightarrow>
      fst (handle_p0 (AddStudent first second third) w) =
        Responded 200 (Message ''Student added successfully'') \<and>
      fst (handle_p0 GetStudent (snd (handle_p0 (AddStudent first second third) w))) =
        Responded 200 (Records (rows tb @
          [\<lparr>row_id = next_id tb,
            row_cells = [(''name'', first), (''roll_number'', second), (''class'', third)],
            row_created_at = clock w\<rparr>]))) \<and>
   (quiet w \<and> tables w t = Some td \<and> wf_table td \<and> k \<in> set (map row_id (rows td)) \<longrightarrow>
      fst (handle_p0 (list_route t) (snd (handle_p0 (delete_route t k) w))) =
        Responded 200 (Records (renumbered 0 (filter (\<lambda>r. row_id r \<noteq> k) (rows td)))) \<and>
      length (renumbered 0 (filter (\<lambda>r. row_id r \<noteq> k) (rows td))) + 1 = length (rows td) \<and>
      map row_id (renumbered 0 (filter (\<lambda>r. row_id r \<noteq> k) (rows td))) =
        [1 .. int (length (rows td)) - 1] \<and>
      (k \<in> set (map row_id (renumbered 0 (filter (\<lambda>r. row_id r \<noteq> k) (rows td))))) =
        (k < int (length (rows td))))"
proof -
  have 1: "quiet w \<and> tables w Student = Some tb \<and> text_columns tb = student_columns \<and>
    name \<noteq> [] \<and> rollNo \<noteq> [] \<and> className \<noteq> [] \<and>
    length name \<le> 255 \<and> length rollNo \<le> 255 \<and> length className \<le> 255 \<longrightarrow>
      fst (handle GetStudent w) = Responded 200 (Records (rows tb)) \<and>
      fst (handle (AddStudent (Some name) (Some rollNo) (Some className)) w) =
        Responded 201 (Message ''Student added successfully'') \<and>
      fst (handle GetStudent
             (snd (handle (AddStudent (Some name) (Some rollNo) (Some className)) w))) =
        Responded 200 (Records (rows tb @
          [\<lparr>row_id = auto_increment tb,
            row_cells = [(''name'', Some name), (''roll_number'', Some rollNo),
                         (''class_name'', Some className)],
            row_created_at = clock w\<rparr>]))"
  proof (intro impI, elim conjE)
    let ?w = "snd (handle (AddStudent (Some name) (Some rollNo) (Some className)) w)"
    let ?tb = "tb\<lparr>rows := rows tb @
          [\<lparr>row_id = auto_increment tb,
            row_cells = [(''name'', Some name), (''roll_number'', Some rollNo),
                         (''class_name'', Some className)],
            row_created_at = clock w\<rparr>], auto_increment := auto_increment tb + 1\<rparr>"
    assume a: "quiet w" "tables w Student = Some tb" "text_columns tb = student_columns"
      "name \<noteq> []" "rollNo \<noteq> []" "className \<noteq> []"
      "length name \<le> 255" "length rollNo \<le> 255" "length className \<le> 255"
    note ok = post_addstudent_ok [OF quiet_next_ok [OF a(1)] a(2-9)]
    have t: "tables ?w Student = Some ?tb"
      using fun_cong [OF ok(2), of Student] by simp
    have "fst (get_list Student ?w) = Responded 200 (Records (rows ?tb))"
      using a(1) quiet_handle t by (rule list_after)
    moreover have "fst (get_list Student w) = Responded 200 (Records (rows tb))"
      using a(1,2) by (intro get_list_ok quiet_next_ok)
    ultimately show "fst (handle GetStudent w) = Responded 200 (Records (rows tb)) \<and>
      fst (handle (AddStudent (Some name) (Some rollNo) (Some className)) w) =
        Responded 201 (Message ''Student added successfully'') \<and>
      fst (handle GetStudent ?w) =
        Responded 200 (Records (rows tb @
          [\<lparr>row_id = auto_increment tb,
            row_cells = [(''name'', Some name), (''roll_number'', Some rollNo),
                         (''class_name'', Some className)],
            row_created_at = clock w\<rparr>]))"
      using ok(1) by (simp add: get_student_def)
  qed
  have 2: "quiet w \<and> tables w t = Some td \<and> distinct (map row_id (rows td)) \<and>
    k \<in> set (map row_id (rows td)) \<longrightarrow>
      fst (handle (list_route t) w) = Responded 200 (Records (rows td)) \<and>
      fst (handle (list_route t) (snd (handle (delete_route t k) w))) =
        Responded 200 (Records (filter (\<lambda>r. row_id r \<noteq> k) (rows td))) \<and>
      length (filter (\<lambda>r. row_id r \<noteq> k) (rows td)) + 1 = length (rows td) \<and>
      k \<notin> set (map row_id (filter (\<lambda>r. row_id r \<noteq> k) (rows td)))"
  proof (intro impI, elim conjE)
    let ?w = "snd (handle (delete_route t k) w)"
    let ?td = "td\<lparr>rows := filter (\<lambda>r. row_id r \<noteq> k) (rows td)\<rparr>"
    assume a: "quiet w" "tables w t = Some td" "distinct (map row_id (rows td))"
      "k \<in> set (map row_id (rows td))"
    note ok = delete_by_id_ok [OF quiet_next_ok [OF a(1)] a(2), of "deleted t" k]
    have t: "tables ?w t = Some ?td"
      using fun_cong [OF ok(2), of t] by (simp add: handle_delete)
    have "fst (get_list t ?w) = Responded 200 (Records (rows ?td))"
      using a(1) quiet_handle t by (rule list_after)
    moreover have "fst (get_list t w) = Responded 200 (Records (rows td))"
      using a(1,2) by (intro get_list_ok quiet_next_ok)
    ultimately show "fst (handle (list_route t) w) = Responded 200 (Records (rows td)) \<and>
      fst (handle (list_route t) ?w) =
        Responded 200 (Records (filter (\<lambda>r. row_id r \<noteq> k) (rows td))) \<and>
      length (filter (\<lambda>r. row_id r \<noteq> k) (rows td)) + 1 = length (rows td) \<and>
      k \<notin> set (map row_id (filter (\<lambda>r. row_id r \<noteq> k) (rows td)))"
      using filter_member_length [OF a(3,4)] by (auto simp add: handle_list)
  qed
  have 3: "quiet w \<and> tables w Student = Some tb \<and> text_columns tb = student_columns_p0 \<and>
    wf_table tb \<and> short first \<and> short second \<and> short third \<longrightarrow>
      fst (handle_p0 (AddStudent first second third) w) =
        Responded 200 (Message ''Student added successfully'') \<and>
      fst (handle_p0 GetStudent (snd (handle_p0 (AddStudent first second third) w))) =
        Responded 200 (Records (rows tb @
          [\<lparr>row_id = next_id tb,
            row_cells = [(''name'', first), (''roll_number'', second), (''class'', third)],
            row_created_at = clock w\<rparr>]))"
  proof (intro impI, elim conjE)
    let ?w = "snd (handle_p0 (AddStudent first second third) w)"
    let ?tb = "tb\<lparr>rows := rows tb @
          [\<lparr>row_id = next_id tb,
            row_cells = [(''name'', first), (''roll_number'', second), (''class'', third)],
            row_created_at = clock w\<rparr>],
          auto_increment := max (auto_increment tb) (next_id tb + 1)\<rparr>"
    assume a: "quiet w" "tables w Student = Some tb" "text_columns tb = student_columns_p0"
      "wf_table tb" "short first" "short second" "short third"
    note ok = post_addstudent_p0_ok [OF a]
    have t: "tables ?w Student = Some ?tb"
      using fun_cong [OF ok(2), of Student] by simp
    have "fst (get_list Student ?w) = Responded 200 (Records (rows ?tb))"
      using a(1) quiet_handle_p0 t by (rule list_after)
    then show "fst (handle_p0 (AddStudent first second third) w) =
        Responded 200 (Message ''Student added successfully'') \<and>
      fst (handle_p0 GetStudent ?w) =
        Responded 200 (Records (rows tb @
          [\<lparr>row_id = next_id tb,
            row_cells = [(''name'', first), (''roll_number'', second), (''class'', third)],
            row_created_at = clock w\<rparr>]))"
      using ok(1) by (simp add: get_student_def)
  qed
  have 4: "quiet w \<and> tables w t = Some td \<and> wf_table td \<and> k \<in> set (map row_id (rows td)) \<longrightarrow>
      fst (handle_p0 (list_route t) (snd (handle_p0 (delete_route t k) w))) =
        Responded 200 (Records (renumbered 0 (filter (\<lambda>r. row_id r \<noteq> k) (rows td)))) \<and>
      length (renumbered 0 (filter (\<lambda>r. row_id r \<noteq> k) (rows td))) + 1 = length (rows td) \<and>
      map row_id (renumbered 0 (filter (\<lambda>r. row_id r \<noteq> k) (rows td))) =
        [1 .. int (length (rows td)) - 1] \<and>
      (k \<in> set (map row_id (renumbered 0 (filter (\<lambda>r. row_id r \<noteq> k) (rows td))))) =
        (k < int (length (rows td)))"
  proof (intro impI, elim conjE)
    let ?w = "snd (handle_p0 (delete_route t k) w)"
    let ?rs = "renumbered 0 (filter (\<lambda>r. row_id r \<noteq> k) (rows td))"
    assume a: "quiet w" "tables w t = Some td" "wf_table td" "k \<in> set (map row_id (rows td))"
    note ok = delete_by_id_p0_ok [OF a(1-3), of "deleted t" k]
    have t: "tables ?w t = Some (td\<lparr>rows := ?rs\<rparr>)"
      using fun_cong [OF ok(2), of t] by (simp add: handle_delete)
    have l: "length (filter (\<lambda>r. row_id r \<noteq> k) (rows td)) + 1 = length (rows td)"
      using wf_table_distinct [OF a(3)] a(4) by (rule filter_member_length)
    then have i: "int (length (filter (\<lambda>r. row_id r \<noteq> k) (rows td))) = int (length (rows td)) - 1"
      by linarith
    have "fst (get_list t ?w) = Responded 200 (Records (rows (td\<lparr>rows := ?rs\<rparr>)))"
      using a(1) quiet_handle_p0 t by (rule list_after)
    then have g: "fst (handle_p0 (list_route t) ?w) = Responded 200 (Records ?rs) \<and>
      length ?rs + 1 = length (rows td) \<and> map row_id ?rs = [1 .. int (length (rows td)) - 1]"
      using l i renumbered_ids [of 0 "filter (\<lambda>r. row_id r \<noteq> k) (rows td)"]
      by (simp add: handle_list renumbered_kept)
    from a(3,4) have "1 \<le> k"
      by (auto simp add: wf_table_def list_all_iff)
    with g have "(k \<in> set (map row_id ?rs)) = (k < int (length (rows td)))"
      by auto
    with g show "fst (handle_p0 (list_route t) ?w) = Responded 200 (Records ?rs) \<and>
      length ?rs + 1 = length (rows td) \<and> map row_id ?rs = [1 .. int (length (rows td)) - 1] \<and>
      (k \<in> set (map row_id ?rs)) = (k < int (length (rows td)))"
      by blast
  qed
  from 1 2 3 4 show ?thesis
    by - (intro conjI, assumption+)
qed

lemma clock_served: "clock served = 0" "clock served_p0 = 0"
  by code_simp+

text \<open>
  \<^verbatim>\<open>POST /addteacher\<close> of \<^verbatim>\<open>src/backend/server.js\<close> names the column \<^verbatim>\<open>class\<close>, which the
  teacher table of that file (column \<^verbatim>\<open>class_name\<close>) does not have: on that table every
  request that passes the check is answered 500 and no row is added.
\<close>

lemma post_addteacher_unknown_column:
  assumes "next_ok w" and "tables w Teacher = Some tb" and "text_columns tb = teacher_columns"
    and "truthy name" "truthy subject" "truthy className"
  shows "fst (handle (AddTeacher name subject className) w) =
           Responded 500 (Error ''Internal server error'')"
    and "tables (snd (handle (AddTeacher name subject className) w)) = tables w"
proof -
  let ?s = "InsertInto Teacher None [(''name'', name), (''subject'', subject), (''class'', className)]"
  have "exec ?s (clock w) (tables w) = Inl (UnknownColumn ''class'')"
    using assms(2,3) by (simp add: teacher_columns_def)
  from query_tables_error [OF assms(1) this] assms(4-6)
  show "fst (handle (AddTeacher name subject className) w) =
           Responded 500 (Error ''Internal server error'')"
    and "tables (snd (handle (AddTeacher name subject className) w)) = tables w"
    by (simp_all add: post_addteacher_def case_prod_beta tables_say)
qed

theorem create_then_list_witness:
  "fst (handle (AddStudent (Some ''Ann'') (Some ''7'') (Some ''5A'')) served) =
     Responded 201 (Message ''Student added successfully'') \<and>
   fst (handle GetStudent (snd (handle (AddStudent (Some ''Ann'') (Some ''7'') (Some ''5A'')) served))) =
     Responded 200 (Records [student 1 ''class_name'' ''Ann'' ''7'' ''5A'']) \<and>
   fst (handle GetStudent (snd (handle (DeleteStudent 1) two_students))) =
     Responded 200 (Records [student 2 ''class_name'' ''Bea'' ''8'' ''5A'']) \<and>
   fst (handle_p0 (AddStudent (Some ''Ann'') (Some ''7'') (Some ''5A'')) served_p0) =
     Responded 200 (Message ''Student added successfully'') \<and>
   fst (handle_p0 GetStudent
          (snd (handle_p0 (AddStudent (Some ''Ann'') (Some ''7'') (Some ''5A'')) served_p0))) =
     Responded 200 (Records [student 1 ''class'' ''Ann'' ''7'' ''5A'']) \<and>
   fst (handle_p0 GetStudent (snd (handle_p0 (DeleteStudent 2) two_students_p0))) =
     Responded 200 (Records [student 1 ''class'' ''Ann'' ''7'' ''5A''])"
proof -
  have q: "quiet served" "quiet served_p0" "quiet two_students" "quiet two_students_p0"
    by (simp_all add: faults_Nil_quiet served_faults served_p0_faults two_students_faults
        two_students_p0_faults)
  have s: "short (Some ''Ann'')" "short (Some ''7'')" "short (Some ''5A'')"
    by (simp_all add: short_def)
  have d: "distinct (map row_id (rows ann_bea))" "1 \<in> set (map row_id (rows ann_bea))"
    "2 \<in> set (map row_id (rows ann_bea_p0))"
    by (simp_all add: ann_bea_def ann_bea_p0_def student_def)
  have f: "filter (\<lambda>r. row_id r \<noteq> 1) (rows ann_bea) = [student 2 ''class_name'' ''Bea'' ''8'' ''5A'']"
    "renumbered 0 (filter (\<lambda>r. row_id r \<noteq> 2) (rows ann_bea_p0)) =
       [student 1 ''class'' ''Ann'' ''7'' ''5A'']"
    by (simp_all add: ann_bea_def ann_bea_p0_def student_def)
  from create_then_list [where w = served and name = "''Ann''" and rollNo = "''7''"
      and className = "''5A''"
      and tb = "\<lparr>text_columns = student_columns, rows = [], auto_increment = 1\<rparr>",
      THEN conjunct1] q(1) served_tables(1) clock_served(1)
  have a: "fst (handle (AddStudent (Some ''Ann'') (Some ''7'') (Some ''5A'')) served) =
     Responded 201 (Message ''Student added successfully'') \<and>
   fst (handle GetStudent (snd (handle (AddStudent (Some ''Ann'') (Some ''7'') (Some ''5A'')) served))) =
     Responded 200 (Records [student 1 ''class_name'' ''Ann'' ''7'' ''5A''])"
    by (simp add: student_def)
  from create_then_list [where w = two_students and t = Student and td = ann_bea and k = 1,
      THEN conjunct2, THEN conjunct1] q(3) two_students_table d(1,2)
  have b: "fst (handle GetStudent (snd (handle (DeleteStudent 1) two_students))) =
     Responded 200 (Records [student 2 ''class_name'' ''Bea'' ''8'' ''5A''])"
    unfolding f by simp
  from create_then_list [where w = served_p0 and first = "Some ''Ann''" and second = "Some ''7''"
      and third = "Some ''5A''"
      and tb = "\<lparr>text_columns = student_columns_p0, rows = [], auto_increment = 1\<rparr>",
      THEN conjunct2, THEN conjunct2, THEN conjunct1]
    q(2) s served_p0_tables(1) clock_served(2) wf_empty [of student_columns_p0]
  have c: "fst (handle_p0 (AddStudent (Some ''Ann'') (Some ''7'') (Some ''5A'')) served_p0) =
     Responded 200 (Message ''Student added successfully'') \<and>
   fst (handle_p0 GetStudent
          (snd (handle_p0 (AddStudent (Some ''Ann'') (Some ''7'') (Some ''5A'')) served_p0))) =
     Responded 200 (Records [student 1 ''class'' ''Ann'' ''7'' ''5A''])"
    by (simp add: student_def next_id_def)
  from create_then_list [where w = two_students_p0 and t = Student and td = ann_bea_p0 and k = 2,
      THEN conjunct2, THEN conjunct2, THEN conjunct2]
    q(4) two_students_p0_table wf_ann_bea(2) d(3)
  have e: "fst (handle_p0 GetStudent (snd (handle_p0 (DeleteStudent 2) two_students_p0))) =
     Responded 200 (Records [student 1 ''class'' ''Ann'' ''7'' ''5A''])"
    unfolding f by simp
  from a b c e show ?thesis by blast
qed

text \<open>
  C4 as stated fails: \<^verbatim>\<open>src/unnamed/part_000\<close> answers a complete create request with 200,
  and after the delete of student 1 its list has a row with identifier 1 (Bea, renumbered);
  in \<^verbatim>\<open>src/backend/server.js\<close> a name of 256 characters does not fit \<^verbatim>\<open>VARCHAR(255)\<close> and
  the request is answered 500.
\<close>

theorem create_then_list_counterexample:
  "fst (handle_p0 (AddStudent (Some ''Ann'') (Some ''7'') (Some ''5A'')) served_p0) =
     Responded 200 (Message ''Student added successfully'') \<and>
   fst (handle_p0 GetStudent (snd (handle_p0 (DeleteStudent 1) two_students_p0))) =
     Responded 200 (Records [student 1 ''class'' ''Bea'' ''8'' ''5A'']) \<and>
   fst (handle (AddStudent (Some (replicate 256 CHR ''a'')) (Some ''7'') (Some ''5A'')) served) =
     Responded 500 (Error ''Internal server error'')"
  by code_simp

section \<open>Identifiers\<close>

lemma query_error_tables: "fst (query s w) = Inl e \<Longrightarrow> tables (snd (query s w)) = tables w"
  by (cases "faults w"; cases "exec s (clock w) (tables w)")
     (auto simp add: query.simps run_def split: option.splits)

lemma query_select_tables:
  "s = Select1 \<or> s = SelectAll t \<Longrightarrow> tables (snd (query s w)) = tables w"
  using query_tables_cases [of s w] by (auto split: option.splits)

lemma handle_reads:
  "tables (snd (handle GetHealth w)) = tables w"
  "tables (snd (handle GetReady w)) = tables w"
  "tables (snd (handle GetRoot w)) = tables w"
  "tables (snd (handle GetStudent w)) = tables w"
  "tables (snd (handle GetTeacher w)) = tables w"
  by (simp_all add: get_health_def get_ready_def get_root_def get_student_def get_teacher_def
      get_list_def case_prod_beta query_select_tables split: sum.splits)

lemma post_addstudent_not_201:
  "fst (post_addstudent name rollNo className w) \<noteq>
     Responded 201 (Message ''Student added successfully'') \<Longrightarrow>
   tables (snd (post_addstudent name rollNo className w)) = tables w"
  by (auto simp add: post_addstudent_def case_prod_beta tables_say query_error_tables
      split: sum.splits if_splits)

lemma post_addteacher_not_201:
  "fst (post_addteacher name subject className w) \<noteq>
     Responded 201 (Message ''Teacher added successfully'') \<Longrightarrow>
   tables (snd (post_addteacher name subject className w)) = tables w"
  by (auto simp add: post_addteacher_def case_prod_beta tables_say query_error_tables
      split: sum.splits if_splits)

lemma delete_by_id_not_200:
  "fst (delete_by_id t msg k w) \<noteq> Responded 200 (Message msg) \<Longrightarrow>
   tables (snd (delete_by_id t msg k w)) = tables w"
  by (auto simp add: delete_by_id_def case_prod_beta tables_say query_error_tables
      split: sum.splits if_splits)

lemma exec_delete_result:
  "exec (DeleteWhereId t k) now ts = Inr (r, ts') \<Longrightarrow> ts t = Some td \<Longrightarrow>
   ts' = ts(t := Some (td\<lparr>rows := filter (\<lambda>r. row_id r \<noteq> k) (rows td)\<rparr>))"
  by (auto split: option.splits)

lemma delete_by_id_200:
  assumes "fst (delete_by_id t msg k w) = Responded 200 b" and "tables w t = Some td"
  shows "tables (snd (delete_by_id t msg k w)) =
           (tables w)(t := Some (td\<lparr>rows := filter (\<lambda>r. row_id r \<noteq> k) (rows td)\<rparr>))"
proof -
  from assms(1) obtain r where r: "fst (query (DeleteWhereId t k) w) = Inr r"
    and t: "tables (snd (delete_by_id t msg k w)) = tables (snd (query (DeleteWhereId t k) w))"
    by (cases "fst (query (DeleteWhereId t k) w)")
       (auto simp add: delete_by_id_def case_prod_beta split: if_splits)
  from exec_delete_result [OF query_result [OF r] assms(2)] t show ?thesis by simp
qed

lemma handle_statement:
  "\<exists>s. store_assigned s \<and> (\<forall>t k. s = DeleteWhereId t k \<longrightarrow> rq = delete_route t k) \<and>
       (tables (snd (handle rq w)) = tables w \<or> tables (snd (handle rq w)) = tables (snd (query s w)))"
proof (cases rq)
  case GetHealth
  then show ?thesis by (auto simp add: get_health_def intro: exI [of _ Select1])
next
  case GetReady
  then show ?thesis
    by (intro exI [of _ Select1]) (simp add: get_ready_def case_prod_beta split: sum.splits)
next
  case GetRoot
  then show ?thesis
    by (intro exI [of _ "SelectAll Student"]) (simp add: get_root_def case_prod_beta split: sum.splits)
next
  case GetStudent
  then show ?thesis
    by (intro exI [of _ "SelectAll Student"])
       (simp add: get_student_def get_list_def case_prod_beta split: sum.splits)
next
  case GetTeacher
  then show ?thesis
    by (intro exI [of _ "SelectAll Teacher"])
       (simp add: get_teacher_def get_list_def case_prod_beta split: sum.splits)
next
  case (AddStudent n r c)
  then show ?thesis
    by (intro exI [of _ "InsertInto Student None
          [(''name'', n), (''roll_number'', r), (''class_name'', c)]"])
       (simp add: post_addstudent_def case_prod_beta tables_say split: sum.splits)
next
  case (AddTeacher n r c)
  then show ?thesis
    by (intro exI [of _ "InsertInto Teacher None
          [(''name'', n), (''subject'', r), (''class'', c)]"])
       (simp add: post_addteacher_def case_prod_beta tables_say split: sum.splits)
next
  case (DeleteStudent k)
  then show ?thesis
    by (intro exI [of _ "DeleteWhereId Student k"])
       (simp add: delete_student_def delete_by_id_def case_prod_beta tables_say split: sum.splits)
next
  case (DeleteTeacher k)
  then show ?thesis
    by (intro exI [of _ "DeleteWhereId Teacher k"])
       (simp add: delete_teacher_def delete_by_id_def case_prod_beta tables_say split: sum.splits)
qed

lemma exec_kept:
  assumes "store_assigned s" and "s \<noteq> DeleteWhereId t (row_id r)"
    and "exec s now ts = Inr (res, ts')" and "ts t = Some ta" and "r \<in> set (rows ta)"
  shows "\<exists>tb. ts' t = Some tb \<and> r \<in> set (rows tb)"
proof (cases s)
  case (InsertInto u i given)
  with assms show ?thesis
    by (cases i) (auto split: option.splits sum.splits if_splits)
next
  case (DeleteWhereId u k)
  with assms show ?thesis
    by (auto split: option.splits if_splits)
qed (use assms in \<open>auto split: option.splits\<close>)

lemma query_kept:
  assumes "store_assigned s" and "s \<noteq> DeleteWhereId t (row_id r)"
    and "tables w t = Some ta" and "r \<in> set (rows ta)"
  shows "\<exists>tb. tables (snd (query s w)) t = Some tb \<and> r \<in> set (rows tb)"
proof -
  from query_tables_cases [of s w]
  consider "tables (snd (query s w)) = tables w"
    | res where "exec s (clock w) (tables w) = Inr (res, tables (snd (query s w)))"
    by blast
  then show ?thesis
  proof cases
    case 1
    with assms(3,4) show ?thesis by simp
  next
    case 2
    from assms(1,2) 2 assms(3,4) show ?thesis by (rule exec_kept)
  qed
qed

lemma handle_kept:
  assumes "rq \<noteq> delete_route t (row_id r)" and "tables w t = Some ta" and "r \<in> set (rows ta)"
  shows "\<exists>tb. tables (snd (handle rq w)) t = Some tb \<and> r \<in> set (rows tb)"
proof -
  from handle_statement [of rq w] obtain s where s: "store_assigned s"
    "\<forall>t k. s = DeleteWhereId t k \<longrightarrow> rq = delete_route t k"
    "tables (snd (handle rq w)) = tables w \<or> tables (snd (handle rq w)) = tables (snd (query s w))"
    by blast
  from s(2) assms(1) have n: "s \<noteq> DeleteWhereId t (row_id r)" by blast
  from s(3) query_kept [OF s(1) n assms(2,3)] assms(2,3) show ?thesis by auto
qed

lemma serve_kept:
  "delete_route t (row_id r) \<notin> set rqs \<Longrightarrow> tables w t = Some ta \<Longrightarrow> r \<in> set (rows ta) \<Longrightarrow>
   \<exists>tb. tables (serve handle rqs w) t = Some tb \<and> r \<in> set (rows tb)"
proof (induction rqs arbitrary: w ta)
  case Nil
  then show ?case by simp
next
  case (Cons rq rqs)
  from Cons.prems have n: "rq \<noteq> delete_route t (row_id r)" by auto
  from handle_kept [OF n Cons.prems(2,3)] obtain tb
    where tb: "tables (snd (handle rq w)) t = Some tb" "r \<in> set (rows tb)" by blast
  from Cons.prems(1) have "delete_route t (row_id r) \<notin> set rqs" by simp
  from Cons.IH [OF this tb] show ?case by simp
qed

lemma grows_same_id:
  assumes "wf_table ta" and "grows (Some ta) (Some tb)"
    and "r \<in> set (rows ta)" and "r' \<in> set (rows tb)" and "row_id r' = row_id r"
  shows "r' = r"
proof -
  from assms(1,3) have "row_id r < auto_increment ta"
    by (auto simp add: wf_table_def list_all_iff)
  with assms(2,4,5) have "r' \<in> set (rows ta)"
    by (auto simp add: list_all_iff)
  with wf_table_distinct [OF assms(1)] assms(3,5) show ?thesis
    by (auto simp add: distinct_map inj_on_def)
qed

lemma exec_insert_needs_table: "exec (InsertInto t i given) now ts = Inr x \<Longrightarrow> \<exists>tb. ts t = Some tb"
  by (cases "ts t") simp_all

lemma exec_delete_needs_table: "exec (DeleteWhereId t k) now ts = Inr x \<Longrightarrow> \<exists>tb. ts t = Some tb"
  by (cases "ts t") simp_all

lemma post_addstudent_201_table:
  assumes "fst (post_addstudent name rollNo className w) = Responded 201 b"
  shows "\<exists>tb cs. tables w Student = Some tb \<and>
           tables (snd (post_addstudent name rollNo className w)) =
           (tables w)(Student := Some (tb\<lparr>rows := rows tb @
              [\<lparr>row_id = auto_increment tb, row_cells = cs, row_created_at = clock w\<rparr>],
              auto_increment := auto_increment tb + 1\<rparr>))"
proof -
  let ?s = "InsertInto Student None
              [(''name'', name), (''roll_number'', rollNo), (''class_name'', className)]"
  from assms obtain r where r: "fst (query ?s w) = Inr r"
    by (cases "fst (query ?s w)")
       (auto simp add: post_addstudent_def case_prod_beta split: if_splits)
  from exec_insert_needs_table [OF query_result [OF r]] obtain tb
    where tb: "tables w Student = Some tb" by blast
  from post_addstudent_201 [OF assms tb] tb show ?thesis by blast
qed

lemma post_addteacher_201_table:
  assumes "fst (post_addteacher name subject className w) = Responded 201 b"
  shows "\<exists>tb cs. tables w Teacher = Some tb \<and>
           tables (snd (post_addteacher name subject className w)) =
           (tables w)(Teacher := Some (tb\<lparr>rows := rows tb @
              [\<lparr>row_id = auto_increment tb, row_cells = cs, row_created_at = clock w\<rparr>],
              auto_increment := auto_increment tb + 1\<rparr>))"
proof -
  let ?s = "InsertInto Teacher None
              [(''name'', name), (''subject'', subject), (''class'', className)]"
  from assms obtain r where r: "fst (query ?s w) = Inr r"
    by (cases "fst (query ?s w)")
       (auto simp add: post_addteacher_def case_prod_beta split: if_splits)
  from exec_insert_needs_table [OF query_result [OF r]] obtain tb
    where tb: "tables w Teacher = Some tb" by blast
  from post_addteacher_201 [OF assms tb] tb show ?thesis by blast
qed

lemma delete_by_id_200_table:
  assumes "fst (delete_by_id t msg k w) = Responded 200 b"
  shows "\<exists>td. tables w t = Some td \<and>
           tables (snd (delete_by_id t msg k w)) =
           (tables w)(t := Some (td\<lparr>rows := filter (\<lambda>r. row_id r \<noteq> k) (rows td)\<rparr>))"
proof -
  from assms obtain r where r: "fst (query (DeleteWhereId t k) w) = Inr r"
    by (cases "fst (query (DeleteWhereId t k) w)")
       (auto simp add: delete_by_id_def case_prod_beta split: if_splits)
  from exec_delete_needs_table [OF query_result [OF r]] obtain td
    where td: "tables w t = Some td" by blast
  from delete_by_id_200 [OF assms td] td show ?thesis by blast
qed

text \<open>
  C5, as the code has it. In \<^verbatim>\<open>src/backend/server.js\<close> the store alone assigns identifiers.
  Over any sequence of requests: tables whose identifiers ascend below the counter stay so
  (no two rows share an identifier), and every row afterwards is a row from before,
  unchanged, or has an identifier that the counter had not reached; a row stays in its
  table, as it is, unless the sequence has a delete request for its identifier; and a row
  found afterwards under the identifier of a row from before is that row. Request by
  request: the checks of health and readiness and the lists leave the tables as they are; a create request that is
  not answered 201 leaves them as they are, and one answered 201 has added one row at the
  end of its table, with the counter of the table as its identifier, and has raised the
  counter by one; a delete request that is not answered 200 leaves the tables as they are,
  and one answered 200 has removed the rows with its identifier and done nothing else. In
  \<^verbatim>\<open>src/unnamed/part_000\<close> the handler computes the identifier, the last one plus one, and
  sends it with the row, and the delete handler renumbers the remaining rows (the updates
  taken in the order in which they are issued).
\<close>

theorem identifiers_assigned:
  "(wf_tables (tables w) \<longrightarrow>
      wf_tables (tables (serve handle rqs w)) \<and>
      grows (tables w t) (tables (serve handle rqs w) t)) \<and>
   (tables w t = Some ta \<and> r \<in> set (rows ta) \<and> delete_route t (row_id r) \<notin> set rqs \<longrightarrow>
      (\<exists>tz. tables (serve handle rqs w) t = Some tz \<and> r \<in> set (rows tz))) \<and>
   (wf_tables (tables w) \<and> tables w t = Some ta \<and> tables (serve handle rqs w) t = Some tz \<and>
    r \<in> set (rows ta) \<and> r' \<in> set (rows tz) \<and> row_id r' = row_id r \<longrightarrow> r' = r) \<and>
   tables (snd (handle GetHealth w)) = tables w \<and>
   tables (snd (handle GetReady w)) = tables w \<and>
   tables (snd (handle GetRoot w)) = tables w \<and>
   tables (snd (handle GetStudent w)) = tables w \<and>
   tables (snd (handle GetTeacher w)) = tables w \<and>
   (fst (handle (AddStudent name second className) w) \<noteq>
      Responded 201 (Message ''Student added successfully'') \<longrightarrow>
      tables (snd (handle (AddStudent name second className) w)) = tables w) \<and>
   (fst (handle (AddStudent name second className) w) = Responded 201 b \<longrightarrow>
      (\<exists>tb cs. tables w Student = Some tb \<and>
         tables (snd (handle (AddStudent name second className) w)) =
         (tables w)(Student := Some (tb\<lparr>rows := rows tb @
            [\<lparr>row_id = auto_increment tb, row_cells = cs, row_created_at = clock w\<rparr>],
            auto_increment := auto_increment tb + 1\<rparr>)))) \<and>
   (fst (handle (AddTeacher name second className) w) \<noteq>
      Responded 201 (Message ''Teacher added successfully'') \<longrightarrow>
      tables (snd (handle (AddTeacher name second className) w)) = tables w) \<and>
   (fst (handle (AddTeacher name second className) w) = Responded 201 b \<longrightarrow>
      (\<exists>tc cs. tables w Teacher = Some tc \<and>
         tables (snd (handle (AddTeacher name second className) w)) =
         (tables w)(Teacher := Some (tc\<lparr>rows := rows tc @
            [\<lparr>row_id = auto_increment tc, row_cells = cs, row_created_at = clock w\<rparr>],
            auto_increment := auto_increment tc + 1\<rparr>)))) \<and>
   (fst (handle (delete_route t k) w) \<noteq> Responded 200 (Message (deleted t)) \<longrightarrow>
      tables (snd (handle (delete_route t k) w)) = tables w) \<and>
   (fst (handle (delete_route t k) w) = Responded 200 b \<longrightarrow>
      (\<exists>td. tables w t = Some td \<and>
         tables (snd (handle (delete_route t k) w)) =
         (tables w)(t := Some (td\<lparr>rows := filter (\<lambda>r. row_id r \<noteq> k) (rows td)\<rparr>)))) \<and>
   (quiet w \<and> tables w Student = Some tb \<and> text_columns tb = student_columns_p0 \<and>
    wf_table tb \<and> short name \<and> short second \<and> short className \<longrightarrow>
      tables (snd (handle_p0 (AddStudent name second className) w)) =
        (tables w)(Student := Some (tb\<lparr>rows := rows tb @
           [\<lparr>row_id = next_id tb,
             row_cells = [(''name'', name), (''roll_number'', second), (''class'', className)],
             row_created_at = clock w\<rparr>],
           auto_increment := max (auto_increment tb) (next_id tb + 1)\<rparr>))) \<and>
   (quiet w \<and> tables w Teacher = Some tc \<and> text_columns tc = teacher_columns_p0 \<and>
    wf_table tc \<and> short name \<and> short second \<and> short className \<longrightarrow>
      tables (snd (handle_p0 (AddTeacher name second className) w)) =
        (tables w)(Teacher := Some (tc\<lparr>rows := rows tc @
           [\<lparr>row_id = next_id tc,
             row_cells = [(''name'', name), (''subject'', second), (''class'', className)],
             row_created_at = clock w\<rparr>],
           auto_increment := max (auto_increment tc) (next_id tc + 1)\<rparr>))) \<and>
   (quiet w \<and> tables w t = Some td \<and> wf_table td \<longrightarrow>
      tables (snd (handle_p0 (delete_route t k) w)) =
        (tables w)(t := Some (td\<lparr>rows :=
           renumbered 0 (filter (\<lambda>r. row_id r \<noteq> k) (rows td))\<rparr>)))"
proof -
  have q1: "(wf_tables (tables w) \<longrightarrow>
        wf_tables (tables (serve handle rqs w)) \<and>
        grows (tables w t) (tables (serve handle rqs w) t))"
    using serve_grows [of w rqs t] by blast
  have q2: "(tables w t = Some ta \<and> r \<in> set (rows ta) \<and> delete_route t (row_id r) \<notin> set rqs \<longrightarrow>
        (\<exists>tz. tables (serve handle rqs w) t = Some tz \<and> r \<in> set (rows tz)))"
    using serve_kept [of t r rqs w ta] by blast
  have q3: "(wf_tables (tables w) \<and> tables w t = Some ta \<and> tables (serve handle rqs w) t = Some tz \<and>
      r \<in> set (rows ta) \<and> r' \<in> set (rows tz) \<and> row_id r' = row_id r \<longrightarrow> r' = r)"
  proof (intro impI, elim conjE)
    assume a: "wf_tables (tables w)" "tables w t = Some ta" "tables (serve handle rqs w) t = Some tz"
      "r \<in> set (rows ta)" "r' \<in> set (rows tz)" "row_id r' = row_id r"
    from a(1,2) have wf: "wf_table ta"
      by (cases t) (auto simp add: wf_tables_def)
    from serve_grows [OF a(1), of rqs t] a(2,3) have "grows (Some ta) (Some tz)"
      by simp
    from wf this a(4-6) show "r' = r" by (rule grows_same_id)
  qed
  have s1: "tables (snd (handle GetHealth w)) = tables w"
    by (rule handle_reads)
  have s2: "tables (snd (handle GetReady w)) = tables w"
    by (rule handle_reads)
  have s3: "tables (snd (handle GetRoot w)) = tables w"
    by (rule handle_reads)
  have s4: "tables (snd (handle GetStudent w)) = tables w"
    by (rule handle_reads)
  have s5: "tables (snd (handle GetTeacher w)) = tables w"
    by (rule handle_reads)
  have a1: "(fst (handle (AddStudent name second className) w) \<noteq>
        Responded 201 (Message ''Student added successfully'') \<longrightarrow>
        tables (snd (handle (AddStudent name second className) w)) = tables w)"
    using post_addstudent_not_201 [of name second className w] by simp
  have a2: "(fst (handle (AddStudent name second className) w) = Responded 201 b \<longrightarrow>
        (\<exists>tb cs. tables w Student = Some tb \<and>
           tables (snd (handle (AddStudent name second className) w)) =
           (tables w)(Student := Some (tb\<lparr>rows := rows tb @
              [\<lparr>row_id = auto_increment tb, row_cells = cs, row_created_at = clock w\<rparr>],
              auto_increment := auto_increment tb + 1\<rparr>))))"
    using post_addstudent_201_table [of name second className w b] by simp
  have a3: "(fst (handle (AddTeacher name second className) w) \<noteq>
        Responded 201 (Message ''Teacher added successfully'') \<longrightarrow>
        tables (snd (handle (AddTeacher name second className) w)) = tables w)"
    using post_addteacher_not_201 [of name second className w] by simp
  have a4: "(fst (handle (AddTeacher name second className) w) = Responded 201 b \<longrightarrow>
        (\<exists>tc cs. tables w Teacher = Some tc \<and>
           tables (snd (handle (AddTeacher name second className) w)) =
           (tables w)(Teacher := Some (tc\<lparr>rows := rows tc @
              [\<lparr>row_id = auto_increment tc, row_cells = cs, row_created_at = clock w\<rparr>],
              auto_increment := auto_increment tc + 1\<rparr>))))"
    using post_addteacher_201_table [of name second className w b] by simp
  have d1: "(fst (handle (delete_route t k) w) \<noteq> Responded 200 (Message (deleted t)) \<longrightarrow>
        tables (snd (handle (delete_route t k) w)) = tables w)"
    using delete_by_id_not_200 [of t "deleted t" k w] by (simp add: handle_delete)
  have d2: "(fst (handle (delete_route t k) w) = Responded 200 b \<longrightarrow>
        (\<exists>td. tables w t = Some td \<and>
           tables (snd (handle (delete_route t k) w)) =
           (tables w)(t := Some (td\<lparr>rows := filter (\<lambda>r. row_id r \<noteq> k) (rows td)\<rparr>))))"
    using delete_by_id_200_table [of t "deleted t" k w b] by (simp add: handle_delete)
  have p1: "(quiet w \<and> tables w Student = Some tb \<and> text_columns tb = student_columns_p0 \<and>
      wf_table tb \<and> short name \<and> short second \<and> short className \<longrightarrow>
        tables (snd (handle_p0 (AddStudent name second className) w)) =
          (tables w)(Student := Some (tb\<lparr>rows := rows tb @
             [\<lparr>row_id = next_id tb,
               row_cells = [(''name'', name), (''roll_number'', second), (''class'', className)],
               row_created_at = clock w\<rparr>],
             auto_increment := max (auto_increment tb) (next_id tb + 1)\<rparr>)))"
    by (simp add: post_addstudent_p0_ok)
  have p2: "(quiet w \<and> tables w Teacher = Some tc \<and> text_columns tc = teacher_columns_p0 \<and>
      wf_table tc \<and> short name \<and> short second \<and> short className \<longrightarrow>
        tables (snd (handle_p0 (AddTeacher name second className) w)) =
          (tables w)(Teacher := Some (tc\<lparr>rows := rows tc @
             [\<lparr>row_id = next_id tc,
               row_cells = [(''name'', name), (''subject'', second), (''class'', className)],
               row_created_at = clock w\<rparr>],
             auto_increment := max (auto_increment tc) (next_id tc + 1)\<rparr>)))"
    by (simp add: post_addteacher_p0_ok)
  have p3: "(quiet w \<and> tables w t = Some td \<and> wf_table td \<longrightarrow>
        tables (snd (handle_p0 (delete_route t k) w)) =
          (tables w)(t := Some (td\<lparr>rows :=
             renumbered 0 (filter (\<lambda>r. row_id r \<noteq> k) (rows td))\<rparr>)))"
    by (simp add: handle_delete delete_by_id_p0_ok)
  from q1 q2 q3 s1 s2 s3 s4 s5 a1 a2 a3 a4 d1 d2 p1 p2 p3 show ?thesis
    by - (intro conjI, assumption+)
qed

lemma wf_served: "wf_tables (tables served)"
  by (simp add: wf_tables_def served_tables wf_empty)

lemma served_add_ann:
  "fst (handle (AddStudent (Some ''Ann'') (Some ''7'') (Some ''5A'')) served) =
     Responded 201 (Message ''Student added successfully'')"
  by code_simp

lemma four_requests_list:
  "fst (handle GetStudent (serve handle four_requests served)) =
     Responded 200 (Records [student 2 ''class_name'' ''Bea'' ''8'' ''5A'',
                             student 3 ''class_name'' ''Cy'' ''9'' ''5A''])"
  by code_simp

lemma served_add_incomplete:
  "fst (handle (AddStudent None (Some ''7'') (Some ''5A'')) served) =
     Responded 400 (Error ''Invalid payload: name, rollNo, class required'')"
  by code_simp

lemma served_add_bob:
  "fst (handle (AddTeacher (Some ''Bob'') (Some ''Math'') (Some ''5A'')) served) =
     Responded 500 (Error ''Internal server error'')"
  "fst (handle (AddTeacher (Some ''Bob'') (Some ''Math'') (Some ''5A'')) served_p0) =
     Responded 201 (Message ''Teacher added successfully'')"
  by code_simp+

lemma delete_one:
  "fst (handle (DeleteStudent 1) store_down) = Responded 500 (Error ''Internal server error'')"
  "fst (handle (DeleteStudent 1) two_students) = Responded 200 (Message ''Student deleted successfully'')"
  by code_simp+

lemma wf_two_students: "wf_tables (tables two_students)"
  by code_simp

theorem identifiers_assigned_witness:
  "wf_tables (tables (serve handle four_requests served)) \<and>
   grows (tables served Student) (tables (serve handle four_requests served) Student) \<and>
   fst (handle GetStudent (serve handle four_requests served)) =
     Responded 200 (Records [student 2 ''class_name'' ''Bea'' ''8'' ''5A'',
                             student 3 ''class_name'' ''Cy'' ''9'' ''5A'']) \<and>
   wf_tables (tables two_students) \<and>
   (\<exists>tz. tables (serve handle [DeleteStudent 1, AddStudent (Some ''Cy'') (Some ''9'') (Some ''5A'')]
             two_students) Student = Some tz \<and>
         student 2 ''class_name'' ''Bea'' ''8'' ''5A'' \<in> set (rows tz)) \<and>
   tables (snd (handle (AddStudent None (Some ''7'') (Some ''5A'')) served)) = tables served \<and>
   (\<exists>cs. tables (snd (handle (AddStudent (Some ''Ann'') (Some ''7'') (Some ''5A'')) served))
           Student =
         Some \<lparr>text_columns = student_columns,
               rows = [\<lparr>row_id = 1, row_cells = cs, row_created_at = 0\<rparr>],
               auto_increment = 2\<rparr>) \<and>
   tables (snd (handle (AddTeacher (Some ''Bob'') (Some ''Math'') (Some ''5A'')) served)) =
     tables served \<and>
   (\<exists>cs. tables (snd (handle (AddTeacher (Some ''Bob'') (Some ''Math'') (Some ''5A'')) served_p0))
           Teacher =
         Some \<lparr>text_columns = teacher_columns_p0,
               rows = [\<lparr>row_id = 1, row_cells = cs, row_created_at = 0\<rparr>],
               auto_increment = 2\<rparr>) \<and>
   tables (snd (handle (DeleteStudent 1) store_down)) = tables store_down \<and>
   tables (snd (handle (DeleteStudent 1) two_students)) Student =
     Some (ann_bea\<lparr>rows := [student 2 ''class_name'' ''Bea'' ''8'' ''5A'']\<rparr>) \<and>
   tables (snd (handle_p0 (AddStudent (Some ''Ann'') (Some ''7'') (Some ''5A'')) served_p0))
       Student =
     Some \<lparr>text_columns = student_columns_p0,
           rows = [student 1 ''class'' ''Ann'' ''7'' ''5A''], auto_increment = 2\<rparr> \<and>
   tables (snd (handle_p0 (AddTeacher (Some ''Bob'') (Some ''Math'') (Some ''5A'')) served_p0))
       Teacher =
     Some \<lparr>text_columns = teacher_columns_p0,
           rows = [\<lparr>row_id = 1,
                    row_cells = [(''name'', Some ''Bob''), (''subject'', Some ''Math''),
                                 (''class'', Some ''5A'')],
                    row_created_at = 0\<rparr>],
           auto_increment = 2\<rparr> \<and>
   tables (snd (handle_p0 (DeleteStudent 1) two_students_p0)) Student =
     Some (ann_bea_p0\<lparr>rows := [student 1 ''class'' ''Bea'' ''8'' ''5A'']\<rparr>)"
proof -
  have q: "quiet served_p0" "quiet two_students_p0"
    by (simp_all add: faults_Nil_quiet served_p0_faults two_students_p0_faults)
  have s: "short (Some ''Ann'')" "short (Some ''7'')" "short (Some ''5A'')"
    "short (Some ''Bob'')" "short (Some ''Math'')"
    by (simp_all add: short_def)
  have tc: "text_columns \<lparr>text_columns = student_columns_p0, rows = [], auto_increment = 1\<rparr> =
      student_columns_p0"
    "text_columns \<lparr>text_columns = teacher_columns_p0, rows = [], auto_increment = 1\<rparr> =
      teacher_columns_p0"
    by simp_all
  have f: "renumbered 0 (filter (\<lambda>r. row_id r \<noteq> 1) (rows ann_bea_p0)) =
      [student 1 ''class'' ''Bea'' ''8'' ''5A'']"
    "filter (\<lambda>r. row_id r \<noteq> 1) (rows ann_bea) = [student 2 ''class_name'' ''Bea'' ''8'' ''5A'']"
    by (simp_all add: ann_bea_p0_def ann_bea_def student_def)
  from identifiers_assigned [where w = served and rqs = four_requests and t = Student,
      THEN conjunct1] wf_served
  have a: "wf_tables (tables (serve handle four_requests served)) \<and>
      grows (tables served Student) (tables (serve handle four_requests served) Student)"
    by blast
  have m: "student 2 ''class_name'' ''Bea'' ''8'' ''5A'' \<in> set (rows ann_bea)"
    "delete_route Student (row_id (student 2 ''class_name'' ''Bea'' ''8'' ''5A'')) \<notin>
       set [DeleteStudent 1, AddStudent (Some ''Cy'') (Some ''9'') (Some ''5A'')]"
    by (simp_all add: ann_bea_def student_def)
  from identifiers_assigned [where w = two_students and t = Student and ta = ann_bea
      and r = "student 2 ''class_name'' ''Bea'' ''8'' ''5A''"
      and rqs = "[DeleteStudent 1, AddStudent (Some ''Cy'') (Some ''9'') (Some ''5A'')]",
      THEN conjunct2, THEN conjunct1] two_students_table m
  have k: "\<exists>tz. tables (serve handle [DeleteStudent 1, AddStudent (Some ''Cy'') (Some ''9'') (Some ''5A'')]
             two_students) Student = Some tz \<and>
         student 2 ''class_name'' ''Bea'' ''8'' ''5A'' \<in> set (rows tz)"
    by blast
  from identifiers_assigned [where w = served and name = None and second = "Some ''7''"
      and className = "Some ''5A''",
      THEN conjunct2, THEN conjunct2, THEN conjunct2, THEN conjunct2, THEN conjunct2,
      THEN conjunct2, THEN conjunct2, THEN conjunct2, THEN conjunct1] served_add_incomplete
  have n1: "tables (snd (handle (AddStudent None (Some ''7'') (Some ''5A'')) served)) = tables served"
    by simp
  from identifiers_assigned [where w = served and name = "Some ''Ann''" and second = "Some ''7''"
      and className = "Some ''5A''" and b = "Message ''Student added successfully''",
      THEN conjunct2, THEN conjunct2, THEN conjunct2, THEN conjunct2, THEN conjunct2,
      THEN conjunct2, THEN conjunct2, THEN conjunct2, THEN conjunct2, THEN conjunct1] served_add_ann
  obtain tb cs where tb: "tables served Student = Some tb"
    "tables (snd (handle (AddStudent (Some ''Ann'') (Some ''7'') (Some ''5A'')) served)) =
      (tables served)(Student := Some (tb\<lparr>rows := rows tb @
            [\<lparr>row_id = auto_increment tb, row_cells = cs, row_created_at = clock served\<rparr>],
          auto_increment := auto_increment tb + 1\<rparr>))"
    by blast
  from tb(1) served_tables(1)
  have "tb = \<lparr>text_columns = student_columns, rows = [], auto_increment = 1\<rparr>" by simp
  with fun_cong [OF tb(2), of Student]
  have b: "\<exists>cs. tables (snd (handle (AddStudent (Some ''Ann'') (Some ''7'') (Some ''5A'')) served))
           Student =
         Some \<lparr>text_columns = student_columns,
               rows = [\<lparr>row_id = 1, row_cells = cs, row_created_at = 0\<rparr>],
               auto_increment = 2\<rparr>"
    by (simp add: clock_served)
  from identifiers_assigned [where w = served and name = "Some ''Bob''" and second = "Some ''Math''"
      and className = "Some ''5A''",
      THEN conjunct2, THEN conjunct2, THEN conjunct2, THEN conjunct2, THEN conjunct2,
      THEN conjunct2, THEN conjunct2, THEN conjunct2, THEN conjunct2, THEN conjunct2,
      THEN conjunct1] served_add_bob(1)
  have n2: "tables (snd (handle (AddTeacher (Some ''Bob'') (Some ''Math'') (Some ''5A'')) served)) =
     tables served"
    by simp
  from identifiers_assigned [where w = served_p0 and name = "Some ''Bob''" and second = "Some ''Math''"
      and className = "Some ''5A''" and b = "Message ''Teacher added successfully''",
      THEN conjunct2, THEN conjunct2, THEN conjunct2, THEN conjunct2, THEN conjunct2,
      THEN conjunct2, THEN conjunct2, THEN conjunct2, THEN conjunct2, THEN conjunct2,
      THEN conjunct2, THEN conjunct1] served_add_bob(2)
  obtain tc' cs' where tc': "tables served_p0 Teacher = Some tc'"
    "tables (snd (handle (AddTeacher (Some ''Bob'') (Some ''Math'') (Some ''5A'')) served_p0)) =
      (tables served_p0)(Teacher := Some (tc'\<lparr>rows := rows tc' @
            [\<lparr>row_id = auto_increment tc', row_cells = cs', row_created_at = clock served_p0\<rparr>],
          auto_increment := auto_increment tc' + 1\<rparr>))"
    by blast
  from tc'(1) served_p0_tables(2)
  have "tc' = \<lparr>text_columns = teacher_columns_p0, rows = [], auto_increment = 1\<rparr>" by simp
  with fun_cong [OF tc'(2), of Teacher]
  have b2: "\<exists>cs. tables (snd (handle (AddTeacher (Some ''Bob'') (Some ''Math'') (Some ''5A'')) served_p0))
           Teacher =
         Some \<lparr>text_columns = teacher_columns_p0,
               rows = [\<lparr>row_id = 1, row_cells = cs, row_created_at = 0\<rparr>],
               auto_increment = 2\<rparr>"
    by (simp add: clock_served)
  from identifiers_assigned [where w = store_down and t = Student and k = 1,
      THEN conjunct2, THEN conjunct2, THEN conjunct2, THEN conjunct2, THEN conjunct2,
      THEN conjunct2, THEN conjunct2, THEN conjunct2, THEN conjunct2, THEN conjunct2,
      THEN conjunct2, THEN conjunct2, THEN conjunct1] delete_one(1)
  have n3: "tables (snd (handle (DeleteStudent 1) store_down)) = tables store_down"
    by simp
  from identifiers_assigned [where w = two_students and t = Student and k = 1
      and b = "Message ''Student deleted successfully''",
      THEN conjunct2, THEN conjunct2, THEN conjunct2, THEN conjunct2, THEN conjunct2,
      THEN conjunct2, THEN conjunct2, THEN conjunct2, THEN conjunct2, THEN conjunct2,
      THEN conjunct2, THEN conjunct2, THEN conjunct2, THEN conjunct1] delete_one(2)
  obtain td where td: "tables two_students Student = Some td"
    "tables (snd (handle (delete_route Student 1) two_students)) =
      (tables two_students)(Student := Some (td\<lparr>rows := filter (\<lambda>r. row_id r \<noteq> 1) (rows td)\<rparr>))"
    by auto
  from td(1) two_students_table have "td = ann_bea" by simp
  with fun_cong [OF td(2), of Student]
  have d1: "tables (snd (handle (DeleteStudent 1) two_students)) Student =
     Some (ann_bea\<lparr>rows := [student 2 ''class_name'' ''Bea'' ''8'' ''5A'']\<rparr>)"
    by (simp add: f)
  from identifiers_assigned [where w = served_p0 and name = "Some ''Ann''"
      and second = "Some ''7''" and className = "Some ''5A''"
      and tb = "\<lparr>text_columns = student_columns_p0, rows = [], auto_increment = 1\<rparr>",
      THEN conjunct2, THEN conjunct2, THEN conjunct2, THEN conjunct2, THEN conjunct2,
      THEN conjunct2, THEN conjunct2, THEN conjunct2, THEN conjunct2, THEN conjunct2,
      THEN conjunct2, THEN conjunct2, THEN conjunct2, THEN conjunct2, THEN conjunct1]
    q(1) s served_p0_tables(1) wf_empty [of student_columns_p0] tc
  have "tables (snd (handle_p0 (AddStudent (Some ''Ann'') (Some ''7'') (Some ''5A'')) served_p0)) =
      (tables served_p0)(Student := Some (\<lparr>text_columns = student_columns_p0, rows = [], auto_increment = 1\<rparr>
        \<lparr>rows := rows \<lparr>text_columns = student_columns_p0, rows = [], auto_increment = 1\<rparr> @
           [\<lparr>row_id = next_id \<lparr>text_columns = student_columns_p0, rows = [], auto_increment = 1\<rparr>,
             row_cells = [(''name'', Some ''Ann''), (''roll_number'', Some ''7''), (''class'', Some ''5A'')],
             row_created_at = clock served_p0\<rparr>],
           auto_increment := max (auto_increment \<lparr>text_columns = student_columns_p0, rows = [], auto_increment = 1\<rparr>)
             (next_id \<lparr>text_columns = student_columns_p0, rows = [], auto_increment = 1\<rparr> + 1)\<rparr>))"
    by blast
  from fun_cong [OF this, of Student]
  have c: "tables (snd (handle_p0 (AddStudent (Some ''Ann'') (Some ''7'') (Some ''5A'')) served_p0))
       Student =
     Some \<lparr>text_columns = student_columns_p0,
           rows = [student 1 ''class'' ''Ann'' ''7'' ''5A''], auto_increment = 2\<rparr>"
    by (simp add: clock_served student_def next_id_def)
  from identifiers_assigned [where w = served_p0 and name = "Some ''Bob''"
      and second = "Some ''Math''" and className = "Some ''5A''"
      and tc = "\<lparr>text_columns = teacher_columns_p0, rows = [], auto_increment = 1\<rparr>",
      THEN conjunct2, THEN conjunct2, THEN conjunct2, THEN conjunct2, THEN conjunct2,
      THEN conjunct2, THEN conjunct2, THEN conjunct2, THEN conjunct2, THEN conjunct2,
      THEN conjunct2, THEN conjunct2, THEN conjunct2, THEN conjunct2, THEN conjunct2,
      THEN conjunct1]
    q(1) s served_p0_tables(2) wf_empty [of teacher_columns_p0] tc
  have "tables (snd (handle_p0 (AddTeacher (Some ''Bob'') (Some ''Math'') (Some ''5A'')) served_p0)) =
      (tables served_p0)(Teacher := Some (\<lparr>text_columns = teacher_columns_p0, rows = [], auto_increment = 1\<rparr>
        \<lparr>rows := rows \<lparr>text_columns = teacher_columns_p0, rows = [], auto_increment = 1\<rparr> @
           [\<lparr>row_id = next_id \<lparr>text_columns = teacher_columns_p0, rows = [], auto_increment = 1\<rparr>,
             row_cells = [(''name'', Some ''Bob''), (''subject'', Some ''Math''), (''class'', Some ''5A'')],
             row_created_at = clock served_p0\<rparr>],
           auto_increment := max (auto_increment \<lparr>text_columns = teacher_columns_p0, rows = [], auto_increment = 1\<rparr>)
             (next_id \<lparr>text_columns = teacher_columns_p0, rows = [], auto_increment = 1\<rparr> + 1)\<rparr>))"
    by blast
  from fun_cong [OF this, of Teacher]
  have c2: "tables (snd (handle_p0 (AddTeacher (Some ''Bob'') (Some ''Math'') (Some ''5A'')) served_p0))
       Teacher =
     Some \<lparr>text_columns = teacher_columns_p0,
           rows = [\<lparr>row_id = 1,
                    row_cells = [(''name'', Some ''Bob''), (''subject'', Some ''Math''),
                                 (''class'', Some ''5A'')],
                    row_created_at = 0\<rparr>],
           auto_increment = 2\<rparr>"
    by (simp add: clock_served next_id_def)
  from identifiers_assigned [where w = two_students_p0 and t = Student and td = ann_bea_p0
      and k = 1,
      THEN conjunct2, THEN conjunct2, THEN conjunct2, THEN conjunct2, THEN conjunct2,
      THEN conjunct2, THEN conjunct2, THEN conjunct2, THEN conjunct2, THEN conjunct2,
      THEN conjunct2, THEN conjunct2, THEN conjunct2, THEN conjunct2, THEN conjunct2,
      THEN conjunct2] q(2) two_students_p0_table wf_ann_bea(2)
  have "tables (snd (handle_p0 (delete_route Student 1) two_students_p0)) =
      (tables two_students_p0)(Student := Some (ann_bea_p0\<lparr>rows :=
         renumbered 0 (filter (\<lambda>r. row_id r \<noteq> 1) (rows ann_bea_p0))\<rparr>))"
    by blast
  from fun_cong [OF this, of Student]
  have d: "tables (snd (handle_p0 (DeleteStudent 1) two_students_p0)) Student =
     Some (ann_bea_p0\<lparr>rows := [student 1 ''class'' ''Bea'' ''8'' ''5A'']\<rparr>)"
    unfolding f by simp
  from a four_requests_list wf_two_students k n1 b n2 b2 n3 d1 c c2 d show ?thesis
    by - ((elim conjE)?, intro conjI, assumption+)
qed

text \<open>
  C5 as stated fails in \<^verbatim>\<open>src/unnamed/part_000\<close>: after student 2 (Bea) is deleted the counter
  of the store stands at 3, and the next student (Cy) gets the identifier 2, computed by the
  handler, which Bea had before.
\<close>

theorem identifier_reused_p0_counterexample:
  "fst (handle_p0 GetStudent two_students_p0) =
     Responded 200 (Records [student 1 ''class'' ''Ann'' ''7'' ''5A'',
                             student 2 ''class'' ''Bea'' ''8'' ''5A'']) \<and>
   map_option auto_increment
     (tables (serve handle_p0 [DeleteStudent 2] two_students_p0) Student) = Some 3 \<and>
   fst (handle_p0 GetStudent
          (serve handle_p0
             [DeleteStudent 2, AddStudent (Some ''Cy'') (Some ''9'') (Some ''5A'')]
             two_students_p0)) =
     Responded 200 (Records [student 1 ''class'' ''Ann'' ''7'' ''5A'',
                             student 2 ''class'' ''Cy'' ''9'' ''5A''])"
  by code_simp


end
